theory Spec2Isabelle
  imports Complex_Main
begin

section \<open>Single-target detection in echopype: the two detectors\<close>

text \<open>
  The development embeds \<^verbatim>\<open>detect_esp3.py\<close> (variant A, the threshold-and-pulse-shape
  detector) and \<^verbatim>\<open>detect_matecho.py\<close> (variant B, the energy-surrogate detector).

  Numbers. A cell of a data array is a real number, plus or minus infinity, or NaN,
  with the comparisons and the arithmetic of IEEE 754 on these special values;
  rounding error is outside the model (a finite float is the real number it stands
  for). Configuration values and scalar metadata are finite reals, except the two bounds
  of the depth band of variant B, which may be infinite to leave the band open.
  Python integers are \<open>int\<close>, array indices and counts are \<open>nat\<close>.
\<close>

subsection \<open>Floats of the data arrays\<close>

datatype flt = Fin real | PInf | MInf | NaN

text \<open>\<^verbatim>\<open>np.isfinite\<close>, and the comparisons: false as soon as one side is NaN.\<close>

fun isfinite :: "flt \<Rightarrow> bool" where
  "isfinite (Fin x) = True"
| "isfinite a = False"

fun fge :: "flt \<Rightarrow> flt \<Rightarrow> bool" where
  "fge NaN b = False"
| "fge a NaN = False"
| "fge PInf b = True"
| "fge a MInf = True"
| "fge (Fin x) (Fin y) = (x \<ge> y)"
| "fge a b = False"

fun fgt :: "flt \<Rightarrow> flt \<Rightarrow> bool" where
  "fgt NaN b = False"
| "fgt a NaN = False"
| "fgt (Fin x) (Fin y) = (x > y)"
| "fgt PInf PInf = False"
| "fgt MInf b = False"
| "fgt PInf b = True"
| "fgt a MInf = True"
| "fgt a b = False"

definition fle :: "flt \<Rightarrow> flt \<Rightarrow> bool" where
  "fle a b = fge b a"

text \<open>Arithmetic on cells: NaN propagates, and so do the infinities where IEEE 754 gives
  them a value.\<close>

fun fneg :: "flt \<Rightarrow> flt" where
  "fneg (Fin x) = Fin (- x)"
| "fneg PInf = MInf"
| "fneg MInf = PInf"
| "fneg NaN = NaN"

fun fadd :: "flt \<Rightarrow> flt \<Rightarrow> flt" where
  "fadd NaN b = NaN"
| "fadd a NaN = NaN"
| "fadd (Fin x) (Fin y) = Fin (x + y)"
| "fadd PInf MInf = NaN"
| "fadd MInf PInf = NaN"
| "fadd PInf b = PInf"
| "fadd MInf b = MInf"
| "fadd a b = b"

definition fsub :: "flt \<Rightarrow> flt \<Rightarrow> flt" where
  "fsub a b = fadd a (fneg b)"

fun fmul :: "flt \<Rightarrow> flt \<Rightarrow> flt" where
  "fmul NaN b = NaN"
| "fmul a NaN = NaN"
| "fmul (Fin x) (Fin y) = Fin (x * y)"
| "fmul (Fin x) b = (if x = 0 then NaN else if x > 0 then b else fneg b)"
| "fmul a (Fin y) = (if y = 0 then NaN else if y > 0 then a else fneg a)"
| "fmul PInf b = b"
| "fmul MInf b = fneg b"

text \<open>Array division: a zero divisor gives an infinity or NaN, no exception.\<close>

fun fdiv :: "flt \<Rightarrow> flt \<Rightarrow> flt" where
  "fdiv NaN b = NaN"
| "fdiv a NaN = NaN"
| "fdiv (Fin x) (Fin y) =
     (if y \<noteq> 0 then Fin (x / y) else if x = 0 then NaN else if x > 0 then PInf else MInf)"
| "fdiv (Fin x) b = Fin 0"
| "fdiv a (Fin y) = (if y \<ge> 0 then a else fneg a)"
| "fdiv a b = NaN"

text \<open>\<^verbatim>\<open>np.maximum\<close> propagates NaN.\<close>

fun fmaximum :: "flt \<Rightarrow> flt \<Rightarrow> flt" where
  "fmaximum NaN b = NaN"
| "fmaximum a NaN = NaN"
| "fmaximum a b = (if fge a b then a else b)"

text \<open>
  The decimal logarithm of a positive real. Its code equation evaluates it at 1 and at
  10, the two values that the examples of this development need.
\<close>

definition log10 :: "real \<Rightarrow> real" where
  "log10 x = log 10 x"

lemma log10_code [code]:
  "log10 x =
     (if x = 1 then 0 else if x = 10 then 1 else Code.abort (STR ''log10'') (\<lambda>_. log10 x))"
  by (simp add: log10_def)

text \<open>\<^verbatim>\<open>np.log10\<close> on a cell.\<close>

fun flog10 :: "flt \<Rightarrow> flt" where
  "flog10 (Fin x) = (if x > 0 then Fin (log10 x) else if x = 0 then MInf else NaN)"
| "flog10 PInf = PInf"
| "flog10 a = NaN"

text \<open>The finite values of an array, in order: \<^verbatim>\<open>seg[np.isfinite(seg)]\<close>.\<close>

fun finite_values :: "flt list \<Rightarrow> real list" where
  "finite_values [] = []"
| "finite_values (Fin x # xs) = x # finite_values xs"
| "finite_values (a # xs) = finite_values xs"

subsection \<open>Python helpers\<close>

text \<open>\<^verbatim>\<open>round\<close> of Python 3 rounds a tie to the even integer; \<^verbatim>\<open>int\<close> truncates towards zero.\<close>

definition py_round :: "real \<Rightarrow> int" where
  "py_round x =
     (let f = \<lfloor>x\<rfloor>; r = x - of_int f
      in if r < 1 / 2 then f else if r > 1 / 2 then f + 1 else if even f then f else f + 1)"

definition py_int :: "real \<Rightarrow> int" where
  "py_int x = (if x \<ge> 0 then \<lfloor>x\<rfloor> else \<lceil>x\<rceil>)"

text \<open>\<^verbatim>\<open>xs[start:stop]\<close>: a negative bound counts from the end, both are clipped.\<close>

definition py_slice :: "'a list \<Rightarrow> int \<Rightarrow> int \<Rightarrow> 'a list" where
  "py_slice xs start stop =
     (let n = int (length xs);
          s = (if start < 0 then max 0 (start + n) else min start n);
          e = (if stop < 0 then max 0 (stop + n) else min stop n)
      in take (nat (e - s)) (drop (nat s) xs))"

text \<open>The largest and the smallest element of a non-empty list (\<^verbatim>\<open>max\<close>, \<^verbatim>\<open>min\<close>, \<^verbatim>\<open>np.nanmax\<close>
  on an array without NaN); on the empty list the source raises, and every caller below
  tests for it first.\<close>

fun maximum :: "'a::linorder list \<Rightarrow> 'a" where
  "maximum [] = undefined"
| "maximum [x] = x"
| "maximum (x # y # ys) = max x (maximum (y # ys))"

fun minimum :: "'a::linorder list \<Rightarrow> 'a" where
  "minimum [] = undefined"
| "minimum [x] = x"
| "minimum (x # y # ys) = min x (minimum (y # ys))"

text \<open>\<^verbatim>\<open>median(skipna=True)\<close>: the median of the values that are not NaN (the middle
  one, or the mean of the two middle ones), NaN when there is none.\<close>

fun finsert :: "flt \<Rightarrow> flt list \<Rightarrow> flt list" where
  "finsert x [] = [x]"
| "finsert x (y # ys) = (if fge y x then x # y # ys else y # finsert x ys)"

definition fsort :: "flt list \<Rightarrow> flt list" where
  "fsort xs = foldr finsert xs []"

definition nanmedian :: "flt list \<Rightarrow> flt" where
  "nanmedian xs =
     (let s = fsort (filter (\<lambda>x. x \<noteq> NaN) xs); n = length s
      in if n = 0 then NaN
         else if odd n then s ! (n div 2)
         else fmul (Fin (1 / 2)) (fadd (s ! (n div 2 - 1)) (s ! (n div 2))))"

text \<open>\<^verbatim>\<open>diff("range_sample")\<close> of one ping.\<close>

fun diff :: "flt list \<Rightarrow> flt list" where
  "diff (x # y # ys) = fsub y x # diff (y # ys)"
| "diff _ = []"

datatype error =
    ValueError string
  | KeyError
  | IndexError
  | ZeroDivisionError

subsection \<open>Block partitioning (both detectors)\<close>

text \<open>
  \<^verbatim>\<open>cells_per_ping = max(1, idx_r_tot.size)\<close>
  \<^verbatim>\<open>block_size = int(min(math.ceil(float(p["block_len"]) / cells_per_ping), idx_pings_tot.size))\<close>
\<close>

definition cells_per_ping :: "nat \<Rightarrow> nat" where
  "cells_per_ping n_rows = max 1 n_rows"

definition block_size :: "real \<Rightarrow> nat \<Rightarrow> nat \<Rightarrow> int" where
  "block_size blen n_rows n_pings =
     min \<lceil>blen / real (cells_per_ping n_rows)\<rceil> (int n_pings)"

text \<open>Variant A: \<^verbatim>\<open>int(math.ceil(idx_pings_tot.size / block_size)) if block_size > 0 else 0\<close>.\<close>

definition num_ite_esp3 :: "int \<Rightarrow> nat \<Rightarrow> nat" where
  "num_ite_esp3 bs n_pings = (if bs > 0 then nat \<lceil>real n_pings / real_of_int bs\<rceil> else 0)"

text \<open>Variant B: \<^verbatim>\<open>int(math.ceil(idx_pings_tot.size / max(block_size, 1)))\<close>.\<close>

definition num_ite_matecho :: "int \<Rightarrow> nat \<Rightarrow> nat" where
  "num_ite_matecho bs n_pings = nat \<lceil>real n_pings / real_of_int (max bs 1)\<rceil>"

text \<open>The pings of block \<open>ui\<close>:
  \<^verbatim>\<open>idx_pings_tot[ui * block_size : min((ui + 1) * block_size, idx_pings_tot.size)]\<close>.\<close>

definition block_pings :: "int \<Rightarrow> nat \<Rightarrow> nat \<Rightarrow> nat list" where
  "block_pings bs n_pings ui =
     py_slice [0..<n_pings] (int ui * bs) (min ((int ui + 1) * bs) (int n_pings))"

subsection \<open>The dataset, the configuration and the output structure\<close>

text \<open>
  A navigation variable of the dataset either has a time-like dimension (its
  coordinate in nanoseconds with the value at it) or is a plain one-dimensional array.
\<close>

datatype navvar = Timed "(int \<times> flt) list" | Untimed "flt list"

text \<open>
  What the detectors read for one channel: \<open>Sv\<close> and \<open>depth\<close> as
  \<^verbatim>\<open>[ping_time][range_sample]\<close>, the ping timestamps (nanoseconds), the optional
  split-beam angles and scalar metadata (\<open>None\<close>: the variable is absent or has no usable
  value), and the variables the navigation lookup probes by name.
\<close>

record channel_data =
  Sv :: "flt list list"
  depth :: "flt list list"
  ping_time :: "int list"
  angle_alongship :: "flt list list option"
  angle_athwartship :: "flt list list option"
  sound_absorption :: "real option"
  transducer_depth :: "real option"
  variables :: "string \<Rightarrow> navvar option"

type_synonym dataset = "string \<Rightarrow> channel_data option"

text \<open>\<^verbatim>\<open>Sv.sizes["range_sample"]\<close>.\<close>

definition nb_samples :: "channel_data \<Rightarrow> nat" where
  "nb_samples cd = (case Sv cd of [] \<Rightarrow> 0 | row # _ \<Rightarrow> length row)"

text \<open>
  The arrays of a dataset are rectangular and aligned; a bottom line has one depth per
  ping.
\<close>

definition wf_channel :: "channel_data \<Rightarrow> bool" where
  "wf_channel cd \<longleftrightarrow>
     length (depth cd) = length (Sv cd) \<and> length (ping_time cd) = length (Sv cd) \<and>
     list_all (\<lambda>row. length row = nb_samples cd) (Sv cd) \<and>
     list_all (\<lambda>row. length row = nb_samples cd) (depth cd)"

text \<open>
  The configuration dictionary after the merge with the defaults
  (\<^verbatim>\<open>p = {**DEFAULTS, **params}\<close>), together with the two routing keys
  \<^verbatim>\<open>channel\<close> and \<^verbatim>\<open>bottom_da\<close>: a key the caller leaves out holds its default. \<open>Np\<close> has
  no default (\<open>None\<close>: absent); \<^verbatim>\<open>pulse_length\<close> is read with
  \<^verbatim>\<open>p.get("pulse_length", 1e-3)\<close>. A key that a variant never reads is 0 in its
  defaults.
\<close>

record params =
  channel :: "string option"
  bottom_da :: "flt list option"
  SoundSpeed :: real
  TS_threshold :: real
  PLDL :: real
  MinNormPL :: real
  MaxNormPL :: real
  DataType :: string
  block_len :: real
  Np :: "int option"
  pulse_length :: real
  MaxAngleOneWayCompression :: real
  MinEchoLength :: real
  MaxEchoLength :: real
  MinEchoSpace :: real
  MinEchoDepthM :: flt
  MaxEchoDepthM :: flt
  tvg_start_sample :: int
  beamwidth_along_3dB_rad :: real
  beamwidth_athwart_3dB_rad :: real
  steer_along_rad :: real
  steer_athwart_rad :: real
  psi_two_way :: real
  Sa_correction :: real
  Sa_EK80_nominal :: real

definition DEFAULTS :: params where
  "DEFAULTS = \<lparr> channel = None, bottom_da = None,
     SoundSpeed = 1500, TS_threshold = -50, PLDL = 6, MinNormPL = 7 / 10, MaxNormPL = 15 / 10,
     DataType = ''CW'', block_len = 10000000 / 3, Np = None, pulse_length = 1 / 1000,
     MaxAngleOneWayCompression = 0, MinEchoLength = 0, MaxEchoLength = 0, MinEchoSpace = 0,
     MinEchoDepthM = Fin 0, MaxEchoDepthM = Fin 0, tvg_start_sample = 0,
     beamwidth_along_3dB_rad = 0, beamwidth_athwart_3dB_rad = 0,
     steer_along_rad = 0, steer_athwart_rad = 0,
     psi_two_way = 0, Sa_correction = 0, Sa_EK80_nominal = 0 \<rparr>"

definition MATECHO_DEFAULTS :: params where
  "MATECHO_DEFAULTS = \<lparr> channel = None, bottom_da = None,
     SoundSpeed = 1500, TS_threshold = -50, PLDL = 0, MinNormPL = 0, MaxNormPL = 0,
     DataType = ''CW'', block_len = 10000000 / 3, Np = None, pulse_length = 1 / 1000,
     MaxAngleOneWayCompression = 6, MinEchoLength = 8 / 10, MaxEchoLength = 18 / 10,
     MinEchoSpace = 1, MinEchoDepthM = Fin 3, MaxEchoDepthM = Fin 38, tvg_start_sample = 3,
     beamwidth_along_3dB_rad = 7 * pi / 180, beamwidth_athwart_3dB_rad = 7 * pi / 180,
     steer_along_rad = 0, steer_athwart_rad = 0,
     psi_two_way = 0, Sa_correction = 0, Sa_EK80_nominal = 0 \<rparr>"

text \<open>\<^verbatim>\<open>init_st_struct\<close>: the output, one list per field and a count.\<close>

record st_struct =
  TS_comp :: "flt list"
  TS_uncomp :: "flt list"
  Target_range :: "flt list"
  Target_range_disp :: "flt list"
  Target_range_min :: "flt list"
  Target_range_max :: "flt list"
  idx_r :: "nat list"
  StandDev_Angles_Minor_Axis :: "flt list"
  StandDev_Angles_Major_Axis :: "flt list"
  Angle_minor_axis :: "flt list"
  Angle_major_axis :: "flt list"
  Ping_number :: "nat list"
  Time :: "int list"
  nb_valid_targets :: nat
  idx_target_lin :: "nat list"
  pulse_env_before_lin :: "nat list"
  pulse_env_after_lin :: "nat list"
  PulseLength_Normalized_PLDL :: "flt list"
  Transmitted_pulse_length :: "nat list"
  Heave :: "flt list"
  Roll :: "flt list"
  Pitch :: "flt list"
  Heading :: "flt list"
  Dist :: "flt list"

definition init_st_struct :: st_struct where
  "init_st_struct = \<lparr> TS_comp = [], TS_uncomp = [], Target_range = [], Target_range_disp = [],
     Target_range_min = [], Target_range_max = [], idx_r = [],
     StandDev_Angles_Minor_Axis = [], StandDev_Angles_Major_Axis = [],
     Angle_minor_axis = [], Angle_major_axis = [], Ping_number = [], Time = [],
     nb_valid_targets = 0, idx_target_lin = [], pulse_env_before_lin = [],
     pulse_env_after_lin = [], PulseLength_Normalized_PLDL = [], Transmitted_pulse_length = [],
     Heave = [], Roll = [], Pitch = [], Heading = [], Dist = [] \<rparr>"

subsection \<open>Variant A: parameter validation\<close>

definition validate_params :: "params \<Rightarrow> error + unit" where
  "validate_params p =
     (if DataType p \<noteq> ''CW'' then Inl (ValueError ''Only CW supported at this stage.'')
      else if \<not> (-120 \<le> TS_threshold p \<and> TS_threshold p \<le> -20)
        then Inl (ValueError ''TS_threshold must be in [-120, -20] dB.'')
      else if \<not> (1 \<le> PLDL p \<and> PLDL p \<le> 30)
        then Inl (ValueError ''PLDL must be in [1, 30] dB.'')
      else if \<not> (0 \<le> MinNormPL p \<and> MinNormPL p \<le> 10)
        then Inl (ValueError ''MinNormPL must be in [0, 10].'')
      else if \<not> (0 \<le> MaxNormPL p \<and> MaxNormPL p \<le> 10)
        then Inl (ValueError ''MaxNormPL must be in [0, 10].'')
      else if block_len p \<le> 0 then Inl (ValueError ''block_len must be > 0.'')
      else Inr ())"

subsection \<open>Bottom index and masks (both detectors)\<close>

text \<open>\<^verbatim>\<open>under = np.nonzero(np.isfinite(D[ip]) & (D[ip] >= b[ip]))[0]\<close> and
  \<^verbatim>\<open>idx_bot[ip] = under[0] if under.size else (nb_samples_tot - 1)\<close>.\<close>

definition under :: "flt list \<Rightarrow> flt \<Rightarrow> nat list" where
  "under D b = filter (\<lambda>i. isfinite (D ! i) \<and> fge (D ! i) b) [0..<length D]"

definition idx_bot :: "flt list \<Rightarrow> flt \<Rightarrow> nat \<Rightarrow> int" where
  "idx_bot D b nb_samples_tot =
     (case under D b of [] \<Rightarrow> int nb_samples_tot - 1 | i # _ \<Rightarrow> int i)"

text \<open>The rows kept for a set of pings: \<^verbatim>\<open>idx_r[idx_r <= max_idx]\<close> with
  \<^verbatim>\<open>max_idx = int(np.nanmax(idx_bot))\<close> over these pings.\<close>

definition max_idx :: "channel_data \<Rightarrow> flt list \<Rightarrow> nat list \<Rightarrow> int" where
  "max_idx cd b pings =
     maximum (map (\<lambda>ip. idx_bot (depth cd ! ip) (b ! ip) (nb_samples cd)) pings)"

definition block_rows :: "channel_data \<Rightarrow> flt list option \<Rightarrow> nat list \<Rightarrow> nat list \<Rightarrow> nat list" where
  "block_rows cd bb idx_r_tot idx_pings =
     (case bb of
        None \<Rightarrow> idx_r_tot
      | Some b \<Rightarrow>
          if idx_pings \<noteq> [] then filter (\<lambda>r. int r \<le> max_idx cd b idx_pings) idx_r_tot
          else idx_r_tot)"

text \<open>The region mask \<^verbatim>\<open>mask_inter_tot\<close> is all zeros in the source (a placeholder).\<close>

definition mask_inter_tot :: "nat \<Rightarrow> nat \<Rightarrow> bool" where
  "mask_inter_tot r ip = False"

text \<open>\<^verbatim>\<open>mask |= DEP >= bcol\<close>, when a bottom line is given and the block has pings.\<close>

definition under_bottom_mask :: "channel_data \<Rightarrow> flt list option \<Rightarrow> nat list \<Rightarrow> nat \<Rightarrow> nat \<Rightarrow> bool" where
  "under_bottom_mask cd bb idx_pings r ip =
     (case bb of
        None \<Rightarrow> False
      | Some b \<Rightarrow> idx_pings \<noteq> [] \<and> fge (depth cd ! ip ! r) (b ! ip))"

subsection \<open>Variant A: peak picking\<close>

text \<open>
  \<^verbatim>\<open>valid = z > -999.0\<close>
  \<^verbatim>\<open>cand = np.where(valid[1:-1] & (z[1:-1] > z[:-2]) & (z[1:-1] >= z[2:]))[0] + 1\<close>
\<close>

definition esp3_cand :: "flt list \<Rightarrow> nat list" where
  "esp3_cand z =
     filter (\<lambda>k. fgt (z ! k) (Fin (-999)) \<and> fgt (z ! k) (z ! (k - 1)) \<and> fge (z ! k) (z ! (k + 1)))
       [1..<length z - 1]"

text \<open>The minimum separation: \<^verbatim>\<open>if k - last >= Np: keep.append(k); last = k\<close>.\<close>

fun min_separation :: "int \<Rightarrow> int \<Rightarrow> nat list \<Rightarrow> nat list" where
  "min_separation Np' last' [] = []"
| "min_separation Np' last' (k # ks) =
     (if int k - last' \<ge> Np' then k # min_separation Np' (int k) ks
      else min_separation Np' last' ks)"

text \<open>The two expansion loops, with \<open>i = k - 1 - left\<close> and \<open>i = k + 1 + right\<close>:
  \<^verbatim>\<open>while i >= 0 and left < max_len and np.isfinite(z[i]) and z[i] >= thr\<close>,
  \<^verbatim>\<open>while i < z.size and right < max_len and np.isfinite(z[i]) and z[i] >= thr\<close>.\<close>

function expand_left :: "flt list \<Rightarrow> nat \<Rightarrow> real \<Rightarrow> int \<Rightarrow> nat \<Rightarrow> nat" where
  "expand_left z k thr max_len' left =
     (if left < k \<and> int left < max_len' \<and> isfinite (z ! (k - 1 - left)) \<and>
         fge (z ! (k - 1 - left)) (Fin thr)
      then expand_left z k thr max_len' (left + 1) else left)"
  by pat_completeness auto
termination
  by (relation "measure (\<lambda>(z, k, thr, max_len', left). k - left)") auto

function expand_right :: "flt list \<Rightarrow> nat \<Rightarrow> real \<Rightarrow> int \<Rightarrow> nat \<Rightarrow> nat" where
  "expand_right z k thr max_len' right =
     (if k + 1 + right < length z \<and> int right < max_len' \<and> isfinite (z ! (k + 1 + right)) \<and>
         fge (z ! (k + 1 + right)) (Fin thr)
      then expand_right z k thr max_len' (right + 1) else right)"
  by pat_completeness auto
termination
  by (relation "measure (\<lambda>(z, k, thr, max_len', right). length z - right)") auto

declare expand_left.simps [simp del] expand_right.simps [simp del]

text \<open>\<^verbatim>\<open>min_len = max(1, int(Np * float(p["MinNormPL"])))\<close> and
  \<^verbatim>\<open>max_len = max(1, int(math.ceil(Np * float(p["MaxNormPL"]))))\<close>.\<close>

definition min_len :: "int \<Rightarrow> params \<Rightarrow> int" where
  "min_len Np' p = max 1 (py_int (of_int Np' * MinNormPL p))"

definition max_len :: "int \<Rightarrow> params \<Rightarrow> int" where
  "max_len Np' p = max 1 \<lceil>of_int Np' * MaxNormPL p\<rceil>"

text \<open>
  The "save detection" block of variant A: one append per field. The appends to
  \<^verbatim>\<open>Angle_minor_axis\<close>, \<^verbatim>\<open>Angle_major_axis\<close>, \<^verbatim>\<open>Heave\<close>, \<^verbatim>\<open>Roll\<close>, \<^verbatim>\<open>Pitch\<close>,
  \<^verbatim>\<open>Heading\<close> and \<^verbatim>\<open>Dist\<close> are commented out in the source.
\<close>

definition esp3_save ::
  "st_struct \<Rightarrow> real \<Rightarrow> real \<Rightarrow> real \<Rightarrow> real \<Rightarrow> real \<Rightarrow> real \<Rightarrow> nat \<Rightarrow> nat \<Rightarrow> int \<Rightarrow> nat \<Rightarrow>
   nat \<Rightarrow> nat \<Rightarrow> real \<Rightarrow> nat \<Rightarrow> st_struct" where
  "esp3_save out ts_comp ts_uncomp r_peak r_disp r_min r_max idx ping tm lin left right
     plen_norm plen =
     out \<lparr> TS_comp := TS_comp out @ [Fin ts_comp],
           TS_uncomp := TS_uncomp out @ [Fin ts_uncomp],
           Target_range := Target_range out @ [Fin r_peak],
           Target_range_disp := Target_range_disp out @ [Fin r_disp],
           Target_range_min := Target_range_min out @ [Fin r_min],
           Target_range_max := Target_range_max out @ [Fin r_max],
           idx_r := idx_r out @ [idx],
           Ping_number := Ping_number out @ [ping],
           Time := Time out @ [tm],
           idx_target_lin := idx_target_lin out @ [lin],
           pulse_env_before_lin := pulse_env_before_lin out @ [left],
           pulse_env_after_lin := pulse_env_after_lin out @ [right],
           PulseLength_Normalized_PLDL := PulseLength_Normalized_PLDL out @ [Fin plen_norm],
           Transmitted_pulse_length := Transmitted_pulse_length out @ [plen],
           StandDev_Angles_Minor_Axis := StandDev_Angles_Minor_Axis out @ [NaN],
           StandDev_Angles_Major_Axis := StandDev_Angles_Major_Axis out @ [NaN] \<rparr>"

text \<open>
  One kept candidate \<open>k\<close> of a ping column \<open>z\<close> (signal) and \<open>d\<close> (depth): every
  \<^verbatim>\<open>continue\<close> of the source leaves the output as it is, and a candidate that passes
  every test is saved. \<open>rows\<close> is the block's \<^verbatim>\<open>idx_r\<close>, \<open>ping\<close> is
  \<^verbatim>\<open>idx_pings[jp]\<close>.
\<close>

definition esp3_candidate ::
  "params \<Rightarrow> real \<Rightarrow> real \<Rightarrow> int \<Rightarrow> nat \<Rightarrow> int list \<Rightarrow> nat list \<Rightarrow> nat \<Rightarrow>
   flt list \<Rightarrow> flt list \<Rightarrow> nat \<Rightarrow> st_struct \<Rightarrow> st_struct" where
  "esp3_candidate p alpha T Np' nb_samples_tot tms rows ping z d k out =
     (case z ! k of
        Fin pk \<Rightarrow>
          if pk \<le> TS_threshold p then out
          else
            let thr = pk - PLDL p;
                left = expand_left z k thr (max_len Np' p) 0;
                right = expand_right z k thr (max_len Np' p) 0;
                plen = 1 + left + right
            in
              if int plen < min_len Np' p \<or> int plen > max_len Np' p then out
              else
                let seg = finite_values (py_slice d (int k - int left) (int k + int right + 1))
                in
                  if seg = [] then out
                  else
                    let r_min = minimum seg;
                        r_max = maximum seg;
                        r_peak = (case d ! k of Fin x \<Rightarrow> x | _ \<Rightarrow> 0.5 * (r_min + r_max));
                        r_eff_peak = r_peak - SoundSpeed p * T / 4
                    in
                      if r_eff_peak \<le> 0 then out
                      else
                        let TVG_peak = 40 * log10 r_eff_peak + 2 * alpha * r_eff_peak;
                            ts_uncomp = pk + TVG_peak;
                            ts_comp = ts_uncomp
                        in
                          if ts_comp \<le> TS_threshold p then out
                          else esp3_save out ts_comp ts_uncomp r_peak
                                 (r_peak + SoundSpeed p * T / 4) r_min r_max (rows ! k) ping
                                 (tms ! ping) (ping * nb_samples_tot + rows ! k) left right
                                 (real plen / of_int Np') plen
      | _ \<Rightarrow> out)"

text \<open>One ping column: \<^verbatim>\<open>if z.size < 3: continue\<close>, the candidates, the minimum
  separation with \<^verbatim>\<open>last = -(10**9)\<close>, then the kept candidates from left to right.\<close>

definition esp3_keep :: "int \<Rightarrow> flt list \<Rightarrow> nat list" where
  "esp3_keep Np' z = min_separation Np' (- (10 ^ 9)) (esp3_cand z)"

definition esp3_ping ::
  "params \<Rightarrow> real \<Rightarrow> real \<Rightarrow> int \<Rightarrow> nat \<Rightarrow> int list \<Rightarrow> nat list \<Rightarrow> nat \<Rightarrow>
   flt list \<Rightarrow> flt list \<Rightarrow> st_struct \<Rightarrow> st_struct" where
  "esp3_ping p alpha T Np' nb_samples_tot tms rows ping z d out =
     (if length z < 3 then out
      else fold (esp3_candidate p alpha T Np' nb_samples_tot tms rows ping z d)
             (esp3_keep Np' z) out)"

subsection \<open>Variant A: one block and the whole run\<close>

text \<open>The block's signal with the mask applied (\<^verbatim>\<open>TS[mask] = -999.0\<close>) and its depths,
  one column per ping of the block.\<close>

definition esp3_TS :: "channel_data \<Rightarrow> flt list option \<Rightarrow> nat list \<Rightarrow> nat list \<Rightarrow> flt list list" where
  "esp3_TS cd bb idx_pings rows =
     map (\<lambda>ip. map (\<lambda>r. if mask_inter_tot r ip \<or> under_bottom_mask cd bb idx_pings r ip
                         then Fin (-999) else Sv cd ! ip ! r) rows) idx_pings"

definition block_DEP :: "channel_data \<Rightarrow> nat list \<Rightarrow> nat list \<Rightarrow> flt list list" where
  "block_DEP cd idx_pings rows = map (\<lambda>ip. map (\<lambda>r. depth cd ! ip ! r) rows) idx_pings"

text \<open>
  Block \<open>ui\<close>: the rows are cropped to the block's deepest bottom index, a block with
  no cell above -999 is skipped, trailing rows that are masked in every ping are
  removed, and the pings are searched in order.
\<close>

definition esp3_block ::
  "channel_data \<Rightarrow> flt list option \<Rightarrow> params \<Rightarrow> real \<Rightarrow> real \<Rightarrow> int \<Rightarrow> nat list \<Rightarrow> int \<Rightarrow>
   nat \<Rightarrow> st_struct \<Rightarrow> st_struct" where
  "esp3_block cd bb p alpha T Np' idx_r_tot bs ui out =
     (let idx_pings = block_pings bs (length (Sv cd)) ui;
          rows = block_rows cd bb idx_r_tot idx_pings;
          TS = esp3_TS cd bb idx_pings rows;
          DEP = block_DEP cd idx_pings rows
      in
        if \<not> (\<exists>col \<in> set TS. \<exists>x \<in> set col. fgt x (Fin (-999))) then out
        else
          let valid_rows =
                filter (\<lambda>i. \<exists>col \<in> set TS. fgt (col ! i) (Fin (-999))) [0..<length rows];
              last_row = maximum valid_rows;
              TS' = map (take (last_row + 1)) TS;
              DEP' = map (take (last_row + 1)) DEP;
              rows' = take (last_row + 1) rows
          in
            if DataType p = ''CW'' then
              fold (\<lambda>jp. esp3_ping p alpha T Np' (nb_samples cd) (ping_time cd) rows'
                              (idx_pings ! jp) (TS' ! jp) (DEP' ! jp))
                [0..<length idx_pings] out
            else out)"

text \<open>
  The pulse length in samples: \<^verbatim>\<open>Np\<close> of the configuration when it is above 2,
  else from the median depth step: \<^verbatim>\<open>dt = (2.0 * dstep) / c if dstep > 0 else 1e-4\<close>,
  \<^verbatim>\<open>Np = max(3, int(round(T / dt)))\<close>. An infinite step gives an infinite \<open>dt\<close> and
  \<open>T / dt = 0\<close>.
\<close>

definition derive_Np :: "flt \<Rightarrow> real \<Rightarrow> real \<Rightarrow> error + int" where
  "derive_Np dstep c T =
     (if fgt dstep (Fin 0) then
        (if c = 0 then Inl ZeroDivisionError
         else Inr (max 3 (py_round (case dstep of Fin s \<Rightarrow> T / (2 * s / c) | _ \<Rightarrow> 0))))
      else Inr (max 3 (py_round (T / (1 / 10000)))))"

definition esp3_Np :: "channel_data \<Rightarrow> params \<Rightarrow> error + int" where
  "esp3_Np cd p =
     (let derived = derive_Np (nanmedian (concat (map diff (depth cd)))) (SoundSpeed p) (pulse_length p)
      in case Np p of
           None \<Rightarrow> derived
         | Some n \<Rightarrow> if n > 2 then Inr n else derived)"

text \<open>
  The run on the selected channel: the global row crop (\<^verbatim>\<open>np.nanmax\<close> of an empty
  array raises), the block sizes, the constants, the blocks in order, and the count.
\<close>

definition crop_idx_r_tot :: "channel_data \<Rightarrow> flt list option \<Rightarrow> nat list" where
  "crop_idx_r_tot cd bb =
     (case bb of
        None \<Rightarrow> [0..<nb_samples cd]
      | Some b \<Rightarrow> [0..<nat (max_idx cd b [0..<length (Sv cd)] + 1)])"

definition esp3_run :: "channel_data \<Rightarrow> params \<Rightarrow> error + st_struct" where
  "esp3_run cd p =
     (let nb_pings_tot = length (Sv cd);
          bb = bottom_da p
      in
        if bb \<noteq> None \<and> nb_pings_tot = 0
        then Inl (ValueError ''zero-size array to reduction operation fmax which has no identity'')
        else
          let idx_r_tot = crop_idx_r_tot cd bb;
              bs = block_size (block_len p) (length idx_r_tot) nb_pings_tot;
              num_ite = num_ite_esp3 bs nb_pings_tot;
              alpha = (case sound_absorption cd of None \<Rightarrow> 0 | Some a \<Rightarrow> a);
              T = pulse_length p
          in
            case esp3_Np cd p of
              Inl e \<Rightarrow> Inl e
            | Inr Np' \<Rightarrow>
                let out = fold (esp3_block cd bb p alpha T Np' idx_r_tot bs) [0..<num_ite]
                            init_st_struct
                in Inr (out \<lparr> nb_valid_targets := length (TS_comp out) \<rparr>))"

text \<open>
  \<^verbatim>\<open>detect_esp3(ds, params)\<close>: \<^verbatim>\<open>params = None\<close> becomes the empty dictionary, which has
  no channel; the channel is required, the merged configuration is validated, and the
  channel is selected from the dataset, all before any block.
\<close>

definition detect_esp3 :: "dataset \<Rightarrow> params option \<Rightarrow> error + st_struct" where
  "detect_esp3 ds params =
     (case params of
        None \<Rightarrow> Inl (ValueError ''params['channel'] is required.'')
      | Some p \<Rightarrow>
          (case channel p of
             None \<Rightarrow> Inl (ValueError ''params['channel'] is required.'')
           | Some ch \<Rightarrow>
               (case validate_params p of
                  Inl e \<Rightarrow> Inl e
                | Inr _ \<Rightarrow>
                    (case ds ch of
                       None \<Rightarrow> Inl KeyError
                     | Some cd \<Rightarrow> esp3_run cd p))))"

subsection \<open>Navigation lookup (both detectors)\<close>

text \<open>
  \<^verbatim>\<open>da.reindex(ping_time=..., method="nearest", tolerance=np.timedelta64(500, "ms"))\<close>:
  for every ping the sample nearest in time, NaN when it is further than the tolerance.
  Of two samples at the same distance the one later in the index wins (pandas compares
  the distances with \<^verbatim>\<open><\<close> on an increasing index and \<^verbatim>\<open><=\<close> on a decreasing one); an
  index that is not strictly monotonic is refused.
\<close>

definition tolerance_ns :: int where
  "tolerance_ns = 500 * 1000000"

definition nearest_entry :: "(int \<times> flt) list \<Rightarrow> int \<Rightarrow> (int \<times> flt) option" where
  "nearest_entry tv t =
     fold (\<lambda>sv best.
             case best of
               None \<Rightarrow> Some sv
             | Some sv' \<Rightarrow> if \<bar>t - fst sv\<bar> \<le> \<bar>t - fst sv'\<bar> then Some sv else best)
       tv None"

definition nearest_value :: "(int \<times> flt) list \<Rightarrow> int \<Rightarrow> flt" where
  "nearest_value tv t =
     (case nearest_entry tv t of
        None \<Rightarrow> NaN
      | Some sv \<Rightarrow> if \<bar>t - fst sv\<bar> \<le> tolerance_ns then snd sv else NaN)"

definition reindex_nearest :: "(int \<times> flt) list \<Rightarrow> int list \<Rightarrow> error + flt list" where
  "reindex_nearest tv pt =
     (if sorted_wrt (<) (map fst tv) \<or> sorted_wrt (>) (map fst tv)
      then Inr (map (nearest_value tv) pt)
      else Inl (ValueError ''index must be monotonic increasing or decreasing''))"

text \<open>\<^verbatim>\<open>_pull_nav\<close> of variant A and \<^verbatim>\<open>_fallback_1d_aligned\<close> of variant B are the same
  function: the first name that the dataset has with a time-like dimension, or as a
  one-dimensional array of the pings' length; \<open>None\<close> when no name gives an array.\<close>

fun fallback_1d_aligned ::
  "(string \<Rightarrow> navvar option) \<Rightarrow> string list \<Rightarrow> int list \<Rightarrow> error + flt list option" where
  "fallback_1d_aligned vars [] pt = Inr None"
| "fallback_1d_aligned vars (nm # names) pt =
     (case vars nm of
        None \<Rightarrow> fallback_1d_aligned vars names pt
      | Some (Timed tv) \<Rightarrow>
          (case reindex_nearest tv pt of Inl e \<Rightarrow> Inl e | Inr a \<Rightarrow> Inr (Some a))
      | Some (Untimed a) \<Rightarrow>
          if length a = length pt then Inr (Some a) else fallback_1d_aligned vars names pt)"

text \<open>The array a detector uses: \<^verbatim>\<open>a if a is not None else np.zeros(n)\<close>.\<close>

definition nav_array ::
  "(string \<Rightarrow> navvar option) \<Rightarrow> string list \<Rightarrow> int list \<Rightarrow> error + flt list" where
  "nav_array vars names pt =
     (case fallback_1d_aligned vars names pt of
        Inl e \<Rightarrow> Inl e
      | Inr None \<Rightarrow> Inr (replicate (length pt) (Fin 0))
      | Inr (Some a) \<Rightarrow> Inr a)"

subsection \<open>Variant B: the compensated block\<close>

text \<open>The constants of one run of variant B.\<close>

record matecho_env =
  m_alpha :: real
  m_TD :: real
  m_T :: real
  m_NechP :: int
  m_sv2ts :: flt
  m_ts_range :: "flt list"
  m_R :: "flt list list"
  m_heading :: "flt list"
  m_pitch :: "flt list"
  m_roll :: "flt list"
  m_heave :: "flt list"
  m_dist :: "flt list"

text \<open>
  \<^verbatim>\<open>r_eff = np.maximum(tsr_blk, 1e-6)\<close>
  \<^verbatim>\<open>tsu = Sv_blk + 20.0 * np.log10(r_eff) + sv2ts\<close>
  \<^verbatim>\<open>Plike = tsu - 40.0 * np.log10(r_eff) - 2.0 * alpha * tsr_blk\<close>
\<close>

definition cell_r_eff :: "matecho_env \<Rightarrow> nat \<Rightarrow> flt" where
  "cell_r_eff env r = fmaximum (m_ts_range env ! r) (Fin (1 / 1000000))"

definition cell_tsu :: "channel_data \<Rightarrow> matecho_env \<Rightarrow> nat \<Rightarrow> nat \<Rightarrow> flt" where
  "cell_tsu cd env ip r =
     fadd (fadd (Sv cd ! ip ! r) (fmul (Fin 20) (flog10 (cell_r_eff env r)))) (m_sv2ts env)"

definition cell_Plike :: "channel_data \<Rightarrow> matecho_env \<Rightarrow> nat \<Rightarrow> nat \<Rightarrow> flt" where
  "cell_Plike cd env ip r =
     fsub (fsub (cell_tsu cd env ip r) (fmul (Fin 40) (flog10 (cell_r_eff env r))))
          (fmul (Fin (2 * m_alpha env)) (m_ts_range env ! r))"

text \<open>
  \<^verbatim>\<open>x = 2.0 * ((along_blk - dec_al) / bw_al)\<close>, \<open>y\<close> likewise,
  \<^verbatim>\<open>one_way_comp = 6.0206 * (x**2 + y**2 - 0.18 * (x**2) * (y**2))\<close>; zero without both
  angle arrays.
\<close>

definition one_way_comp :: "channel_data \<Rightarrow> params \<Rightarrow> nat \<Rightarrow> nat \<Rightarrow> flt" where
  "one_way_comp cd p ip r =
     (case angle_alongship cd of
        None \<Rightarrow> Fin 0
      | Some along \<Rightarrow>
          (case angle_athwartship cd of
             None \<Rightarrow> Fin 0
           | Some athwt \<Rightarrow>
               let x = fmul (Fin 2) (fdiv (fsub (along ! ip ! r) (Fin (steer_along_rad p)))
                                          (Fin (beamwidth_along_3dB_rad p)));
                   y = fmul (Fin 2) (fdiv (fsub (athwt ! ip ! r) (Fin (steer_athwart_rad p)))
                                          (Fin (beamwidth_athwart_3dB_rad p)));
                   x2 = fmul x x;
                   y2 = fmul y y
               in fmul (Fin 6.0206)
                    (fsub (fadd x2 y2) (fmul (fmul (Fin 0.18) x2) y2))))"

text \<open>The three columns of a ping after the mask (\<^verbatim>\<open>ts[mask] = np.nan\<close> and so on), and
  its range column.\<close>

definition matecho_mask :: "channel_data \<Rightarrow> flt list option \<Rightarrow> nat list \<Rightarrow> nat \<Rightarrow> nat \<Rightarrow> bool" where
  "matecho_mask cd bb idx_pings r ip = under_bottom_mask cd bb idx_pings r ip"

definition col_Plike ::
  "channel_data \<Rightarrow> flt list option \<Rightarrow> matecho_env \<Rightarrow> nat list \<Rightarrow> nat list \<Rightarrow> nat \<Rightarrow> flt list" where
  "col_Plike cd bb env idx_pings rows ip =
     map (\<lambda>r. if matecho_mask cd bb idx_pings r ip then NaN else cell_Plike cd env ip r) rows"

definition col_tsu ::
  "channel_data \<Rightarrow> flt list option \<Rightarrow> matecho_env \<Rightarrow> nat list \<Rightarrow> nat list \<Rightarrow> nat \<Rightarrow> flt list" where
  "col_tsu cd bb env idx_pings rows ip =
     map (\<lambda>r. if matecho_mask cd bb idx_pings r ip then NaN else cell_tsu cd env ip r) rows"

definition col_ts ::
  "channel_data \<Rightarrow> flt list option \<Rightarrow> params \<Rightarrow> matecho_env \<Rightarrow> nat list \<Rightarrow> nat list \<Rightarrow> nat \<Rightarrow> flt list" where
  "col_ts cd bb p env idx_pings rows ip =
     map (\<lambda>r. if matecho_mask cd bb idx_pings r ip then NaN
               else fadd (cell_tsu cd env ip r) (one_way_comp cd p ip r)) rows"

definition col_R :: "matecho_env \<Rightarrow> nat list \<Rightarrow> nat \<Rightarrow> flt list" where
  "col_R env rows ip = map (\<lambda>r. m_R env ! ip ! r) rows"

subsection \<open>Variant B: peak picking\<close>

text \<open>
  \<^verbatim>\<open>valid = np.isfinite(zP); valid[:dec_tir] = False\<close> with \<^verbatim>\<open>dec_tir = 8\<close>
  \<^verbatim>\<open>loc = np.where(valid[1:-1] & (zP[1:-1] > zP[:-2]) & (zP[1:-1] >= zP[2:]))[0] + 1\<close>
\<close>

definition dec_tir :: nat where
  "dec_tir = 8"

definition matecho_loc :: "flt list \<Rightarrow> nat list" where
  "matecho_loc zP =
     filter (\<lambda>k. (isfinite (zP ! k) \<and> dec_tir \<le> k) \<and> fgt (zP ! k) (zP ! (k - 1)) \<and>
                 fge (zP ! k) (zP ! (k + 1)))
       [1..<length zP - 1]"

text \<open>The 6-dB width around the peak, \<open>lim6\<close> being \<^verbatim>\<open>base - 6.0\<close>:
  \<^verbatim>\<open>while i0 > 0 and np.isfinite(zP[i0 - 1]) and (zP[i0 - 1] >= base - 6.0): i0 -= 1\<close>,
  \<^verbatim>\<open>while i1 + 1 < nP and np.isfinite(zP[i1 + 1]) and (zP[i1 + 1] >= base - 6.0): i1 += 1\<close>.\<close>

function width_left :: "flt list \<Rightarrow> flt \<Rightarrow> nat \<Rightarrow> nat" where
  "width_left zP lim6 i0 =
     (if i0 > 0 \<and> isfinite (zP ! (i0 - 1)) \<and> fge (zP ! (i0 - 1)) lim6
      then width_left zP lim6 (i0 - 1) else i0)"
  by pat_completeness auto
termination
  by (relation "measure (\<lambda>(zP, lim6, i0). i0)") auto

function width_right :: "flt list \<Rightarrow> flt \<Rightarrow> nat \<Rightarrow> nat" where
  "width_right zP lim6 i1 =
     (if i1 + 1 < length zP \<and> isfinite (zP ! (i1 + 1)) \<and> fge (zP ! (i1 + 1)) lim6
      then width_right zP lim6 (i1 + 1) else i1)"
  by pat_completeness auto
termination
  by (relation "measure (\<lambda>(zP, lim6, i1). length zP - i1)") auto

declare width_left.simps [simp del] width_right.simps [simp del]

text \<open>The "save detection" block of variant B: one append per field.\<close>

definition matecho_save ::
  "st_struct \<Rightarrow> flt \<Rightarrow> flt \<Rightarrow> flt \<Rightarrow> flt \<Rightarrow> real \<Rightarrow> real \<Rightarrow> nat \<Rightarrow> nat \<Rightarrow> int \<Rightarrow> nat \<Rightarrow>
   nat \<Rightarrow> nat \<Rightarrow> real \<Rightarrow> nat \<Rightarrow> flt \<Rightarrow> flt \<Rightarrow> flt \<Rightarrow> flt \<Rightarrow> flt \<Rightarrow> st_struct" where
  "matecho_save out ts_comp ts_uncomp r_peak r_disp r_min r_max idx ping tm lin before after
     plen_norm plen heave roll pitch heading dst =
     out \<lparr> TS_comp := TS_comp out @ [ts_comp],
           TS_uncomp := TS_uncomp out @ [ts_uncomp],
           Target_range := Target_range out @ [r_peak],
           Target_range_disp := Target_range_disp out @ [r_disp],
           Target_range_min := Target_range_min out @ [Fin r_min],
           Target_range_max := Target_range_max out @ [Fin r_max],
           idx_r := idx_r out @ [idx],
           Ping_number := Ping_number out @ [ping],
           Time := Time out @ [tm],
           idx_target_lin := idx_target_lin out @ [lin],
           pulse_env_before_lin := pulse_env_before_lin out @ [before],
           pulse_env_after_lin := pulse_env_after_lin out @ [after],
           PulseLength_Normalized_PLDL := PulseLength_Normalized_PLDL out @ [Fin plen_norm],
           Transmitted_pulse_length := Transmitted_pulse_length out @ [plen],
           StandDev_Angles_Minor_Axis := StandDev_Angles_Minor_Axis out @ [NaN],
           StandDev_Angles_Major_Axis := StandDev_Angles_Major_Axis out @ [NaN],
           Angle_minor_axis := Angle_minor_axis out @ [NaN],
           Angle_major_axis := Angle_major_axis out @ [NaN],
           Heave := Heave out @ [heave],
           Roll := Roll out @ [roll],
           Pitch := Pitch out @ [pitch],
           Heading := Heading out @ [heading],
           Dist := Dist out @ [dst] \<rparr>"

text \<open>
  One candidate \<open>k\<close> of a ping, on the list \<open>keep\<close> of the peaks kept so far in this
  ping and the output: the threshold, the off-axis guard, the echo width, the spacing to
  every kept peak, the depth band; then \<^verbatim>\<open>keep.append(k)\<close>, and the detection is saved
  unless its envelope has no finite range.
\<close>

definition matecho_candidate ::
  "params \<Rightarrow> matecho_env \<Rightarrow> nat \<Rightarrow> int list \<Rightarrow> nat list \<Rightarrow> nat \<Rightarrow>
   flt list \<Rightarrow> flt list \<Rightarrow> flt list \<Rightarrow> flt list \<Rightarrow> nat \<Rightarrow>
   nat list \<times> st_struct \<Rightarrow> nat list \<times> st_struct" where
  "matecho_candidate p env nb_samples_tot tms rows ping zP zTS zTSU rcol k st =
     (let keep = fst st; out = snd st
      in
        if \<not> isfinite (zTS ! k) \<or> fle (zTS ! k) (Fin (TS_threshold p)) then st
        else if fgt (fsub (zTS ! k) (zTSU ! k)) (Fin (2 * MaxAngleOneWayCompression p)) then st
        else
          let base = zP ! k;
              i0 = width_left zP (fsub base (Fin 6)) k;
              i1 = width_right zP (fsub base (Fin 6)) k;
              plen = i1 - i0 + 1
          in
            if int plen < py_round (of_int (m_NechP env) * MinEchoLength p) \<or>
               int plen > py_round (of_int (m_NechP env) * MaxEchoLength p) then st
            else if keep \<noteq> [] \<and>
                    minimum (map (\<lambda>kk. \<bar>int k - int kk\<bar>) keep)
                      < py_round (MinEchoSpace p * of_int (m_NechP env)) then st
            else
              let depth_here = fadd (fadd (rcol ! k) (Fin (m_TD env))) (m_heave env ! ping)
              in
                if \<not> (fle (MinEchoDepthM p) depth_here \<and>
                        fle depth_here (MaxEchoDepthM p)) then st
                else
                  let keep' = keep @ [k];
                      r_seg = finite_values (py_slice rcol (int i0) (int i1 + 1))
                  in
                    if r_seg = [] then (keep', out)
                    else
                      let r_min = minimum r_seg;
                          r_max = maximum r_seg;
                          r_peak = rcol ! k
                      in (keep',
                          matecho_save out (zTS ! k) (zTSU ! k) r_peak
                            (fadd r_peak (Fin (SoundSpeed p * m_T env / 4))) r_min r_max
                            (rows ! k) ping (tms ! ping) (ping * nb_samples_tot + rows ! k)
                            (k - i0) (i1 - k) (real plen / of_int (m_NechP env)) plen
                            (m_heave env ! ping) (m_roll env ! ping) (m_pitch env ! ping)
                            (m_heading env ! ping) (m_dist env ! ping)))"

text \<open>One ping: \<^verbatim>\<open>if not np.isfinite(zP).any(): continue\<close>, then the candidates from left
  to right, \<open>keep\<close> starting empty.\<close>

definition matecho_scan ::
  "params \<Rightarrow> matecho_env \<Rightarrow> nat \<Rightarrow> int list \<Rightarrow> nat list \<Rightarrow> nat \<Rightarrow>
   flt list \<Rightarrow> flt list \<Rightarrow> flt list \<Rightarrow> flt list \<Rightarrow> st_struct \<Rightarrow> nat list \<times> st_struct" where
  "matecho_scan p env nb_samples_tot tms rows ping zP zTS zTSU rcol out =
     fold (matecho_candidate p env nb_samples_tot tms rows ping zP zTS zTSU rcol)
       (matecho_loc zP) ([], out)"

definition matecho_ping ::
  "params \<Rightarrow> matecho_env \<Rightarrow> nat \<Rightarrow> int list \<Rightarrow> nat list \<Rightarrow> nat \<Rightarrow>
   flt list \<Rightarrow> flt list \<Rightarrow> flt list \<Rightarrow> flt list \<Rightarrow> st_struct \<Rightarrow> st_struct" where
  "matecho_ping p env nb_samples_tot tms rows ping zP zTS zTSU rcol out =
     (if \<not> (\<exists>x \<in> set zP. isfinite x) then out
      else snd (matecho_scan p env nb_samples_tot tms rows ping zP zTS zTSU rcol out))"

subsection \<open>Variant B: one block and the whole run\<close>

text \<open>The body of \<^verbatim>\<open>for j in range(len(idx_pings))\<close>: the columns of ping
  \<^verbatim>\<open>ip = idx_pings[j]\<close> are handed to the search of one ping.\<close>

definition matecho_block_ping ::
  "channel_data \<Rightarrow> flt list option \<Rightarrow> params \<Rightarrow> matecho_env \<Rightarrow> nat list \<Rightarrow> nat list \<Rightarrow>
   nat \<Rightarrow> st_struct \<Rightarrow> st_struct" where
  "matecho_block_ping cd bb p env idx_pings rows j out =
     matecho_ping p env (nb_samples cd) (ping_time cd) rows (idx_pings ! j)
       (col_Plike cd bb env idx_pings rows (idx_pings ! j))
       (col_ts cd bb p env idx_pings rows (idx_pings ! j))
       (col_tsu cd bb env idx_pings rows (idx_pings ! j))
       (col_R env rows (idx_pings ! j)) out"

definition matecho_block ::
  "channel_data \<Rightarrow> flt list option \<Rightarrow> params \<Rightarrow> matecho_env \<Rightarrow> nat list \<Rightarrow> int \<Rightarrow>
   nat \<Rightarrow> st_struct \<Rightarrow> st_struct" where
  "matecho_block cd bb p env idx_r_tot bs ui out =
     (let idx_pings = block_pings bs (length (Sv cd)) ui;
          rows = block_rows cd bb idx_r_tot idx_pings
      in fold (matecho_block_ping cd bb p env idx_pings rows) [0..<length idx_pings] out)"

text \<open>Sequencing of steps that may raise.\<close>

abbreviation bind_err :: "error + 'a \<Rightarrow> ('a \<Rightarrow> error + 'b) \<Rightarrow> error + 'b" where
  "bind_err m f \<equiv> (case m of Inl e \<Rightarrow> Inl e | Inr x \<Rightarrow> f x)"

text \<open>\<^verbatim>\<open>R = Depth - (TD + heave.reshape(-1, 1)); R = R.clip(min=0.0)\<close>.\<close>

definition fclip0 :: "flt \<Rightarrow> flt" where
  "fclip0 a = fmaximum a (Fin 0)"

definition range_matrix :: "channel_data \<Rightarrow> real \<Rightarrow> flt list \<Rightarrow> flt list list" where
  "range_matrix cd TD heave =
     map (\<lambda>ip. map (\<lambda>dc. fclip0 (fsub dc (fadd (Fin TD) (heave ! ip)))) (depth cd ! ip))
       [0..<length (depth cd)]"

text \<open>The depth step: the median step of ping 0, NaN when that median is not finite.\<close>

definition matecho_dstep :: "channel_data \<Rightarrow> flt" where
  "matecho_dstep cd =
     (let med = nanmedian (diff (depth cd ! 0)) in if isfinite med then med else NaN)"

text \<open>\<^verbatim>\<open>dt = (2.0 * dstep) / c if dstep > 0 else 1e-4\<close> and
  \<^verbatim>\<open>NechP = max(3, int(round(T / max(dt, 1e-6))))\<close>.\<close>

definition matecho_dt :: "flt \<Rightarrow> real \<Rightarrow> error + real" where
  "matecho_dt dstep c =
     (case dstep of
        Fin s \<Rightarrow>
          if s > 0 then (if c = 0 then Inl ZeroDivisionError else Inr (2 * s / c))
          else Inr (1 / 10000)
      | _ \<Rightarrow> Inr (1 / 10000))"

definition matecho_NechP :: "real \<Rightarrow> real \<Rightarrow> int" where
  "matecho_NechP T dt = max 3 (py_round (T / max dt (1 / 1000000)))"

text \<open>\<^verbatim>\<open>sv2ts = 10.0 * np.log10(c * T / 2.0) + psi_two_way + 2.0 * Sa_correction + 2.0 * Sa_EK80_nominal\<close>.\<close>

definition matecho_sv2ts :: "params \<Rightarrow> real \<Rightarrow> flt" where
  "matecho_sv2ts p T =
     fadd (fmul (Fin 10) (flog10 (Fin (SoundSpeed p * T / 2))))
          (Fin (psi_two_way p + 2 * Sa_correction p + 2 * Sa_EK80_nominal p))"

text \<open>\<^verbatim>\<open>ts_range = np.maximum(dstep, (np.arange(nb_samples_tot) - ind_range0) * dstep)\<close>.\<close>

definition matecho_ts_range :: "flt \<Rightarrow> int \<Rightarrow> nat \<Rightarrow> flt list" where
  "matecho_ts_range dstep ind_range0 nb_samples_tot =
     map (\<lambda>i. fmaximum dstep (fmul (Fin (of_int (int i - ind_range0))) dstep))
       [0..<nb_samples_tot]"

text \<open>
  The run on the selected channel. The navigation arrays come first; the depth step is
  taken from ping 0 (\<^verbatim>\<open>Depth.isel(ping_time=0)\<close> raises without pings). \<^verbatim>\<open>Np\<close> is
  computed and only printed in the source, so it is left out.
\<close>

definition matecho_run :: "channel_data \<Rightarrow> params \<Rightarrow> error + st_struct" where
  "matecho_run cd p =
     bind_err (nav_array (variables cd) [''heading'', ''Heading''] (ping_time cd)) (\<lambda>heading.
     bind_err (nav_array (variables cd) [''pitch'', ''Pitch''] (ping_time cd)) (\<lambda>pitch.
     bind_err (nav_array (variables cd) [''roll'', ''Roll''] (ping_time cd)) (\<lambda>roll.
     bind_err (nav_array (variables cd) [''heave'', ''Heave'', ''vertical_offset''] (ping_time cd)) (\<lambda>heave.
     bind_err (nav_array (variables cd) [''dist'', ''Dist'', ''distance''] (ping_time cd)) (\<lambda>dist.
       let alpha = (case sound_absorption cd of None \<Rightarrow> 0 | Some a \<Rightarrow> a);
           TD = (case transducer_depth cd of None \<Rightarrow> 0 | Some t \<Rightarrow> t);
           R = range_matrix cd TD heave
       in
         if depth cd = [] then Inl IndexError
         else
           let dstep = matecho_dstep cd
           in
             bind_err (matecho_dt dstep (SoundSpeed p)) (\<lambda>dt.
               let T = pulse_length p;
                   nb_pings_tot = length (Sv cd);
                   bb = bottom_da p
               in
                 if bb \<noteq> None \<and> nb_pings_tot = 0
                 then Inl (ValueError ''zero-size array to reduction operation fmax which has no identity'')
                 else
                   let idx_r_tot = crop_idx_r_tot cd bb;
                       bs = block_size (block_len p) (length idx_r_tot) nb_pings_tot;
                       num_ite = num_ite_matecho bs nb_pings_tot;
                       env = \<lparr> m_alpha = alpha, m_TD = TD, m_T = T,
                               m_NechP = matecho_NechP T dt,
                               m_sv2ts = matecho_sv2ts p T,
                               m_ts_range = matecho_ts_range dstep (tvg_start_sample p) (nb_samples cd),
                               m_R = R, m_heading = heading, m_pitch = pitch, m_roll = roll,
                               m_heave = heave, m_dist = dist \<rparr>;
                       out = fold (matecho_block cd bb p env idx_r_tot bs) [0..<num_ite]
                               init_st_struct
                   in Inr (out \<lparr> nb_valid_targets := length (TS_comp out) \<rparr>)))))))"

text \<open>\<^verbatim>\<open>detect_matecho(ds, params)\<close>: the only checks before the data are read are that
  \<^verbatim>\<open>params\<close> is given and names a channel.\<close>

definition detect_matecho :: "dataset \<Rightarrow> params option \<Rightarrow> error + st_struct" where
  "detect_matecho ds params =
     (case params of
        None \<Rightarrow> Inl (ValueError ''params is required.'')
      | Some p \<Rightarrow>
          (case channel p of
             None \<Rightarrow> Inl (ValueError ''params['channel'] is required.'')
           | Some ch \<Rightarrow>
               (case ds ch of
                  None \<Rightarrow> Inl KeyError
                | Some cd \<Rightarrow> matecho_run cd p)))"

section \<open>Vocabulary of the properties\<close>

text \<open>
  Every error of the source is a \<^verbatim>\<open>ValueError\<close>; a configuration error is one raised
  by \<^verbatim>\<open>_validate_params\<close>, the missing-parameter error is the one about the channel.
\<close>

definition configuration_error :: "error \<Rightarrow> bool" where
  "configuration_error e \<longleftrightarrow>
     e = ValueError ''Only CW supported at this stage.'' \<or>
     e = ValueError ''TS_threshold must be in [-120, -20] dB.'' \<or>
     e = ValueError ''PLDL must be in [1, 30] dB.'' \<or>
     e = ValueError ''MinNormPL must be in [0, 10].'' \<or>
     e = ValueError ''MaxNormPL must be in [0, 10].'' \<or>
     e = ValueError ''block_len must be > 0.''"

definition missing_parameter_error :: "error \<Rightarrow> bool" where
  "missing_parameter_error e \<longleftrightarrow> e = ValueError ''params['channel'] is required.''"

text \<open>The conditions that \<^verbatim>\<open>_validate_params\<close> refuses.\<close>

definition out_of_range :: "params \<Rightarrow> bool" where
  "out_of_range p \<longleftrightarrow>
     DataType p \<noteq> ''CW'' \<or> TS_threshold p < -120 \<or> TS_threshold p > -20 \<or>
     PLDL p < 1 \<or> PLDL p > 30 \<or> MinNormPL p < 0 \<or> MinNormPL p > 10 \<or>
     MaxNormPL p < 0 \<or> MaxNormPL p > 10 \<or> block_len p \<le> 0"

text \<open>Example data. For variant A one ping of thirteen samples with echoes at samples 3
  and 9; for variant B one ping of fifteen samples with echoes at samples 8 and 12. In
  both the depth increases with the sample index.\<close>

definition ex_ping13 :: channel_data where
  "ex_ping13 = \<lparr> Sv = [[Fin (-80), Fin (-80), Fin (-33), Fin (-30), Fin (-33), Fin (-80), Fin (-80),
                         Fin (-80), Fin (-33), Fin (-30), Fin (-33), Fin (-80), Fin (-80)]],
     depth = [[Fin (1 / 2), Fin 1, Fin (3 / 2), Fin 2, Fin 3, Fin 4, Fin 5,
               Fin 6, Fin 8, Fin 11, Fin 12, Fin 13, Fin 14]],
     ping_time = [1000],
     angle_alongship = None, angle_athwartship = None,
     sound_absorption = None, transducer_depth = None,
     variables = (\<lambda>_. None) \<rparr>"

definition ex_ping15 :: channel_data where
  "ex_ping15 = \<lparr> Sv = [[Fin (-80), Fin (-80), Fin (-80), Fin (-80), Fin (-80), Fin (-80), Fin (-80),
                         Fin (-33), Fin (-30), Fin (-33), Fin (-80), Fin (-33), Fin (-30), Fin (-33),
                         Fin (-80)]],
     depth = [[Fin 1, Fin 2, Fin 3, Fin 4, Fin 5, Fin 6, Fin 7, Fin 8, Fin 9, Fin 10, Fin 11,
               Fin 12, Fin 13, Fin 14, Fin 15]],
     ping_time = [1000],
     angle_alongship = None, angle_athwartship = None,
     sound_absorption = None, transducer_depth = None,
     variables = (\<lambda>_. None) \<rparr>"

text \<open>Example configurations: variant A with \<open>Np = 3\<close>, a pulse of 1/375 s (so that
  \<open>c T / 4 = 1\<close>) and a bottom at 13.5 m; variant B with \<open>c = 2000\<close> (so that
  \<open>c T / 2 = 1\<close>), a late TVG start, beam widths of 1/8 rad and a bottom at 14.5 m, the other values the
  defaults of variant B.\<close>

definition ex_params_esp3 :: params where
  "ex_params_esp3 = DEFAULTS \<lparr> channel := Some ''ch1'', bottom_da := Some [Fin (27 / 2)],
                               Np := Some 3, pulse_length := 1 / 375 \<rparr>"

definition ex_params_matecho :: params where
  "ex_params_matecho = \<lparr> channel = Some ''ch1'', bottom_da = Some [Fin (29 / 2)],
     SoundSpeed = 2000, TS_threshold = -50, PLDL = 0, MinNormPL = 0, MaxNormPL = 0,
     DataType = ''CW'', block_len = 10000000 / 3, Np = None, pulse_length = 1 / 1000,
     MaxAngleOneWayCompression = 6, MinEchoLength = 8 / 10, MaxEchoLength = 18 / 10,
     MinEchoSpace = 1, MinEchoDepthM = Fin 3, MaxEchoDepthM = Fin 38, tvg_start_sample = 100,
     beamwidth_along_3dB_rad = 1 / 8, beamwidth_athwart_3dB_rad = 1 / 8,
     steer_along_rad = 0, steer_athwart_rad = 0,
     psi_two_way = 0, Sa_correction = 0, Sa_EK80_nominal = 0 \<rparr>"

text \<open>What the two detectors return on these examples.\<close>

definition ex_out_esp3 :: st_struct where
  "ex_out_esp3 = \<lparr> TS_comp = [Fin (- 30), Fin 10], TS_uncomp = [Fin (- 30), Fin 10],
     Target_range = [Fin 2, Fin 11], Target_range_disp = [Fin 3, Fin 12],
     Target_range_min = [Fin (3 / 2), Fin 8], Target_range_max = [Fin 3, Fin 12], idx_r = [3, 9],
     StandDev_Angles_Minor_Axis = [NaN, NaN], StandDev_Angles_Major_Axis = [NaN, NaN],
     Angle_minor_axis = [], Angle_major_axis = [], Ping_number = [0, 0], Time = [1000, 1000],
     nb_valid_targets = 2, idx_target_lin = [3, 9], pulse_env_before_lin = [1, 1],
     pulse_env_after_lin = [1, 1], PulseLength_Normalized_PLDL = [Fin 1, Fin 1],
     Transmitted_pulse_length = [3, 3],
     Heave = [], Roll = [], Pitch = [], Heading = [], Dist = [] \<rparr>"

definition ex_out_matecho :: st_struct where
  "ex_out_matecho = \<lparr> TS_comp = [Fin (- 30), Fin (- 30)], TS_uncomp = [Fin (- 30), Fin (- 30)],
     Target_range = [Fin 9, Fin 13], Target_range_disp = [Fin (19 / 2), Fin (27 / 2)],
     Target_range_min = [Fin 8, Fin 12], Target_range_max = [Fin 10, Fin 14], idx_r = [8, 12],
     StandDev_Angles_Minor_Axis = [NaN, NaN], StandDev_Angles_Major_Axis = [NaN, NaN],
     Angle_minor_axis = [NaN, NaN], Angle_major_axis = [NaN, NaN],
     Ping_number = [0, 0], Time = [1000, 1000],
     nb_valid_targets = 2, idx_target_lin = [8, 12], pulse_env_before_lin = [1, 1],
     pulse_env_after_lin = [1, 1], PulseLength_Normalized_PLDL = [Fin 1, Fin 1],
     Transmitted_pulse_length = [3, 3],
     Heave = [Fin 0, Fin 0], Roll = [Fin 0, Fin 0], Pitch = [Fin 0, Fin 0],
     Heading = [Fin 0, Fin 0], Dist = [Fin 0, Fin 0] \<rparr>"

text \<open>The ping of variant B with a heave record whose only sample lies ten seconds after
  the ping, outside the tolerance of 500 ms.\<close>

definition ex_ping15_far_heave :: channel_data where
  "ex_ping15_far_heave =
     ex_ping15 \<lparr> variables := (\<lambda>_. None)(''heave'' \<mapsto> Timed [(10000001000, Fin 0)]) \<rparr>"

text \<open>A ping of variant B with echoes at samples 8 and 10, two samples apart, whose depth
  is infinite at samples 7 and 8 (the envelope of the first echo), and a configuration
  whose depth band has no upper end. \<open>ex_env_inf\<close> is the environment of the run on
  them, \<open>ex_candidate_inf\<close> the step of the search of the ping at one candidate.\<close>

definition ex_ping15_inf :: channel_data where
  "ex_ping15_inf = \<lparr> Sv = [[Fin (-80), Fin (-80), Fin (-80), Fin (-80), Fin (-80), Fin (-80), Fin (-80),
                             Fin (-33), Fin (-30), Fin (-40), Fin (-30), Fin (-33), Fin (-80), Fin (-80),
                             Fin (-80)]],
     depth = [[Fin 1, Fin 2, Fin 3, Fin 4, Fin 5, Fin 6, Fin 7, PInf, PInf, Fin 10, Fin 11,
               Fin 12, Fin 13, Fin 14, Fin 15]],
     ping_time = [1000],
     angle_alongship = None, angle_athwartship = None,
     sound_absorption = None, transducer_depth = None,
     variables = (\<lambda>_. None) \<rparr>"

definition ex_params_inf :: params where
  "ex_params_inf = ex_params_matecho \<lparr> bottom_da := None, MaxEchoDepthM := PInf \<rparr>"

definition ex_env_inf :: matecho_env where
  "ex_env_inf = \<lparr> m_alpha = 0, m_TD = 0, m_T = pulse_length ex_params_inf,
     m_NechP = matecho_NechP (pulse_length ex_params_inf) (1 / 1000),
     m_sv2ts = matecho_sv2ts ex_params_inf (pulse_length ex_params_inf),
     m_ts_range = matecho_ts_range (matecho_dstep ex_ping15_inf)
                    (tvg_start_sample ex_params_inf) (nb_samples ex_ping15_inf),
     m_R = range_matrix ex_ping15_inf 0 [Fin 0],
     m_heading = [Fin 0], m_pitch = [Fin 0], m_roll = [Fin 0], m_heave = [Fin 0],
     m_dist = [Fin 0] \<rparr>"

definition ex_zP_inf :: "flt list" where
  "ex_zP_inf = col_Plike ex_ping15_inf None ex_env_inf [0] [0..<15] 0"

definition ex_rcol_inf :: "flt list" where
  "ex_rcol_inf = col_R ex_env_inf [0..<15] 0"

definition ex_candidate_inf :: "nat \<Rightarrow> nat list \<times> st_struct \<Rightarrow> nat list \<times> st_struct" where
  "ex_candidate_inf k st =
     matecho_candidate ex_params_inf ex_env_inf 15 [1000] [0..<15] 0 ex_zP_inf
       (col_ts ex_ping15_inf None ex_params_inf ex_env_inf [0] [0..<15] 0)
       (col_tsu ex_ping15_inf None ex_env_inf [0] [0..<15] 0)
       ex_rcol_inf k st"

text \<open>A configuration of variant A with a narrow envelope threshold and
  \<open>Np * MinNormPL = 1.8\<close>.\<close>

definition ex_params_short :: params where
  "ex_params_short = ex_params_esp3 \<lparr> PLDL := 1, MinNormPL := 3 / 5 \<rparr>"

text \<open>
  A recorded detection, read across the parallel lists of the output at one position:
  the fields the properties below speak about. The lists are aligned when they have the
  same length.
\<close>

record target =
  t_ping :: nat
  t_idx :: nat
  t_ts_comp :: flt
  t_ts_uncomp :: flt
  t_range :: flt
  t_plen :: nat

definition row :: "st_struct \<Rightarrow> nat \<Rightarrow> target" where
  "row out i = \<lparr> t_ping = Ping_number out ! i, t_idx = idx_r out ! i,
                 t_ts_comp = TS_comp out ! i, t_ts_uncomp = TS_uncomp out ! i,
                 t_range = Target_range out ! i, t_plen = Transmitted_pulse_length out ! i \<rparr>"

definition targets :: "st_struct \<Rightarrow> target list" where
  "targets out = map (row out) [0..<length (TS_comp out)]"

definition aligned :: "st_struct \<Rightarrow> bool" where
  "aligned out \<longleftrightarrow>
     length (Ping_number out) = length (TS_comp out) \<and>
     length (idx_r out) = length (TS_comp out) \<and>
     length (TS_uncomp out) = length (TS_comp out) \<and>
     length (Target_range out) = length (TS_comp out) \<and>
     length (Transmitted_pulse_length out) = length (TS_comp out)"

text \<open>The data-model invariant of a depth column: among its samples that are not NaN,
  depth does not decrease with the sample index.\<close>

definition depth_increasing :: "flt list \<Rightarrow> bool" where
  "depth_increasing D \<longleftrightarrow>
     (\<forall>i j. i < j \<and> j < length D \<and> D ! i \<noteq> NaN \<and> D ! j \<noteq> NaN \<longrightarrow> fge (D ! j) (D ! i))"

text \<open>
  What variant A has established when it saves candidate \<open>k\<close> of a ping column \<open>z\<close>
  with depths \<open>d\<close>: the detection \<open>t\<close> it appends.
\<close>

definition esp3_accepts ::
  "params \<Rightarrow> real \<Rightarrow> real \<Rightarrow> int \<Rightarrow> nat list \<Rightarrow> nat \<Rightarrow> flt list \<Rightarrow> flt list \<Rightarrow> nat \<Rightarrow>
   target \<Rightarrow> bool" where
  "esp3_accepts p alpha T Np' rows ping z d k t \<longleftrightarrow>
     (\<exists>pk r left right.
        z ! k = Fin pk \<and> TS_threshold p < pk \<and>
        left = expand_left z k (pk - PLDL p) (max_len Np' p) 0 \<and>
        right = expand_right z k (pk - PLDL p) (max_len Np' p) 0 \<and>
        t_plen t = 1 + left + right \<and>
        min_len Np' p \<le> int (t_plen t) \<and> int (t_plen t) \<le> max_len Np' p \<and>
        finite_values (py_slice d (int k - int left) (int k + int right + 1)) \<noteq> [] \<and>
        (\<forall>x. d ! k = Fin x \<longrightarrow> r = x) \<and>
        0 < r - SoundSpeed p * T / 4 \<and>
        t_range t = Fin r \<and>
        t_ts_uncomp t =
          Fin (pk + (40 * log10 (r - SoundSpeed p * T / 4) + 2 * alpha * (r - SoundSpeed p * T / 4))) \<and>
        t_ts_comp t = t_ts_uncomp t \<and>
        TS_threshold p <
          pk + (40 * log10 (r - SoundSpeed p * T / 4) + 2 * alpha * (r - SoundSpeed p * T / 4)) \<and>
        t_ping t = ping \<and> t_idx t = rows ! k)"

text \<open>
  What holds of a detection recorded by a run of variant A, in terms of the dataset:
  the peak value is the raw signal cell, the target strengths follow from it and the
  recorded range, the pulse length is within the bounds, and the peak is above the
  ping's bottom index.
\<close>

definition esp3_recorded :: "channel_data \<Rightarrow> params \<Rightarrow> real \<Rightarrow> real \<Rightarrow> int \<Rightarrow> target \<Rightarrow> bool" where
  "esp3_recorded cd p alpha T Np' t \<longleftrightarrow>
     t_ping t < length (Sv cd) \<and>
     (\<exists>pk r.
        Sv cd ! t_ping t ! t_idx t = Fin pk \<and> t_range t = Fin r \<and>
        0 < r - SoundSpeed p * T / 4 \<and>
        t_ts_uncomp t =
          Fin (pk + (40 * log10 (r - SoundSpeed p * T / 4) + 2 * alpha * (r - SoundSpeed p * T / 4))) \<and>
        t_ts_comp t = t_ts_uncomp t \<and>
        TS_threshold p <
          pk + (40 * log10 (r - SoundSpeed p * T / 4) + 2 * alpha * (r - SoundSpeed p * T / 4)) \<and>
        (\<forall>x. depth cd ! t_ping t ! t_idx t = Fin x \<longrightarrow> r = x)) \<and>
     min_len Np' p \<le> int (t_plen t) \<and> int (t_plen t) \<le> max_len Np' p \<and>
     (\<forall>b. bottom_da p = Some b \<and> wf_channel cd \<and> depth_increasing (depth cd ! t_ping t) \<longrightarrow>
          int (t_idx t) < idx_bot (depth cd ! t_ping t) (b ! t_ping t) (nb_samples cd))"

text \<open>The detections of one ping: all of that ping, each as above, and in increasing
  sample order with at least \<open>sep\<close> samples between any two.\<close>

definition ping_group :: "(target \<Rightarrow> bool) \<Rightarrow> int \<Rightarrow> nat \<Rightarrow> target list \<Rightarrow> bool" where
  "ping_group Q sep ping ts \<longleftrightarrow>
     (\<forall>t \<in> set ts. t_ping t = ping \<and> Q t) \<and>
     sorted_wrt (\<lambda>t t'. int (t_idx t) + sep \<le> int (t_idx t')) ts"

text \<open>
  What variant B has established when it saves candidate \<open>k\<close> of a ping, and what
  holds of a detection recorded by a run of variant B in terms of the dataset.
\<close>

definition matecho_accepts ::
  "params \<Rightarrow> matecho_env \<Rightarrow> nat list \<Rightarrow> nat \<Rightarrow> flt list \<Rightarrow> flt list \<Rightarrow> flt list \<Rightarrow> flt list \<Rightarrow>
   nat \<Rightarrow> target \<Rightarrow> bool" where
  "matecho_accepts p env rows ping zP zTS zTSU rcol k t \<longleftrightarrow>
     (\<exists>v. zTS ! k = Fin v \<and> TS_threshold p < v) \<and>
     py_round (of_int (m_NechP env) * MinEchoLength p) \<le> int (t_plen t) \<and>
     int (t_plen t) \<le> py_round (of_int (m_NechP env) * MaxEchoLength p) \<and>
     rcol ! k \<noteq> NaN \<and>
     t_ts_comp t = zTS ! k \<and> t_ts_uncomp t = zTSU ! k \<and> t_range t = rcol ! k \<and>
     t_ping t = ping \<and> t_idx t = rows ! k"

definition matecho_recorded :: "channel_data \<Rightarrow> params \<Rightarrow> int \<Rightarrow> target \<Rightarrow> bool" where
  "matecho_recorded cd p NechP t \<longleftrightarrow>
     t_ping t < length (Sv cd) \<and>
     (\<exists>v. t_ts_comp t = Fin v \<and> TS_threshold p < v) \<and>
     py_round (of_int NechP * MinEchoLength p) \<le> int (t_plen t) \<and>
     int (t_plen t) \<le> py_round (of_int NechP * MaxEchoLength p) \<and>
     (\<forall>b. bottom_da p = Some b \<and> wf_channel cd \<and> depth_increasing (depth cd ! t_ping t) \<longrightarrow>
          int (t_idx t) < idx_bot (depth cd ! t_ping t) (b ! t_ping t) (nb_samples cd))"

text \<open>
  The lengths of the per-detection lists of the output: of the sixteen that both variants
  append to, and of the angle and navigation lists that only variant B appends to.
\<close>

definition saved_lengths :: "st_struct \<Rightarrow> nat list" where
  "saved_lengths out =
     [length (TS_comp out), length (TS_uncomp out), length (Target_range out),
      length (Target_range_disp out), length (Target_range_min out),
      length (Target_range_max out), length (idx_r out), length (Ping_number out),
      length (Time out), length (idx_target_lin out), length (pulse_env_before_lin out),
      length (pulse_env_after_lin out), length (PulseLength_Normalized_PLDL out),
      length (Transmitted_pulse_length out), length (StandDev_Angles_Minor_Axis out),
      length (StandDev_Angles_Major_Axis out)]"

definition angle_nav_lengths :: "st_struct \<Rightarrow> nat list" where
  "angle_nav_lengths out =
     [length (Angle_minor_axis out), length (Angle_major_axis out), length (Heave out),
      length (Roll out), length (Pitch out), length (Heading out), length (Dist out)]"

text \<open>The output holds whole detections only: in variant A the sixteen lists have one
  length and the angle and navigation lists are empty, in variant B all lists have one
  length.\<close>

definition esp3_whole :: "st_struct \<Rightarrow> bool" where
  "esp3_whole out \<longleftrightarrow>
     (\<forall>l \<in> set (saved_lengths out). l = length (TS_comp out)) \<and>
     (\<forall>l \<in> set (angle_nav_lengths out). l = 0)"

definition matecho_whole :: "st_struct \<Rightarrow> bool" where
  "matecho_whole out \<longleftrightarrow>
     (\<forall>l \<in> set (saved_lengths out @ angle_nav_lengths out). l = length (TS_comp out))"

text \<open>A step \<open>f\<close> that keeps the output aligned and appends detections described by
  \<open>G\<close>.\<close>

definition appends :: "(target list \<Rightarrow> bool) \<Rightarrow> (st_struct \<Rightarrow> st_struct) \<Rightarrow> bool" where
  "appends G f \<longleftrightarrow>
     (\<forall>out. aligned out \<longrightarrow> aligned (f out) \<and> (\<exists>ts. targets (f out) = targets out @ ts \<and> G ts))"
section \<open>Properties\<close>


subsection \<open>Block partitioning\<close>

lemma py_slice_upt:
  assumes "s \<le> e" "e \<le> n"
  shows "py_slice [0..<n] (int s) (int e) = [s..<e]"
proof -
  have "take (e - s) (drop s [0..<n]) = [s..<e]"
    using assms by (simp add: drop_upt take_upt)
  moreover have "nat (int e - int s) = e - s" by simp
  ultimately show ?thesis
    using assms by (simp add: py_slice_def Let_def min_def)
qed

lemma concat_blocks:
  fixes b n :: nat
  assumes "b \<ge> 1"
  shows "concat (map (\<lambda>ui. [min (ui * b) n ..< min ((ui + 1) * b) n]) [0..<k]) = [0..<min (k * b) n]"
proof (induction k)
  case 0
  then show ?case by simp
next
  case (Suc k)
  have le: "min (k * b) n \<le> min ((k + 1) * b) n" by (simp add: min_def)
  have "[0..<min (k * b) n] @ [min (k * b) n..<min ((k + 1) * b) n] = [0..<min ((k + 1) * b) n]"
    using le upt_add_eq_append[of 0 "min (k * b) n" "min ((k + 1) * b) n - min (k * b) n"] by simp
  with Suc show ?case by simp
qed

lemma ceil_div_bounds:
  fixes b n :: nat
  assumes "b \<ge> 1"
  defines "m \<equiv> nat \<lceil>real n / real b\<rceil>"
  shows "n \<le> m * b" and "\<And>ui. ui < m \<Longrightarrow> ui * b < n"
proof -
  have bpos: "0 < real b" using assms by simp
  have "0 \<le> real n / real b" by simp
  then have nonneg: "0 \<le> \<lceil>real n / real b\<rceil>" by (simp add: order.strict_trans2[of "-1" 0])
  have "real n / real b \<le> real_of_int \<lceil>real n / real b\<rceil>" by (rule le_of_int_ceiling)
  with nonneg have "real n / real b \<le> real m" unfolding m_def by simp
  then have "real n \<le> real m * real b" using bpos by (simp add: pos_divide_le_eq)
  then show "n \<le> m * b" by (metis of_nat_le_iff of_nat_mult)
  fix ui assume "ui < m"
  then have "int ui < \<lceil>real n / real b\<rceil>" unfolding m_def by simp
  then have "real ui < real n / real b" by (simp add: less_ceiling_iff)
  then have "real ui * real b < real n" using bpos by (simp add: pos_less_divide_eq)
  then show "ui * b < n" by (metis of_nat_less_iff of_nat_mult)
qed

lemma block_size_pos:
  assumes "1 \<le> n_pings" "0 < blen"
  shows "1 \<le> block_size blen n_rows n_pings"
    and "block_size blen n_rows n_pings \<le> int n_pings"
proof -
  have "0 < blen / real (cells_per_ping n_rows)"
    using assms by (simp add: cells_per_ping_def)
  then have "1 \<le> \<lceil>blen / real (cells_per_ping n_rows)\<rceil>" by simp
  then show "1 \<le> block_size blen n_rows n_pings"
    using assms by (simp add: block_size_def)
  show "block_size blen n_rows n_pings \<le> int n_pings"
    by (simp add: block_size_def)
qed

lemma block_pings_range:
  fixes b n ui :: nat
  assumes "1 \<le> b" "ui * b < n"
  shows "block_pings (int b) n ui = [ui * b ..< min ((ui + 1) * b) n]"
proof -
  have e: "min ((int ui + 1) * int b) (int n) = int (min ((ui + 1) * b) n)"
    by (simp add: min_def algebra_simps) (metis of_nat_le_iff of_nat_mult of_nat_add)
  have s: "int ui * int b = int (ui * b)" by simp
  have "ui * b \<le> min ((ui + 1) * b) n" using assms by simp
  then show ?thesis
    unfolding block_pings_def e s by (intro py_slice_upt) simp_all
qed


text \<open>
  Claim C3. With at least one ping and a positive \<^verbatim>\<open>block_len\<close> (what validation
  guarantees), the block size is \<open>min(ceil(block_len / cells_per_ping), total_pings)\<close>
  and at least 1, both detectors iterate \<open>ceil(total_pings / block_size)\<close> blocks, and
  the blocks' ping ranges, concatenated in iteration order, are exactly
  \<open>0, 1, ..., total_pings - 1\<close>: block \<open>ui\<close> is the contiguous range from
  \<open>ui * block_size\<close> up to \<open>min((ui + 1) * block_size, total_pings)\<close>, it is not empty,
  and every block but the last has \<open>block_size\<close> pings.
\<close>

theorem block_partition_covers:
  assumes "1 \<le> n_pings" and "0 < blen"
  shows "let bs = block_size blen n_rows n_pings; m = num_ite_esp3 bs n_pings in
     bs = min \<lceil>blen / real (max 1 n_rows)\<rceil> (int n_pings) \<and> 1 \<le> bs \<and>
     int m = \<lceil>real n_pings / real_of_int bs\<rceil> \<and> num_ite_matecho bs n_pings = m \<and>
     concat (map (block_pings bs n_pings) [0..<m]) = [0..<n_pings] \<and>
     (\<forall>ui<m. block_pings bs n_pings ui = [ui * nat bs ..< min ((ui + 1) * nat bs) n_pings] \<and>
              block_pings bs n_pings ui \<noteq> []) \<and>
     (\<forall>ui. ui + 1 < m \<longrightarrow> length (block_pings bs n_pings ui) = nat bs)"
proof -
  define bs where "bs = block_size blen n_rows n_pings"
  define b where "b = nat bs"
  define m where "m = num_ite_esp3 bs n_pings"
  have bs1: "1 \<le> bs" and bsn: "bs \<le> int n_pings"
    using block_size_pos[OF assms] by (simp_all add: bs_def)
  have b1: "1 \<le> b" and bs_b: "bs = int b" using bs1 by (simp_all add: b_def)
  have m_eq: "m = nat \<lceil>real n_pings / real b\<rceil>"
    using bs1 by (simp add: m_def num_ite_esp3_def bs_b)
  have cover: "n_pings \<le> m * b" and below: "\<And>ui. ui < m \<Longrightarrow> ui * b < n_pings"
    using ceil_div_bounds(1)[OF b1, of n_pings] ceil_div_bounds(2)[OF b1, of _ n_pings]
    by (simp_all add: m_eq)
  have rng: "block_pings bs n_pings ui = [ui * b ..< min ((ui + 1) * b) n_pings]" if "ui < m" for ui
    unfolding bs_b using b1 below[OF that] by (rule block_pings_range)
  have "0 \<le> real n_pings / real b" by simp
  then have "0 \<le> \<lceil>real n_pings / real b\<rceil>" by (simp add: order.strict_trans2[of "-1" 0])
  then have c1: "int m = \<lceil>real n_pings / real_of_int bs\<rceil>" by (simp add: m_eq bs_b)
  have c2: "num_ite_matecho bs n_pings = m"
    using bs1 by (simp add: num_ite_matecho_def m_def num_ite_esp3_def max_def)
  have "map (block_pings bs n_pings) [0..<m]
        = map (\<lambda>ui. [min (ui * b) n_pings ..< min ((ui + 1) * b) n_pings]) [0..<m]"
    using rng below by (intro map_cong) (auto simp: min_def)
  then have "concat (map (block_pings bs n_pings) [0..<m]) = [0..<min (m * b) n_pings]"
    by (simp only: concat_blocks[OF b1])
  then have c3: "concat (map (block_pings bs n_pings) [0..<m]) = [0..<n_pings]"
    using cover by (simp add: min_def)
  have c4: "block_pings bs n_pings ui \<noteq> []" if "ui < m" for ui
    using rng[OF that] below[OF that] b1 by simp
  have c5: "length (block_pings bs n_pings ui) = b" if "ui + 1 < m" for ui
  proof -
    have "(ui + 1) * b < n_pings" using below[OF that] .
    moreover have "ui < m" using that by simp
    ultimately show ?thesis using rng[of ui] by (simp add: min_def)
  qed
  have c0: "bs = min \<lceil>blen / real (max 1 n_rows)\<rceil> (int n_pings)"
    by (simp add: bs_def block_size_def cells_per_ping_def)
  show ?thesis
    unfolding Let_def bs_def[symmetric] m_def[symmetric] b_def[symmetric]
    using c0 bs1 c1 c2 c3 rng c4 c5 by blast
qed

theorem block_partition_covers_witness:
  "(1::nat) \<le> 5 \<and> (0::real) < 7 \<and> block_size 7 3 5 = 3 \<and> num_ite_esp3 3 5 = 2 \<and>
   num_ite_matecho 3 5 = 2 \<and>
   map (block_pings 3 5) [0..<2] = [[0, 1, 2], [3, 4]]"
proof -
  have bs: "block_size 7 3 5 = 3"
    by (simp add: block_size_def cells_per_ping_def)
  have m: "num_ite_esp3 3 5 = 2"
    by (simp add: num_ite_esp3_def)
  have h1: "(1::nat) \<le> 5" and h2: "(0::real) < 7" by simp_all
  from block_partition_covers[OF h1 h2, of 3]
  have "num_ite_matecho 3 5 = 2 \<and> (\<forall>ui<2. block_pings 3 5 ui = [ui * 3 ..< min ((ui + 1) * 3) 5])"
    unfolding Let_def bs m by simp
  then have "num_ite_matecho 3 5 = 2" and "block_pings 3 5 0 = [0 ..< 3]" and "block_pings 3 5 1 = [3 ..< 5]"
    by simp_all
  then show ?thesis using bs m h1 h2 by (simp add: upt_rec numeral_2_eq_2)
qed


subsection \<open>Reading the output as a list of detections\<close>

lemma targets_init: "targets init_st_struct = []" "aligned init_st_struct"
  by (simp_all add: targets_def aligned_def init_st_struct_def)

lemma targets_unchanged:
  assumes "TS_comp out' = TS_comp out" "TS_uncomp out' = TS_uncomp out"
    "Target_range out' = Target_range out" "idx_r out' = idx_r out"
    "Ping_number out' = Ping_number out"
    "Transmitted_pulse_length out' = Transmitted_pulse_length out"
  shows "targets out' = targets out" and "aligned out' = aligned out"
  using assms by (simp_all add: targets_def row_def aligned_def)

lemma targets_snoc:
  assumes al: "aligned out"
    and "TS_comp out' = TS_comp out @ [a]" "TS_uncomp out' = TS_uncomp out @ [b]"
    "Target_range out' = Target_range out @ [c]" "idx_r out' = idx_r out @ [i]"
    "Ping_number out' = Ping_number out @ [q]"
    "Transmitted_pulse_length out' = Transmitted_pulse_length out @ [l]"
  shows "targets out' = targets out @ [\<lparr> t_ping = q, t_idx = i, t_ts_comp = a, t_ts_uncomp = b,
                                          t_range = c, t_plen = l \<rparr>]"
    and "aligned out'"
proof -
  let ?n = "length (TS_comp out)"
  have len: "length (Ping_number out) = ?n" "length (idx_r out) = ?n"
    "length (TS_uncomp out) = ?n" "length (Target_range out) = ?n"
    "length (Transmitted_pulse_length out) = ?n"
    using al by (simp_all add: aligned_def)
  have old: "row out' j = row out j" if "j < ?n" for j
    using that assms(2-) len by (simp add: row_def nth_append)
  have new: "row out' ?n = \<lparr> t_ping = q, t_idx = i, t_ts_comp = a, t_ts_uncomp = b,
                              t_range = c, t_plen = l \<rparr>"
    using assms(2-) len by (simp add: row_def nth_append)
  have "targets out' = map (row out') [0..<?n] @ [row out' ?n]"
    using assms(2) by (simp add: targets_def)
  also have "map (row out') [0..<?n] = map (row out) [0..<?n]"
    using old by simp
  finally show "targets out' = targets out @ [\<lparr> t_ping = q, t_idx = i, t_ts_comp = a,
                    t_ts_uncomp = b, t_range = c, t_plen = l \<rparr>]"
    using new by (simp add: targets_def)
  show "aligned out'"
    using assms(2-) len by (simp add: aligned_def)
qed

lemma targets_nth:
  assumes "aligned out" "i < length (TS_comp out)"
  shows "targets out ! i = row out i" and "length (targets out) = length (TS_comp out)"
  using assms by (simp_all add: targets_def)

subsection \<open>Folds that only append detections\<close>

text \<open>A fold of steps that append detections appends their concatenation.\<close>

lemma appendsI:
  assumes "\<And>out. aligned out \<Longrightarrow> aligned (f out) \<and> (\<exists>ts. targets (f out) = targets out @ ts \<and> G ts)"
  shows "appends G f"
  using assms by (simp add: appends_def)

lemma appendsD:
  assumes "appends G f" "aligned out"
  shows "aligned (f out)" and "\<exists>ts. targets (f out) = targets out @ ts \<and> G ts"
  using assms by (simp_all add: appends_def)

lemma appends_mono:
  assumes "appends G f" "\<And>ts. G ts \<Longrightarrow> H ts"
  shows "appends H f"
  using assms unfolding appends_def by blast

lemma appends_id: "G [] \<Longrightarrow> appends G (\<lambda>out. out)"
  by (simp add: appends_def)

lemma appends_fold:
  assumes "\<And>x. x \<in> set xs \<Longrightarrow> appends (G x) (f x)"
  shows "appends (\<lambda>ts. \<exists>tss. ts = concat tss \<and> list_all2 G xs tss) (fold f xs)"
  using assms
proof (induction xs)
  case Nil
  show ?case by (rule appendsI) simp
next
  case (Cons x xs)
  have step: "appends (G x) (f x)" using Cons.prems by simp
  have rest: "appends (\<lambda>ts. \<exists>tss. ts = concat tss \<and> list_all2 G xs tss) (fold f xs)"
    using Cons by simp
  show ?case
  proof (rule appendsI)
    fix out assume al: "aligned out"
    from appendsD[OF step al] obtain ts where
      a1: "aligned (f x out)" and t1: "targets (f x out) = targets out @ ts" and g: "G x ts"
      by blast
    from appendsD[OF rest a1] obtain tss where
      a2: "aligned (fold f xs (f x out))"
      and t2: "targets (fold f xs (f x out)) = targets (f x out) @ concat tss"
      and gs: "list_all2 G xs tss"
      by blast
    have "targets (fold f (x # xs) out) = targets out @ concat (ts # tss)"
      using t1 t2 by simp
    moreover have "list_all2 G (x # xs) (ts # tss)" using g gs by simp
    ultimately have "\<exists>tss'. targets (fold f (x # xs) out) = targets out @ concat tss' \<and>
        list_all2 G (x # xs) tss'"
      by blast
    then show "aligned (fold f (x # xs) out) \<and>
      (\<exists>ts. targets (fold f (x # xs) out) = targets out @ ts \<and>
            (\<exists>tss. ts = concat tss \<and> list_all2 G (x # xs) tss))"
      using a2 by auto
  qed
qed

lemma list_all2_concat_flatten:
  assumes "list_all2 (\<lambda>x ts. \<exists>tss. ts = concat tss \<and> list_all2 G (h x) tss) xs tsss"
  shows "\<exists>tss. concat tsss = concat tss \<and> list_all2 G (concat (map h xs)) tss"
  using assms
proof (induction rule: list_all2_induct)
  case Nil
  show ?case by (intro exI[of _ "[]"]) simp
next
  case (Cons x xs ts tsss)
  then obtain tss1 tss2 where
    "ts = concat tss1" "list_all2 G (h x) tss1"
    "concat tsss = concat tss2" "list_all2 G (concat (map h xs)) tss2"
    by blast
  then show ?case
    by (intro exI[of _ "tss1 @ tss2"]) (simp add: list_all2_appendI)
qed

text \<open>What holds of every group holds of every detection.\<close>

lemma groups_all:
  assumes "list_all2 G xs tss" "t \<in> set (concat tss)"
  shows "\<exists>x ts. x \<in> set xs \<and> G x ts \<and> t \<in> set ts"
  using assms
proof (induction rule: list_all2_induct)
  case Nil
  then show ?case by simp
next
  case (Cons x xs ts tss)
  then show ?case by auto
qed

text \<open>Groups of distinct pings, each ordered by \<open>S\<close>: the whole list is ordered by \<open>S\<close>
  within every ping.\<close>

lemma groups_sorted:
  assumes "list_all2 G xs tss" "distinct xs"
    and "\<And>x ts. G x ts \<Longrightarrow> (\<forall>t \<in> set ts. t_ping t = x) \<and> sorted_wrt S ts"
  shows "sorted_wrt (\<lambda>t t'. t_ping t = t_ping t' \<longrightarrow> S t t') (concat tss)"
  using assms(1,2)
proof (induction rule: list_all2_induct)
  case Nil
  then show ?case by simp
next
  case (Cons x xs ts tss)
  have g: "(\<forall>t \<in> set ts. t_ping t = x) \<and> sorted_wrt S ts" using Cons.hyps(1) assms(3) by blast
  have other: "t_ping t' \<noteq> x" if "t' \<in> set (concat tss)" for t'
  proof -
    from groups_all[OF Cons.hyps(2) that] obtain y ts' where
      "y \<in> set xs" "G y ts'" "t' \<in> set ts'" by blast
    then have "t_ping t' = y" using assms(3) by blast
    then show ?thesis using \<open>y \<in> set xs\<close> Cons.prems by auto
  qed
  have "sorted_wrt (\<lambda>t t'. t_ping t = t_ping t' \<longrightarrow> S t t') ts"
    using g by (auto intro: sorted_wrt_mono_rel[of ts S])
  moreover have "sorted_wrt (\<lambda>t t'. t_ping t = t_ping t' \<longrightarrow> S t t') (concat tss)"
    using Cons by simp
  ultimately show ?case
    using g other by (auto simp: sorted_wrt_append)
qed


subsection \<open>Variant A: the loops of one ping\<close>

lemma expand_left_range:
  "left \<le> expand_left z k thr ml left \<and>
   (left \<le> k \<longrightarrow> expand_left z k thr ml left \<le> k) \<and>
   (\<forall>j. left \<le> j \<and> j < expand_left z k thr ml left \<longrightarrow>
        isfinite (z ! (k - 1 - j)) \<and> fge (z ! (k - 1 - j)) (Fin thr))"
proof (induction z k thr ml left rule: expand_left.induct)
  case (1 z k thr ml left)
  show ?case
  proof (cases "left < k \<and> int left < ml \<and> isfinite (z ! (k - 1 - left)) \<and>
                fge (z ! (k - 1 - left)) (Fin thr)")
    case True
    then have eq: "expand_left z k thr ml left = expand_left z k thr ml (left + 1)"
      by (subst expand_left.simps) simp
    have split: "j = left \<or> left + 1 \<le> j" if "left \<le> j" for j using that by linarith
    from "1.IH"[OF True] True show ?thesis
      unfolding eq by (auto dest!: split)
  next
    case False
    then have "expand_left z k thr ml left = left"
      by (subst expand_left.simps) auto
    then show ?thesis by auto
  qed
qed

lemma expand_right_range:
  "right \<le> expand_right z k thr ml right \<and>
   (k + right < length z \<longrightarrow> k + expand_right z k thr ml right < length z) \<and>
   (\<forall>j. right \<le> j \<and> j < expand_right z k thr ml right \<longrightarrow>
        isfinite (z ! (k + 1 + j)) \<and> fge (z ! (k + 1 + j)) (Fin thr))"
proof (induction z k thr ml right rule: expand_right.induct)
  case (1 z k thr ml right)
  show ?case
  proof (cases "k + 1 + right < length z \<and> int right < ml \<and> isfinite (z ! (k + 1 + right)) \<and>
                fge (z ! (k + 1 + right)) (Fin thr)")
    case True
    then have eq: "expand_right z k thr ml right = expand_right z k thr ml (right + 1)"
      by (subst expand_right.simps) simp
    have split: "j = right \<or> right + 1 \<le> j" if "right \<le> j" for j using that by linarith
    from "1.IH"[OF True] True show ?thesis
      unfolding eq by (auto dest!: split)
  next
    case False
    then have "expand_right z k thr ml right = right"
      by (subst expand_right.simps) auto
    then show ?thesis by auto
  qed
qed

lemma esp3_cand_range:
  assumes "k \<in> set (esp3_cand z)"
  shows "1 \<le> k" and "k + 1 < length z" and "fgt (z ! k) (Fin (- 999))"
  using assms by (auto simp: esp3_cand_def)

lemma esp3_cand_sorted: "sorted_wrt (<) (esp3_cand z)"
  unfolding esp3_cand_def by (rule sorted_wrt_filter) simp

lemma min_separation_subset: "set (min_separation n l ks) \<subseteq> set ks"
  by (induction ks arbitrary: l) auto

lemma min_separation_sorted:
  assumes "sorted_wrt (<) ks"
  shows "sorted_wrt (\<lambda>a b. int a + n \<le> int b) (min_separation n l ks) \<and>
         (\<forall>k \<in> set (min_separation n l ks). l + n \<le> int k)"
  using assms
proof (induction ks arbitrary: l)
  case Nil
  then show ?case by simp
next
  case (Cons k ks)
  have srt: "sorted_wrt (<) ks" and gt: "\<forall>k' \<in> set ks. k < k'" using Cons.prems by auto
  show ?case
  proof (cases "int k - l \<ge> n")
    case True
    from Cons.IH[OF srt, of "int k"] have
      ih: "sorted_wrt (\<lambda>a b. int a + n \<le> int b) (min_separation n (int k) ks)"
          "\<forall>k' \<in> set (min_separation n (int k) ks). int k + n \<le> int k'" by auto
    have "l + n \<le> int k'" if "k' \<in> set (min_separation n (int k) ks)" for k'
    proof -
      have "k' \<in> set ks" using that min_separation_subset by blast
      then have "k < k'" using gt by blast
      then show ?thesis using True by linarith
    qed
    then show ?thesis using True ih by auto
  next
    case False
    then show ?thesis using Cons.IH[OF srt, of l] by simp
  qed
qed

lemma esp3_keep_range:
  assumes "k \<in> set (esp3_keep n z)"
  shows "1 \<le> k" and "k + 1 < length z" and "fgt (z ! k) (Fin (- 999))"
  using assms min_separation_subset esp3_cand_range unfolding esp3_keep_def by blast+

lemma esp3_keep_sorted: "sorted_wrt (\<lambda>a b. int a + n \<le> int b) (esp3_keep n z)"
  unfolding esp3_keep_def using min_separation_sorted[OF esp3_cand_sorted] by blast

subsection \<open>Variant A: one candidate\<close>

lemma esp3_save_effect:
  assumes "aligned out"
  shows "targets (esp3_save out tc tu r rd rmin rmax idx ping tm lin left right pn plen) =
           targets out @ [\<lparr> t_ping = ping, t_idx = idx, t_ts_comp = Fin tc, t_ts_uncomp = Fin tu,
                              t_range = Fin r, t_plen = plen \<rparr>]"
    and "aligned (esp3_save out tc tu r rd rmin rmax idx ping tm lin left right pn plen)"
  by (rule targets_snoc[OF assms]; simp add: esp3_save_def)+

lemma esp3_candidate_cases:
  obtains (skip) "esp3_candidate p alpha T n nst tms rows ping z d k out = out"
  | (save) pk r left right where
      "z ! k = Fin pk" "TS_threshold p < pk"
      "left = expand_left z k (pk - PLDL p) (max_len n p) 0"
      "right = expand_right z k (pk - PLDL p) (max_len n p) 0"
      "min_len n p \<le> int (1 + left + right)" "int (1 + left + right) \<le> max_len n p"
      "finite_values (py_slice d (int k - int left) (int k + int right + 1)) \<noteq> []"
      "\<forall>x. d ! k = Fin x \<longrightarrow> r = x"
      "0 < r - SoundSpeed p * T / 4"
      "TS_threshold p <
         pk + (40 * log10 (r - SoundSpeed p * T / 4) + 2 * alpha * (r - SoundSpeed p * T / 4))"
      "esp3_candidate p alpha T n nst tms rows ping z d k out =
         esp3_save out
           (pk + (40 * log10 (r - SoundSpeed p * T / 4) + 2 * alpha * (r - SoundSpeed p * T / 4)))
           (pk + (40 * log10 (r - SoundSpeed p * T / 4) + 2 * alpha * (r - SoundSpeed p * T / 4)))
           r (r + SoundSpeed p * T / 4)
           (minimum (finite_values (py_slice d (int k - int left) (int k + int right + 1))))
           (maximum (finite_values (py_slice d (int k - int left) (int k + int right + 1))))
           (rows ! k) ping (tms ! ping) (ping * nst + rows ! k) left right
           (real (1 + left + right) / of_int n) (1 + left + right)"
proof (cases "isfinite (z ! k)")
  case False
  then have "esp3_candidate p alpha T n nst tms rows ping z d k out = out"
    by (cases "z ! k") (simp_all add: esp3_candidate_def)
  then show ?thesis by (rule skip)
next
  case True
  then obtain pk where Some: "z ! k = Fin pk" by (cases "z ! k") simp_all
  define left where "left = expand_left z k (pk - PLDL p) (max_len n p) 0"
  define right where "right = expand_right z k (pk - PLDL p) (max_len n p) 0"
  define seg where "seg = finite_values (py_slice d (int k - int left) (int k + int right + 1))"
  define r where "r = (case d ! k of Fin x \<Rightarrow> x | _ \<Rightarrow> 0.5 * (minimum seg + maximum seg))"
  define re where "re = r - SoundSpeed p * T / 4"
  define tsu where "tsu = pk + (40 * log10 re + 2 * alpha * re)"
  define ok where "ok \<longleftrightarrow> TS_threshold p < pk \<and> min_len n p \<le> int (1 + left + right) \<and>
     int (1 + left + right) \<le> max_len n p \<and> seg \<noteq> [] \<and> 0 < re \<and> TS_threshold p < tsu"
  have eq: "esp3_candidate p alpha T n nst tms rows ping z d k out =
     (if ok then esp3_save out tsu tsu r (r + SoundSpeed p * T / 4) (minimum seg) (maximum seg)
                   (rows ! k) ping (tms ! ping) (ping * nst + rows ! k) left right
                   (real (1 + left + right) / of_int n) (1 + left + right)
      else out)"
    unfolding esp3_candidate_def Some flt.case Let_def left_def[symmetric] right_def[symmetric]
      seg_def[symmetric] r_def[symmetric] re_def[symmetric] tsu_def[symmetric] ok_def
    by (simp add: not_le not_less)
  show ?thesis
  proof (cases ok)
    case False
    with eq have "esp3_candidate p alpha T n nst tms rows ping z d k out = out" by simp
    then show ?thesis by (rule skip)
  next
    case True
    have rx: "\<forall>x. d ! k = Fin x \<longrightarrow> r = x" by (simp add: r_def)
    show ?thesis
      apply (rule save[of pk left right r])
      using True eq Some rx
      by (simp_all add: ok_def left_def right_def seg_def re_def tsu_def)
  qed
qed

lemma esp3_candidate_effect:
  "appends (\<lambda>ts. ts = [] \<or> (\<exists>t. ts = [t] \<and> esp3_accepts p alpha T n rows ping z d k t))
     (esp3_candidate p alpha T n nst tms rows ping z d k)"
proof (rule appendsI)
  fix out assume al: "aligned out"
  let ?out' = "esp3_candidate p alpha T n nst tms rows ping z d k out"
  show "aligned ?out' \<and> (\<exists>ts. targets ?out' = targets out @ ts \<and>
          (ts = [] \<or> (\<exists>t. ts = [t] \<and> esp3_accepts p alpha T n rows ping z d k t)))"
  proof (cases rule: esp3_candidate_cases[of p alpha T n nst tms rows ping z d k out])
    case skip
    then show ?thesis using al by simp
  next
    case (save pk r left right)
    let ?tsu = "pk + (40 * log10 (r - SoundSpeed p * T / 4) + 2 * alpha * (r - SoundSpeed p * T / 4))"
    let ?t = "\<lparr> t_ping = ping, t_idx = rows ! k, t_ts_comp = Fin ?tsu, t_ts_uncomp = Fin ?tsu,
                t_range = Fin r, t_plen = 1 + left + right \<rparr>"
    have t: "targets ?out' = targets out @ [?t]" and al': "aligned ?out'"
      unfolding save(11) using esp3_save_effect[OF al] by simp_all
    have "esp3_accepts p alpha T n rows ping z d k ?t"
      unfolding esp3_accepts_def
      apply (rule exI[of _ pk], rule exI[of _ r], rule exI[of _ left], rule exI[of _ right])
      using save(1-10) by simp
    then show ?thesis using t al' by blast
  qed
qed


subsection \<open>Candidates from left to right\<close>

lemma singles_sorted:
  assumes "list_all2 (\<lambda>k ts. ts = [] \<or> (\<exists>t. ts = [t] \<and> A k t)) ks tss"
    and "sorted_wrt R ks"
    and "\<And>k k' t t'. R k k' \<Longrightarrow> A k t \<Longrightarrow> A k' t' \<Longrightarrow> S t t'"
  shows "(\<forall>t \<in> set (concat tss). \<exists>k \<in> set ks. A k t) \<and> sorted_wrt S (concat tss)"
  using assms(1,2)
proof (induction rule: list_all2_induct)
  case Nil
  then show ?case by simp
next
  case (Cons k ks ts tss)
  have ih: "(\<forall>t \<in> set (concat tss). \<exists>k \<in> set ks. A k t) \<and> sorted_wrt S (concat tss)"
    using Cons by simp
  have hd: "\<forall>t \<in> set ts. A k t" using Cons.hyps(1) by auto
  have rel: "S t t'" if "t \<in> set ts" "t' \<in> set (concat tss)" for t t'
  proof -
    from ih that obtain k' where "k' \<in> set ks" "A k' t'" by blast
    moreover have "R k k'" using Cons.prems \<open>k' \<in> set ks\<close> by simp
    ultimately show ?thesis using hd that assms(3) by blast
  qed
  have "sorted_wrt S ts" using Cons.hyps(1) by auto
  then show ?case using ih hd rel by (auto simp: sorted_wrt_append)
qed

lemma appends_fold_sorted:
  assumes "sorted_wrt R ks"
    and "\<And>k. k \<in> set ks \<Longrightarrow> appends (\<lambda>ts. ts = [] \<or> (\<exists>t. ts = [t] \<and> A k t)) (f k)"
    and "\<And>k k' t t'. R k k' \<Longrightarrow> A k t \<Longrightarrow> A k' t' \<Longrightarrow> S t t'"
  shows "appends (\<lambda>ts. (\<forall>t \<in> set ts. \<exists>k \<in> set ks. A k t) \<and> sorted_wrt S ts) (fold f ks)"
proof (rule appends_mono[OF appends_fold[of ks _ f, OF assms(2)]])
  fix ts
  assume "\<exists>tss. ts = concat tss \<and>
            list_all2 (\<lambda>k ts. ts = [] \<or> (\<exists>t. ts = [t] \<and> A k t)) ks tss"
  then obtain tss where ts: "ts = concat tss"
    and l: "list_all2 (\<lambda>k ts. ts = [] \<or> (\<exists>t. ts = [t] \<and> A k t)) ks tss" by blast
  show "(\<forall>t \<in> set ts. \<exists>k \<in> set ks. A k t) \<and> sorted_wrt S ts"
    unfolding ts by (rule singles_sorted[OF l assms(1)]) (rule assms(3))
qed

subsection \<open>Slices and bottom indices\<close>

lemma set_py_slice: "set (py_slice xs a b) \<subseteq> set xs"
  unfolding py_slice_def Let_def by (meson set_drop_subset set_take_subset subset_trans)

lemma block_pings_bound: "ip \<in> set (block_pings bs n ui) \<Longrightarrow> ip < n"
  using set_py_slice[of "[0..<n]"] unfolding block_pings_def by fastforce

lemma finite_values_nonempty: "finite_values xs \<noteq> [] \<Longrightarrow> \<exists>x \<in> set xs. isfinite x"
  by (induction xs rule: finite_values.induct) auto

lemma py_slice_nat:
  "py_slice d (int a) (int b) =
     take (min b (length d) - min a (length d)) (drop (min a (length d)) d)"
proof -
  have "min (int b) (int (length d)) = int (min b (length d))"
    "min (int a) (int (length d)) = int (min a (length d))" by simp_all
  moreover have "nat (int (min b (length d)) - int (min a (length d)))
                 = min b (length d) - min a (length d)"
    by linarith
  ultimately show ?thesis
    by (simp add: py_slice_def Let_def del: of_nat_min)
qed

lemma py_slice_finite:
  assumes "finite_values (py_slice d (int a) (int b)) \<noteq> []"
  shows "\<exists>m. a \<le> m \<and> m < b \<and> m < length d \<and> isfinite (d ! m)"
proof -
  define a' where "a' = min a (length d)"
  define b' where "b' = min b (length d)"
  define xs where "xs = take (b' - a') (drop a' d)"
  from finite_values_nonempty[OF assms] obtain x where
    x: "x \<in> set xs" "isfinite x"
    unfolding xs_def a'_def b'_def py_slice_nat by blast
  then obtain i where i: "i < length xs" "xs ! i = x" by (auto simp: in_set_conv_nth)
  have len: "i < b' - a'" "i < length d - a'" using i(1) by (simp_all add: xs_def)
  have nth: "xs ! i = d ! (a' + i)" using len by (simp add: xs_def)
  have "a' = a" using len by (auto simp: a'_def min_def split: if_splits)
  moreover have "a' + i < b" "a' + i < length d" using len by (auto simp: b'_def)
  ultimately show ?thesis using nth i(2) x(2) by (intro exI[of _ "a' + i"]) auto
qed

lemma idx_bot_cases:
  obtains (none) "idx_bot D b n = int n - 1"
  | (cross) c where "c < length D" "isfinite (D ! c)" "fge (D ! c) b" "idx_bot D b n = int c"
proof (cases "under D b")
  case Nil
  then show ?thesis using none by (simp add: idx_bot_def)
next
  case (Cons c cs)
  then have "c \<in> set (under D b)" by simp
  then have "c < length D" "isfinite (D ! c)" "fge (D ! c) b"
    by (auto simp: under_def)
  then show ?thesis using cross Cons by (simp add: idx_bot_def)
qed

lemma idx_bot_le:
  assumes "length D = n"
  shows "idx_bot D b n \<le> int n - 1"
  using assms by (cases rule: idx_bot_cases[of D b n]) auto

lemma maximum_le:
  assumes "xs \<noteq> []" "\<forall>x \<in> set xs. x \<le> (B::int)"
  shows "maximum xs \<le> B"
  using assms by (induction xs rule: maximum.induct) auto

lemma filter_le_upt: "filter (\<lambda>r. int r \<le> m) [0..<M] = [0..<min M (nat (m + 1))]"
proof (induction M)
  case 0
  then show ?case by simp
next
  case (Suc M)
  show ?case
  proof (cases "int M \<le> m")
    case True
    then have "min (Suc M) (nat (m + 1)) = Suc M" "min M (nat (m + 1)) = M" by auto
    then show ?thesis using Suc True by simp
  next
    case False
    then have "min (Suc M) (nat (m + 1)) = nat (m + 1)" "min M (nat (m + 1)) = nat (m + 1)" by auto
    then show ?thesis using Suc False by simp
  qed
qed

lemma block_rows_prefix:
  "\<exists>M' \<le> M. block_rows cd bb [0..<M] idx_pings = [0..<M']"
proof -
  have "\<exists>M' \<le> M. [0..<min M k] = [0..<M']" for k
    by (intro exI[of _ "min M k"]) simp
  moreover have "\<exists>M' \<le> M. [0..<M] = [0..<M']" by blast
  ultimately show ?thesis
    by (auto simp: block_rows_def filter_le_upt split: option.splits)
qed

lemma crop_idx_r_tot_prefix:
  assumes "bb \<noteq> None \<longrightarrow> Sv cd \<noteq> []"
  shows "\<exists>M. crop_idx_r_tot cd bb = [0..<M] \<and> (wf_channel cd \<longrightarrow> M \<le> nb_samples cd)"
proof (cases bb)
  case None
  then show ?thesis by (intro exI[of _ "nb_samples cd"]) (simp add: crop_idx_r_tot_def)
next
  case (Some b)
  let ?ixs = "map (\<lambda>ip. idx_bot (depth cd ! ip) (b ! ip) (nb_samples cd)) [0..<length (Sv cd)]"
  have ne: "?ixs \<noteq> []" using assms Some by simp
  have "max_idx cd b [0..<length (Sv cd)] \<le> int (nb_samples cd) - 1" if wf: "wf_channel cd"
  proof -
    have "idx_bot (depth cd ! ip) (b ! ip) (nb_samples cd) \<le> int (nb_samples cd) - 1"
      if "ip < length (Sv cd)" for ip
    proof -
      have "length (depth cd ! ip) = nb_samples cd"
        using wf that by (simp add: wf_channel_def list_all_length)
      then show ?thesis by (rule idx_bot_le)
    qed
    then show ?thesis unfolding max_idx_def by (intro maximum_le[OF ne]) auto
  qed
  then have "wf_channel cd \<longrightarrow> nat (max_idx cd b [0..<length (Sv cd)] + 1) \<le> nb_samples cd"
    by auto
  then show ?thesis using Some by (auto simp: crop_idx_r_tot_def)
qed


subsection \<open>Blocks visit every ping at most once\<close>

lemma block_pings_nat:
  "block_pings (int b) n ui = [min (ui * b) n ..< min ((ui + 1) * b) n]"
proof -
  have e: "min ((int ui + 1) * int b) (int n) = int (min ((ui + 1) * b) n)"
    by (simp add: min_def algebra_simps) (metis of_nat_le_iff of_nat_mult of_nat_add)
  have s: "int ui * int b = int (ui * b)" by simp
  have "take (min ((ui + 1) * b) n - min (ui * b) n) (drop (min (ui * b) n) [0..<n])
        = [min (ui * b) n ..< min ((ui + 1) * b) n]"
    by (simp add: drop_upt take_upt)
  then show ?thesis
    unfolding block_pings_def e s py_slice_nat by simp
qed

lemma block_pings_nonpos:
  assumes "bs \<le> 0"
  shows "ui \<ge> 1 \<Longrightarrow> block_pings bs n ui = []"
    and "\<exists>e \<le> n. block_pings bs n 0 = [0..<e]"
proof -
  assume ui: "ui \<ge> 1"
  have "(int ui + 1) * bs \<le> int ui * bs" using assms by (simp add: algebra_simps)
  moreover have "int ui * bs \<le> 0" using assms by (simp add: mult_nonneg_nonpos)
  moreover have "0 < int ui" using ui by simp
  ultimately show "block_pings bs n ui = []"
    unfolding block_pings_def py_slice_def Let_def by (simp add: min_def max_def)
next
  have "block_pings bs n 0 = take (nat (if min bs (int n) < 0 then max 0 (min bs (int n) + int n) else min (min bs (int n)) (int n))) [0..<n]"
    unfolding block_pings_def py_slice_def Let_def by simp
  then have "block_pings bs n 0 = [0..<min (nat (if min bs (int n) < 0 then max 0 (min bs (int n) + int n) else min (min bs (int n)) (int n))) n]"
    by (simp add: take_upt min.commute)
  then show "\<exists>e \<le> n. block_pings bs n 0 = [0..<e]"
    by (metis min.cobounded2)
qed

lemma concat_blocks_prefix:
  "\<exists>e \<le> n. concat (map (block_pings bs n) [0..<m]) = [0..<e]"
proof (cases "bs \<ge> 1")
  case True
  define b where "b = nat bs"
  have b: "bs = int b" "b \<ge> 1" using True by (simp_all add: b_def)
  have "concat (map (block_pings bs n) [0..<m]) = [0..<min (m * b) n]"
    unfolding b(1) block_pings_nat by (rule concat_blocks[OF b(2)])
  then show ?thesis by (metis min.cobounded2)
next
  case False
  then have bs: "bs \<le> 0" by simp
  show ?thesis
  proof (cases m)
    case 0
    then show ?thesis by (intro exI[of _ 0]) simp
  next
    case (Suc m')
    have "map (block_pings bs n) [1..<Suc m'] = map (\<lambda>_. []) [1..<Suc m']"
      using block_pings_nonpos(1)[OF bs] by (intro map_cong) auto
    then have "concat (map (block_pings bs n) [1..<Suc m']) = []" by simp
    moreover have "[0..<Suc m'] = 0 # [1..<Suc m']" by (simp add: upt_rec)
    ultimately have "concat (map (block_pings bs n) [0..<m]) = block_pings bs n 0"
      using Suc by simp
    then show ?thesis using block_pings_nonpos(2)[OF bs] by simp
  qed
qed


subsection \<open>Variant A: from the columns of a block to the dataset\<close>

lemma list_all2_empties:
  assumes "\<And>x. G x []"
  shows "\<exists>tss. [] = concat tss \<and> list_all2 G xs tss"
  by (intro exI[of _ "map (\<lambda>_. []) xs"]) (simp add: list_all2_conv_all_nth assms)

lemma list_all2_index:
  assumes "list_all2 (\<lambda>j ts. G (xs ! j) ts) [0..<length xs] tss"
  shows "list_all2 G xs tss"
  using assms by (simp add: list_all2_conv_all_nth)

lemma fge_trans: "fge a b \<Longrightarrow> fge b c \<Longrightarrow> fge a c"
  by (cases a; cases b; cases c) simp_all

lemma isfinite_Fin: "isfinite a \<Longrightarrow> \<exists>x. a = Fin x"
  by (cases a) simp_all

lemma esp3_accepts_recorded:
  assumes acc: "esp3_accepts p alpha T n rows ping z d k t"
    and z: "\<forall>i < length z. z ! i = (if under_bottom_mask cd (bottom_da p) idx_pings i ping
                                      then Fin (- 999) else Sv cd ! ping ! i)"
    and d: "length d = length z" "\<forall>i < length z. d ! i = depth cd ! ping ! i"
    and rows: "\<forall>i < length z. rows ! i = i"
    and k: "k + 1 < length z"
    and ping: "ping \<in> set idx_pings" "ping < length (Sv cd)"
    and valid: "\<not> out_of_range p"
    and len: "wf_channel cd \<longrightarrow> length z \<le> nb_samples cd"
  shows "esp3_recorded cd p alpha T n t"
proof -
  from acc obtain pk r left right where a:
    "z ! k = Fin pk" "TS_threshold p < pk"
    "left = expand_left z k (pk - PLDL p) (max_len n p) 0"
    "right = expand_right z k (pk - PLDL p) (max_len n p) 0"
    "t_plen t = 1 + left + right"
    "min_len n p \<le> int (t_plen t)" "int (t_plen t) \<le> max_len n p"
    "finite_values (py_slice d (int k - int left) (int k + int right + 1)) \<noteq> []"
    "\<forall>x. d ! k = Fin x \<longrightarrow> r = x"
    "0 < r - SoundSpeed p * T / 4"
    "t_range t = Fin r"
    "t_ts_uncomp t =
       Fin (pk + (40 * log10 (r - SoundSpeed p * T / 4) + 2 * alpha * (r - SoundSpeed p * T / 4)))"
    "t_ts_comp t = t_ts_uncomp t"
    "TS_threshold p <
       pk + (40 * log10 (r - SoundSpeed p * T / 4) + 2 * alpha * (r - SoundSpeed p * T / 4))"
    "t_ping t = ping" "t_idx t = rows ! k"
    unfolding esp3_accepts_def by blast
  have thr: "- 120 \<le> TS_threshold p" "PLDL p \<le> 30"
    using valid by (auto simp: out_of_range_def)
  have klt: "k < length z" using k by simp
  have idx: "t_idx t = k" using a(16) rows klt by simp
  text \<open>a cell of the column at or above the expansion threshold is not masked\<close>
  have unmasked: "\<not> under_bottom_mask cd (bottom_da p) idx_pings i ping"
    if "i < length z" "fge (z ! i) (Fin (pk - PLDL p))" for i
  proof
    assume "under_bottom_mask cd (bottom_da p) idx_pings i ping"
    then have "z ! i = Fin (- 999)" using z that(1) by simp
    then show False using that(2) thr a(2) by simp
  qed
  have "fge (z ! k) (Fin (pk - PLDL p))"
    using a(1) valid by (simp add: out_of_range_def)
  then have uk: "\<not> under_bottom_mask cd (bottom_da p) idx_pings k ping"
    using unmasked klt by blast
  then have sv: "Sv cd ! ping ! k = Fin pk" using z klt a(1) by simp
  have dk: "d ! k = depth cd ! ping ! k" using d klt by simp
  have bottom: "int k < idx_bot (depth cd ! ping) (b ! ping) (nb_samples cd)"
    if b: "bottom_da p = Some b" and wf: "wf_channel cd"
      and mono: "depth_increasing (depth cd ! ping)" for b
  proof -
    let ?D = "depth cd ! ping"
    have lenD: "length ?D = nb_samples cd"
      using wf ping(2) by (simp add: wf_channel_def list_all_length)
    have lz: "length z \<le> nb_samples cd" using len wf by simp
    have l: "left \<le> k"
      using expand_left_range[of 0 z k "pk - PLDL p" "max_len n p"] a(3) by simp
    have r: "k + right < length z"
      using expand_right_range[of 0 z k "pk - PLDL p" "max_len n p"] a(4) klt by simp
    have env: "\<not> fge (?D ! m) (b ! ping)" if m: "k - left \<le> m" "m \<le> k + right" for m
    proof -
      have mz: "m < length z" using m r by simp
      have "fge (z ! m) (Fin (pk - PLDL p))"
      proof (cases "m < k")
        case True
        define j where "j = k - 1 - m"
        have "j < left" "k - 1 - j = m" using True m l by (auto simp: j_def)
        then show ?thesis
          using expand_left_range[of 0 z k "pk - PLDL p" "max_len n p"] a(3) by auto
      next
        case False
        show ?thesis
        proof (cases "m = k")
          case True
          then show ?thesis using \<open>fge (z ! k) (Fin (pk - PLDL p))\<close> by simp
        next
          case False
          define j where "j = m - k - 1"
          have "j < right" "k + 1 + j = m" using False \<open>\<not> m < k\<close> m by (auto simp: j_def)
          then show ?thesis
            using expand_right_range[of 0 z k "pk - PLDL p" "max_len n p"] a(4) by auto
        qed
      qed
      then have "\<not> under_bottom_mask cd (bottom_da p) idx_pings m ping"
        using unmasked mz by blast
      then show ?thesis using b ping(1) by (auto simp: under_bottom_mask_def)
    qed
    have eqs: "int k - int left = int (k - left)" "int k + int right + 1 = int (k + right + 1)"
      using l by simp_all
    have "finite_values (py_slice d (int (k - left)) (int (k + right + 1))) \<noteq> []"
      using a(8) unfolding eqs .
    from py_slice_finite[OF this] obtain m where
      m: "k - left \<le> m" "m < k + right + 1" "m < length d" "isfinite (d ! m)" by blast
    have "d ! m = ?D ! m" using d m(3) by simp
    with m(4) obtain y where y: "?D ! m = Fin y"
      using isfinite_Fin by metis
    have ym: "\<not> fge (Fin y) (b ! ping)" using env[of m] m y by simp
    show ?thesis
    proof (cases rule: idx_bot_cases[of ?D "b ! ping" "nb_samples cd"])
      case none
      then show ?thesis using k lz by simp
    next
      case (cross c)
      have "k < c"
      proof (rule ccontr)
        assume "\<not> k < c"
        then have ck: "c \<le> k" by simp
        have "\<not> (k - left \<le> c)" using env[of c] cross(3) ck by auto
        then have cm: "c < m" using m(1) by simp
        have "m < length ?D" using m(3) d(1) lz lenD by simp
        moreover have "?D ! c \<noteq> NaN" "?D ! m \<noteq> NaN" using cross(2) y by auto
        ultimately have "fge (?D ! m) (?D ! c)"
          using mono cm unfolding depth_increasing_def by blast
        then have "fge (?D ! m) (b ! ping)" using cross(3) fge_trans by blast
        then show False using ym y by simp
      qed
      then show ?thesis using cross(4) by simp
    qed
  qed
  have core: "\<exists>pk r.
        Sv cd ! ping ! k = Fin pk \<and> t_range t = Fin r \<and>
        0 < r - SoundSpeed p * T / 4 \<and>
        t_ts_uncomp t =
          Fin (pk + (40 * log10 (r - SoundSpeed p * T / 4) + 2 * alpha * (r - SoundSpeed p * T / 4))) \<and>
        t_ts_comp t = t_ts_uncomp t \<and>
        TS_threshold p <
          pk + (40 * log10 (r - SoundSpeed p * T / 4) + 2 * alpha * (r - SoundSpeed p * T / 4)) \<and>
        (\<forall>x. depth cd ! ping ! k = Fin x \<longrightarrow> r = x)"
    apply (rule exI[of _ pk], rule exI[of _ r])
    using sv a(9-14) dk by simp
  show ?thesis
    unfolding esp3_recorded_def a(15) idx
    using ping(2) core a(6,7) bottom by blast
qed


subsection \<open>Variant A: a ping, a block, the run\<close>

lemma ping_group_Nil: "ping_group Q sep ping []"
  by (simp add: ping_group_def)

lemma esp3_ping_effect:
  assumes z: "\<forall>i < length z. z ! i = (if under_bottom_mask cd (bottom_da p) idx_pings i ping
                                      then Fin (- 999) else Sv cd ! ping ! i)"
    and d: "length d = length z" "\<forall>i < length z. d ! i = depth cd ! ping ! i"
    and rows: "\<forall>i < length z. rows ! i = i"
    and ping: "ping \<in> set idx_pings" "ping < length (Sv cd)"
    and valid: "\<not> out_of_range p"
    and len: "wf_channel cd \<longrightarrow> length z \<le> nb_samples cd"
  shows "appends (ping_group (esp3_recorded cd p alpha T n) n ping)
           (esp3_ping p alpha T n nst tms rows ping z d)"
proof (cases "length z < 3")
  case True
  then have "esp3_ping p alpha T n nst tms rows ping z d = (\<lambda>out. out)"
    by (intro ext) (simp add: esp3_ping_def)
  then show ?thesis
    using appends_id[of "ping_group (esp3_recorded cd p alpha T n) n ping"] ping_group_Nil
    by simp
next
  case False
  let ?A = "\<lambda>k t. k + 1 < length z \<and> esp3_accepts p alpha T n rows ping z d k t"
  let ?S = "\<lambda>t t'. int (t_idx t) + n \<le> int (t_idx t')"
  have eq: "esp3_ping p alpha T n nst tms rows ping z d =
            fold (esp3_candidate p alpha T n nst tms rows ping z d) (esp3_keep n z)"
    using False by (intro ext) (simp add: esp3_ping_def)
  have step: "appends (\<lambda>ts. ts = [] \<or> (\<exists>t. ts = [t] \<and> ?A k t))
                (esp3_candidate p alpha T n nst tms rows ping z d k)"
    if "k \<in> set (esp3_keep n z)" for k
    using esp3_keep_range(2)[OF that]
    by (intro appends_mono[OF esp3_candidate_effect]) auto
  have rel: "?S t t'" if "int k + n \<le> int k'" "?A k t" "?A k' t'" for k k' t t'
  proof -
    have "t_idx t = k" "t_idx t' = k'"
      using that(2,3) rows by (auto simp: esp3_accepts_def)
    then show ?thesis using that(1) by simp
  qed
  have "appends (\<lambda>ts. (\<forall>t \<in> set ts. \<exists>k \<in> set (esp3_keep n z). ?A k t) \<and> sorted_wrt ?S ts)
          (fold (esp3_candidate p alpha T n nst tms rows ping z d) (esp3_keep n z))"
    by (rule appends_fold_sorted[OF esp3_keep_sorted step rel])
  then show ?thesis
    unfolding eq
  proof (rule appends_mono)
    fix ts
    assume h: "(\<forall>t \<in> set ts. \<exists>k \<in> set (esp3_keep n z). ?A k t) \<and> sorted_wrt ?S ts"
    have "t_ping t = ping \<and> esp3_recorded cd p alpha T n t" if "t \<in> set ts" for t
    proof -
      from h that obtain k where k: "k + 1 < length z" "esp3_accepts p alpha T n rows ping z d k t"
        by blast
      have "t_ping t = ping" using k(2) by (auto simp: esp3_accepts_def)
      moreover have "esp3_recorded cd p alpha T n t"
        by (rule esp3_accepts_recorded[OF k(2) z d rows k(1) ping valid len])
      ultimately show ?thesis by simp
    qed
    then show "ping_group (esp3_recorded cd p alpha T n) n ping ts"
      using h by (simp add: ping_group_def)
  qed
qed

lemma esp3_block_effect:
  assumes valid: "\<not> out_of_range p"
    and M: "wf_channel cd \<longrightarrow> M \<le> nb_samples cd"
  shows "appends (\<lambda>ts. \<exists>tss. ts = concat tss \<and>
                    list_all2 (ping_group (esp3_recorded cd p alpha T n) n)
                      (block_pings bs (length (Sv cd)) ui) tss)
           (esp3_block cd (bottom_da p) p alpha T n [0..<M] bs ui)"
proof -
  define idx_pings where "idx_pings = block_pings bs (length (Sv cd)) ui"
  define rows where "rows = block_rows cd (bottom_da p) [0..<M] idx_pings"
  define TS where "TS = esp3_TS cd (bottom_da p) idx_pings rows"
  define DEP where "DEP = block_DEP cd idx_pings rows"
  define valid_rows where
    "valid_rows = filter (\<lambda>i. \<exists>col \<in> set TS. fgt (col ! i) (Fin (- 999))) [0..<length rows]"
  define L where "L = maximum valid_rows + 1"
  let ?G = "ping_group (esp3_recorded cd p alpha T n) n"
  obtain M' where M': "M' \<le> M" "rows = [0..<M']"
    using block_rows_prefix[of M cd "bottom_da p" idx_pings] unfolding rows_def by blast
  have cw: "DataType p = ''CW''" using valid by (simp add: out_of_range_def)
  show ?thesis
  proof (cases "\<exists>col \<in> set TS. \<exists>x \<in> set col. fgt x (Fin (- 999))")
    case False
    then have "esp3_block cd (bottom_da p) p alpha T n [0..<M] bs ui = (\<lambda>out. out)"
      unfolding esp3_block_def Let_def idx_pings_def[symmetric] rows_def[symmetric] TS_def[symmetric]
      by (intro ext) simp
    moreover have "\<exists>tss. [] = concat tss \<and> list_all2 ?G idx_pings tss"
      by (rule list_all2_empties) (rule ping_group_Nil)
    ultimately show ?thesis
      unfolding idx_pings_def[symmetric] using appends_id[of "\<lambda>ts. \<exists>tss. ts = concat tss \<and> list_all2 ?G idx_pings tss"]
      by simp
  next
    case True
    let ?f = "\<lambda>jp. esp3_ping p alpha T n (nb_samples cd) (ping_time cd) (take L rows)
                    (idx_pings ! jp) (map (take L) TS ! jp) (map (take L) DEP ! jp)"
    have eq: "esp3_block cd (bottom_da p) p alpha T n [0..<M] bs ui
              = fold ?f [0..<length idx_pings]"
      using True cw
      unfolding esp3_block_def Let_def idx_pings_def[symmetric] rows_def[symmetric]
        TS_def[symmetric] DEP_def[symmetric] valid_rows_def[symmetric] L_def
      by (intro ext) simp
    have step: "appends (?G (idx_pings ! jp)) (?f jp)" if "jp \<in> set [0..<length idx_pings]" for jp
    proof -
      have jp: "jp < length idx_pings" using that by simp
      let ?ip = "idx_pings ! jp"
      let ?z = "map (take L) TS ! jp" and ?d = "map (take L) DEP ! jp"
      have ip: "?ip \<in> set idx_pings" using jp by simp
      then have ipn: "?ip < length (Sv cd)"
        unfolding idx_pings_def by (rule block_pings_bound)
      have zt: "?z = take L (map (\<lambda>r. if mask_inter_tot r ?ip \<or>
                     under_bottom_mask cd (bottom_da p) idx_pings r ?ip
                     then Fin (- 999) else Sv cd ! ?ip ! r) rows)"
        using jp by (simp add: TS_def esp3_TS_def)
      have dt: "?d = take L (map (\<lambda>r. depth cd ! ?ip ! r) rows)"
        using jp by (simp add: DEP_def block_DEP_def)
      have lz: "length ?z = min L M'" using zt M'(2) by simp
      have z: "\<forall>i < length ?z. ?z ! i = (if under_bottom_mask cd (bottom_da p) idx_pings i ?ip
                                      then Fin (- 999) else Sv cd ! ?ip ! i)"
        unfolding lz unfolding zt using M'(2) by (simp add: mask_inter_tot_def)
      have d: "length ?d = length ?z" "\<forall>i < length ?z. ?d ! i = depth cd ! ?ip ! i"
        unfolding lz unfolding dt using M'(2) by simp_all
      have rows: "\<forall>i < length ?z. take L rows ! i = i"
        unfolding lz using M'(2) by simp
      have len: "wf_channel cd \<longrightarrow> length ?z \<le> nb_samples cd"
        using lz M'(1) M by (auto simp: min_def)
      show ?thesis
        by (rule esp3_ping_effect[OF z d rows ip ipn valid len])
    qed
    have "appends (\<lambda>ts. \<exists>tss. ts = concat tss \<and>
             list_all2 (\<lambda>jp. ?G (idx_pings ! jp)) [0..<length idx_pings] tss)
            (fold ?f [0..<length idx_pings])"
      by (rule appends_fold[of "[0..<length idx_pings]" "\<lambda>jp. ?G (idx_pings ! jp)" ?f, OF step])
    then show ?thesis
      unfolding eq idx_pings_def[symmetric]
      by (rule appends_mono) (use list_all2_index in blast)
  qed
qed


lemma detect_esp3_Inr:
  assumes "detect_esp3 ds params = Inr out"
  obtains p ch cd where "params = Some p" "channel p = Some ch" "ds ch = Some cd"
    "\<not> out_of_range p" "esp3_run cd p = Inr out"
proof -
  from assms obtain p where p: "params = Some p"
    by (cases params) (simp_all add: detect_esp3_def)
  from assms p obtain ch where ch: "channel p = Some ch"
    by (cases "channel p") (simp_all add: detect_esp3_def)
  from assms p ch have v: "validate_params p = Inr ()"
    by (cases "validate_params p") (simp_all add: detect_esp3_def)
  then have ok: "\<not> out_of_range p"
    by (auto simp: validate_params_def out_of_range_def split: if_splits)
  from assms p ch v obtain cd where "ds ch = Some cd" "esp3_run cd p = Inr out"
    by (cases "ds ch") (simp_all add: detect_esp3_def)
  then show ?thesis using that p ch ok by blast
qed

lemma esp3_run_effect:
  assumes run: "esp3_run cd p = Inr out" and valid: "\<not> out_of_range p"
  obtains n tss e where "esp3_Np cd p = Inr n" "aligned out" "targets out = concat tss"
    "list_all2 (ping_group (esp3_recorded cd p (case sound_absorption cd of None \<Rightarrow> 0 | Some a \<Rightarrow> a)
                   (pulse_length p) n) n) [0..<e] tss"
    "e \<le> length (Sv cd)"
proof -
  define alpha where "alpha = (case sound_absorption cd of None \<Rightarrow> 0 | Some a \<Rightarrow> a)"
  define bs where "bs = block_size (block_len p) (length (crop_idx_r_tot cd (bottom_da p))) (length (Sv cd))"
  define m where "m = num_ite_esp3 bs (length (Sv cd))"
  have ne: "bottom_da p \<noteq> None \<longrightarrow> Sv cd \<noteq> []"
    using run by (auto simp: esp3_run_def Let_def split: if_splits)
  obtain n where n: "esp3_Np cd p = Inr n"
    using run ne by (cases "esp3_Np cd p") (auto simp: esp3_run_def Let_def split: if_splits)
  obtain M where M: "crop_idx_r_tot cd (bottom_da p) = [0..<M]" "wf_channel cd \<longrightarrow> M \<le> nb_samples cd"
    using crop_idx_r_tot_prefix[OF ne] by blast
  let ?G = "ping_group (esp3_recorded cd p alpha (pulse_length p) n) n"
  define res where "res = fold (esp3_block cd (bottom_da p) p alpha (pulse_length p) n
                                  (crop_idx_r_tot cd (bottom_da p)) bs) [0..<m] init_st_struct"
  have out: "out = res \<lparr> nb_valid_targets := length (TS_comp res) \<rparr>"
    using run ne n
    unfolding esp3_run_def Let_def res_def alpha_def bs_def m_def
    by (auto split: if_splits)
  have "appends (\<lambda>ts. \<exists>tsss. ts = concat tsss \<and>
           list_all2 (\<lambda>ui ts. \<exists>tss. ts = concat tss \<and>
              list_all2 ?G (block_pings bs (length (Sv cd)) ui) tss) [0..<m] tsss)
          (fold (esp3_block cd (bottom_da p) p alpha (pulse_length p) n [0..<M] bs) [0..<m])"
    by (rule appends_fold) (rule esp3_block_effect[OF valid M(2)])
  from appendsD[OF this targets_init(2)] obtain tsss where
    al: "aligned res" and ts: "targets res = concat tsss"
    and l: "list_all2 (\<lambda>ui ts. \<exists>tss. ts = concat tss \<and>
              list_all2 ?G (block_pings bs (length (Sv cd)) ui) tss) [0..<m] tsss"
    unfolding res_def M(1) by (auto simp: targets_init)
  from list_all2_concat_flatten[OF l] obtain tss where
    tss: "concat tsss = concat tss"
      "list_all2 ?G (concat (map (block_pings bs (length (Sv cd))) [0..<m])) tss" by blast
  obtain e where e: "e \<le> length (Sv cd)"
    "concat (map (block_pings bs (length (Sv cd))) [0..<m]) = [0..<e]"
    using concat_blocks_prefix by blast
  have "targets out = targets res" "aligned out = aligned res"
    unfolding out by (rule targets_unchanged; simp)+
  then show ?thesis
    using that[of n tss e] n al ts tss e unfolding alpha_def by simp
qed


subsection \<open>Variant B: the loops of one ping\<close>

lemma width_left_le: "width_left zP lm i0 \<le> i0"
proof (induction zP lm i0 rule: width_left.induct)
  case (1 zP lm i0)
  show ?case
  proof (cases "i0 > 0 \<and> isfinite (zP ! (i0 - 1)) \<and> fge (zP ! (i0 - 1)) lm")
    case True
    then have "width_left zP lm i0 = width_left zP lm (i0 - 1)"
      by (subst width_left.simps) simp
    then show ?thesis using "1.IH"[OF True] by simp
  next
    case False
    then have "width_left zP lm i0 = i0" by (subst width_left.simps) auto
    then show ?thesis by simp
  qed
qed

lemma width_right_ge: "i1 \<le> width_right zP lm i1"
proof (induction zP lm i1 rule: width_right.induct)
  case (1 zP lm i1)
  show ?case
  proof (cases "i1 + 1 < length zP \<and> isfinite (zP ! (i1 + 1)) \<and> fge (zP ! (i1 + 1)) lm")
    case True
    then have "width_right zP lm i1 = width_right zP lm (i1 + 1)"
      by (subst width_right.simps) simp
    then show ?thesis using "1.IH"[OF True] by simp
  next
    case False
    then have "width_right zP lm i1 = i1" by (subst width_right.simps) auto
    then show ?thesis by simp
  qed
qed

lemma matecho_loc_range:
  assumes "k \<in> set (matecho_loc zP)"
  shows "k + 1 < length zP" and "isfinite (zP ! k)" and "dec_tir \<le> k"
  using assms by (auto simp: matecho_loc_def)

lemma matecho_loc_sorted: "sorted_wrt (<) (matecho_loc zP)"
  unfolding matecho_loc_def by (rule sorted_wrt_filter) simp

lemma minimum_le:
  assumes "x \<in> set xs"
  shows "minimum xs \<le> (x::int)"
  using assms by (induction xs rule: minimum.induct) auto

lemma minimum_in:
  assumes "xs \<noteq> []"
  shows "minimum xs \<in> set (xs::int list)"
  using assms by (induction xs rule: minimum.induct) (auto simp: min_def)

lemma fadd_not_NaN: "fadd a b \<noteq> NaN \<Longrightarrow> a \<noteq> NaN \<and> b \<noteq> NaN"
  by (cases a; cases b) simp_all

lemma fge_not_NaN: "fge a b \<Longrightarrow> a \<noteq> NaN \<and> b \<noteq> NaN"
  by (cases a; cases b) simp_all

subsection \<open>Variant B: one candidate\<close>

lemma matecho_save_effect:
  assumes "aligned out"
  shows "targets (matecho_save out tc tu r rd rmin rmax idx ping tm lin before after pn plen
                    hv rl pt hg dd) =
           targets out @ [\<lparr> t_ping = ping, t_idx = idx, t_ts_comp = tc, t_ts_uncomp = tu,
                              t_range = r, t_plen = plen \<rparr>]"
    and "aligned (matecho_save out tc tu r rd rmin rmax idx ping tm lin before after pn plen
                    hv rl pt hg dd)"
  by (rule targets_snoc[OF assms]; simp add: matecho_save_def)+

text \<open>The gates of a candidate, and the three outcomes.\<close>

lemma matecho_candidate_cases:
  fixes p env nst tms rows ping zP zTS zTSU rcol k st
  defines "i0 \<equiv> width_left zP (fsub (zP ! k) (Fin 6)) k"
    and "i1 \<equiv> width_right zP (fsub (zP ! k) (Fin 6)) k"
  defines "plen \<equiv> i1 - i0 + 1"
  defines "gates \<equiv>
      isfinite (zTS ! k) \<and> \<not> fle (zTS ! k) (Fin (TS_threshold p)) \<and>
      \<not> fgt (fsub (zTS ! k) (zTSU ! k)) (Fin (2 * MaxAngleOneWayCompression p)) \<and>
      py_round (of_int (m_NechP env) * MinEchoLength p) \<le> int plen \<and>
      int plen \<le> py_round (of_int (m_NechP env) * MaxEchoLength p) \<and>
      (\<forall>kk \<in> set (fst st). py_round (MinEchoSpace p * of_int (m_NechP env)) \<le> \<bar>int k - int kk\<bar>) \<and>
      fle (MinEchoDepthM p) (fadd (fadd (rcol ! k) (Fin (m_TD env))) (m_heave env ! ping)) \<and>
      fle (fadd (fadd (rcol ! k) (Fin (m_TD env))) (m_heave env ! ping)) (MaxEchoDepthM p)"
  obtains (skip) "\<not> gates" "matecho_candidate p env nst tms rows ping zP zTS zTSU rcol k st = st"
  | (kept) "gates" "finite_values (py_slice rcol (int i0) (int i1 + 1)) = []"
      "matecho_candidate p env nst tms rows ping zP zTS zTSU rcol k st = (fst st @ [k], snd st)"
  | (saved) "gates" "finite_values (py_slice rcol (int i0) (int i1 + 1)) \<noteq> []"
      "matecho_candidate p env nst tms rows ping zP zTS zTSU rcol k st =
         (fst st @ [k],
          matecho_save (snd st) (zTS ! k) (zTSU ! k) (rcol ! k)
            (fadd (rcol ! k) (Fin (SoundSpeed p * m_T env / 4)))
            (minimum (finite_values (py_slice rcol (int i0) (int i1 + 1))))
            (maximum (finite_values (py_slice rcol (int i0) (int i1 + 1))))
            (rows ! k) ping (tms ! ping) (ping * nst + rows ! k) (k - i0) (i1 - k)
            (real plen / of_int (m_NechP env)) plen
            (m_heave env ! ping) (m_roll env ! ping) (m_pitch env ! ping)
            (m_heading env ! ping) (m_dist env ! ping))"
proof -
  have sp: "(fst st \<noteq> [] \<and> minimum (map (\<lambda>kk. \<bar>int k - int kk\<bar>) (fst st))
              < py_round (MinEchoSpace p * of_int (m_NechP env)))
        \<longleftrightarrow> \<not> (\<forall>kk \<in> set (fst st). py_round (MinEchoSpace p * of_int (m_NechP env)) \<le> \<bar>int k - int kk\<bar>)"
    (is "?l \<longleftrightarrow> \<not> ?r")
  proof
    assume l: ?l
    then have "minimum (map (\<lambda>kk. \<bar>int k - int kk\<bar>) (fst st))
                 \<in> set (map (\<lambda>kk. \<bar>int k - int kk\<bar>) (fst st))"
      by (intro minimum_in) simp
    then obtain kk where "kk \<in> set (fst st)"
      "minimum (map (\<lambda>kk. \<bar>int k - int kk\<bar>) (fst st)) = \<bar>int k - int kk\<bar>" by auto
    then show "\<not> ?r" using l by force
  next
    assume "\<not> ?r"
    then obtain kk where kk: "kk \<in> set (fst st)"
      "\<bar>int k - int kk\<bar> < py_round (MinEchoSpace p * of_int (m_NechP env))" by force
    then have "minimum (map (\<lambda>kk. \<bar>int k - int kk\<bar>) (fst st)) \<le> \<bar>int k - int kk\<bar>"
      by (intro minimum_le) simp
    then show ?l using kk by auto
  qed
  define raw where "raw \<longleftrightarrow>
      \<not> (\<not> isfinite (zTS ! k) \<or> fle (zTS ! k) (Fin (TS_threshold p))) \<and>
      \<not> fgt (fsub (zTS ! k) (zTSU ! k)) (Fin (2 * MaxAngleOneWayCompression p)) \<and>
      \<not> (int plen < py_round (of_int (m_NechP env) * MinEchoLength p) \<or>
         int plen > py_round (of_int (m_NechP env) * MaxEchoLength p)) \<and>
      \<not> (fst st \<noteq> [] \<and> minimum (map (\<lambda>kk. \<bar>int k - int kk\<bar>) (fst st))
              < py_round (MinEchoSpace p * of_int (m_NechP env))) \<and>
      \<not> \<not> (fle (MinEchoDepthM p) (fadd (fadd (rcol ! k) (Fin (m_TD env))) (m_heave env ! ping)) \<and>
      fle (fadd (fadd (rcol ! k) (Fin (m_TD env))) (m_heave env ! ping)) (MaxEchoDepthM p))"
  have rg: "raw \<longleftrightarrow> gates"
    unfolding raw_def gates_def sp by (simp add: not_le not_less; blast)
  let ?seg = "finite_values (py_slice rcol (int i0) (int i1 + 1))"
  let ?saved = "(fst st @ [k],
          matecho_save (snd st) (zTS ! k) (zTSU ! k) (rcol ! k)
            (fadd (rcol ! k) (Fin (SoundSpeed p * m_T env / 4)))
            (minimum ?seg) (maximum ?seg)
            (rows ! k) ping (tms ! ping) (ping * nst + rows ! k) (k - i0) (i1 - k)
            (real plen / of_int (m_NechP env)) plen
            (m_heave env ! ping) (m_roll env ! ping) (m_pitch env ! ping)
            (m_heading env ! ping) (m_dist env ! ping))"
  have eq: "matecho_candidate p env nst tms rows ping zP zTS zTSU rcol k st =
     (if raw then (if ?seg = [] then (fst st @ [k], snd st) else ?saved) else st)"
    unfolding matecho_candidate_def Let_def raw_def plen_def i0_def i1_def
    by (simp only: if_not_P if_P split: if_split) simp
  show ?thesis
  proof (cases gates)
    case False
    then have "matecho_candidate p env nst tms rows ping zP zTS zTSU rcol k st = st"
      using eq rg by simp
    then show ?thesis using skip False by blast
  next
    case True
    show ?thesis
    proof (cases "?seg = []")
      case e: True
      have "matecho_candidate p env nst tms rows ping zP zTS zTSU rcol k st = (fst st @ [k], snd st)"
        using True e eq rg by simp
      then show ?thesis using kept True e by blast
    next
      case ne: False
      have "matecho_candidate p env nst tms rows ping zP zTS zTSU rcol k st = ?saved"
        using True ne eq rg by simp
      then show ?thesis using saved True ne by blast
    qed
  qed
qed


subsection \<open>Variant B: the scan of one ping\<close>

lemma matecho_gates_accepts:
  assumes "isfinite (zTS ! k)" "\<not> fle (zTS ! k) (Fin (TS_threshold p))"
    "py_round (of_int (m_NechP env) * MinEchoLength p) \<le> int plen"
    "int plen \<le> py_round (of_int (m_NechP env) * MaxEchoLength p)"
    "fle (MinEchoDepthM p) (fadd (fadd (rcol ! k) (Fin (m_TD env))) (m_heave env ! ping))"
  shows "matecho_accepts p env rows ping zP zTS zTSU rcol k
           \<lparr> t_ping = ping, t_idx = rows ! k, t_ts_comp = zTS ! k, t_ts_uncomp = zTSU ! k,
             t_range = rcol ! k, t_plen = plen \<rparr>"
proof -
  from assms(1) obtain v where v: "zTS ! k = Fin v" using isfinite_Fin by blast
  then have "TS_threshold p < v" using assms(2) by (simp add: fle_def)
  moreover have "rcol ! k \<noteq> NaN"
    using assms(5) fge_not_NaN fadd_not_NaN unfolding fle_def by blast
  ultimately show ?thesis using v assms(3,4) by (simp add: matecho_accepts_def)
qed

lemma matecho_scan_effect:
  fixes p env nst tms rows ping zP zTS zTSU rcol
  defines "sp \<equiv> py_round (MinEchoSpace p * of_int (m_NechP env))"
  defines "cand \<equiv> matecho_candidate p env nst tms rows ping zP zTS zTSU rcol"
  assumes rows: "\<forall>i < length zP. rows ! i = i"
  shows "sorted_wrt (<) ks \<Longrightarrow> (\<forall>k \<in> set ks. k + 1 < length zP) \<Longrightarrow> aligned out \<Longrightarrow>
     \<exists>ts. aligned (snd (fold cand ks (keep, out))) \<and>
          targets (snd (fold cand ks (keep, out))) = targets out @ ts \<and>
          (\<forall>t \<in> set ts. \<exists>k \<in> set ks. k + 1 < length zP \<and>
               matecho_accepts p env rows ping zP zTS zTSU rcol k t \<and>
               (\<forall>kk \<in> set keep. sp \<le> \<bar>int k - int kk\<bar>)) \<and>
          sorted_wrt (\<lambda>t t'. int (t_idx t) + sp \<le> int (t_idx t')) ts"
proof (induction ks arbitrary: keep out)
  case Nil
  then show ?case by simp
next
  case (Cons k ks)
  have srt: "sorted_wrt (<) ks" and gt: "\<forall>k' \<in> set ks. k < k'" using Cons.prems(1) by auto
  have rng: "\<forall>k \<in> set ks. k + 1 < length zP" and kr: "k + 1 < length zP"
    using Cons.prems(2) by auto
  let ?P = "\<lambda>keep0 out0 ks0 ts. aligned (snd (fold cand ks0 (keep0, out0))) \<and>
          targets (snd (fold cand ks0 (keep0, out0))) = targets out0 @ ts \<and>
          (\<forall>t \<in> set ts. \<exists>k \<in> set ks0. k + 1 < length zP \<and>
               matecho_accepts p env rows ping zP zTS zTSU rcol k t \<and>
               (\<forall>kk \<in> set keep0. sp \<le> \<bar>int k - int kk\<bar>)) \<and>
          sorted_wrt (\<lambda>t t'. int (t_idx t) + sp \<le> int (t_idx t')) ts"
  show ?case
  proof (cases rule: matecho_candidate_cases[where p=p and env=env and ping=ping and zP=zP
      and zTS=zTS and zTSU=zTSU and rcol=rcol and k=k and st="(keep, out)" and nst=nst
      and tms=tms and rows=rows])
    case skip
    then have st: "cand k (keep, out) = (keep, out)" by (simp add: cand_def)
    from Cons.IH[OF srt rng Cons.prems(3), of keep] obtain ts where "?P keep out ks ts" by blast
    then have "?P keep out (k # ks) ts" using st by auto
    then show ?thesis by blast
  next
    case kept
    then have st: "cand k (keep, out) = (keep @ [k], out)" by (simp add: cand_def)
    from Cons.IH[OF srt rng Cons.prems(3), of "keep @ [k]"] obtain ts where
      "?P (keep @ [k]) out ks ts" by blast
    then have "?P keep out (k # ks) ts" using st by auto
    then show ?thesis by blast
  next
    case saved
    define plen where "plen = width_right zP (fsub (zP ! k) (Fin 6)) k
                              - width_left zP (fsub (zP ! k) (Fin 6)) k + 1"
    define t0 where "t0 = \<lparr> t_ping = ping, t_idx = rows ! k, t_ts_comp = zTS ! k,
                            t_ts_uncomp = zTSU ! k, t_range = rcol ! k, t_plen = plen \<rparr>"
    obtain out' where st: "cand k (keep, out) = (keep @ [k], out')"
      and t: "targets out' = targets out @ [t0]" and al': "aligned out'"
      using saved(3) matecho_save_effect[OF Cons.prems(3)]
      unfolding cand_def t0_def plen_def by auto
    have acc: "matecho_accepts p env rows ping zP zTS zTSU rcol k t0"
      unfolding t0_def plen_def using saved(1) by (intro matecho_gates_accepts) simp_all
    have far: "\<forall>kk \<in> set keep. sp \<le> \<bar>int k - int kk\<bar>"
      using saved(1) by (simp add: sp_def)
    from Cons.IH[OF srt rng al', of "keep @ [k]"] obtain ts where ih: "?P (keep @ [k]) out' ks ts"
      by blast
    have rel: "int (t_idx t0) + sp \<le> int (t_idx t')" if "t' \<in> set ts" for t'
    proof -
      from ih that obtain k' where k': "k' \<in> set ks" "k' + 1 < length zP"
        "matecho_accepts p env rows ping zP zTS zTSU rcol k' t'"
        "sp \<le> \<bar>int k' - int k\<bar>" by auto
      have "t_idx t' = k'" using k'(2,3) rows by (simp add: matecho_accepts_def)
      moreover have "t_idx t0 = k" using kr rows by (simp add: t0_def)
      moreover have "k < k'" using gt k'(1) by blast
      ultimately show ?thesis using k'(4) by simp
    qed
    have "?P keep out (k # ks) (t0 # ts)"
      using ih st t acc far kr rel by auto
    then show ?thesis by blast
  qed
qed


subsection \<open>Variant B: a ping, a block, the run\<close>

lemma matecho_accepts_recorded:
  assumes acc: "matecho_accepts p env rows ping zP zTS zTSU rcol k t"
    and zP: "\<forall>i < length zP. isfinite (zP ! i) \<longrightarrow>
               \<not> under_bottom_mask cd (bottom_da p) idx_pings i ping"
    and rc: "wf_channel cd \<longrightarrow> (\<forall>i < length zP. rcol ! i \<noteq> NaN \<longrightarrow> depth cd ! ping ! i \<noteq> NaN)"
    and rows: "\<forall>i < length zP. rows ! i = i"
    and k: "k + 1 < length zP" "isfinite (zP ! k)"
    and ping: "ping \<in> set idx_pings" "ping < length (Sv cd)"
    and len: "wf_channel cd \<longrightarrow> length zP \<le> nb_samples cd"
  shows "matecho_recorded cd p (m_NechP env) t"
proof -
  have klt: "k < length zP" using k(1) by simp
  have idx: "t_idx t = k" and pg: "t_ping t = ping"
    using acc rows klt by (simp_all add: matecho_accepts_def)
  have uk: "\<not> under_bottom_mask cd (bottom_da p) idx_pings k ping"
    using zP klt k(2) by blast
  have bottom: "int k < idx_bot (depth cd ! ping) (b ! ping) (nb_samples cd)"
    if b: "bottom_da p = Some b" and wf: "wf_channel cd"
      and mono: "depth_increasing (depth cd ! ping)" for b
  proof -
    let ?D = "depth cd ! ping"
    have lenD: "length ?D = nb_samples cd"
      using wf ping(2) by (simp add: wf_channel_def list_all_length)
    have lz: "length zP \<le> nb_samples cd" using len wf by simp
    have nk: "\<not> fge (?D ! k) (b ! ping)"
      using uk b ping(1) by (auto simp: under_bottom_mask_def)
    have dk: "?D ! k \<noteq> NaN"
      using rc wf klt acc by (simp add: matecho_accepts_def)
    show ?thesis
    proof (cases rule: idx_bot_cases[of ?D "b ! ping" "nb_samples cd"])
      case none
      then show ?thesis using k(1) lz by simp
    next
      case (cross c)
      have "k < c"
      proof (rule ccontr)
        assume "\<not> k < c"
        then have "c < k" using nk cross(3) by (cases "c = k") auto
        moreover have "k < length ?D" using klt lz lenD by simp
        moreover have "?D ! c \<noteq> NaN" using cross(2) by auto
        ultimately have "fge (?D ! k) (?D ! c)"
          using mono dk unfolding depth_increasing_def by blast
        then have "fge (?D ! k) (b ! ping)" using cross(3) fge_trans by blast
        then show False using nk by simp
      qed
      then show ?thesis using cross(4) by simp
    qed
  qed
  show ?thesis
    unfolding matecho_recorded_def pg idx
    using ping(2) acc bottom by (auto simp: matecho_accepts_def)
qed

lemma matecho_ping_effect:
  assumes zP: "\<forall>i < length zP. isfinite (zP ! i) \<longrightarrow>
               \<not> under_bottom_mask cd (bottom_da p) idx_pings i ping"
    and rc: "wf_channel cd \<longrightarrow> (\<forall>i < length zP. rcol ! i \<noteq> NaN \<longrightarrow> depth cd ! ping ! i \<noteq> NaN)"
    and rows: "\<forall>i < length zP. rows ! i = i"
    and ping: "ping \<in> set idx_pings" "ping < length (Sv cd)"
    and len: "wf_channel cd \<longrightarrow> length zP \<le> nb_samples cd"
  shows "appends (ping_group (matecho_recorded cd p (m_NechP env))
                    (py_round (MinEchoSpace p * of_int (m_NechP env))) ping)
           (matecho_ping p env nst tms rows ping zP zTS zTSU rcol)"
proof (rule appendsI)
  fix out assume al: "aligned out"
  let ?G = "ping_group (matecho_recorded cd p (m_NechP env))
              (py_round (MinEchoSpace p * of_int (m_NechP env))) ping"
  let ?out' = "matecho_ping p env nst tms rows ping zP zTS zTSU rcol out"
  show "aligned ?out' \<and> (\<exists>ts. targets ?out' = targets out @ ts \<and> ?G ts)"
  proof (cases "\<exists>x \<in> set zP. isfinite x")
    case False
    then have "?out' = out" by (simp add: matecho_ping_def)
    then show ?thesis using al ping_group_Nil by auto
  next
    case True
    then have eq: "?out' = snd (fold (matecho_candidate p env nst tms rows ping zP zTS zTSU rcol)
                                  (matecho_loc zP) ([], out))"
      by (simp add: matecho_ping_def matecho_scan_def)
    have rng: "\<forall>k \<in> set (matecho_loc zP). k + 1 < length zP"
      using matecho_loc_range(1) by blast
    from matecho_scan_effect[OF rows matecho_loc_sorted rng al, of p env nst tms ping zTS zTSU rcol "[]"]
    obtain ts where ts: "aligned ?out'" "targets ?out' = targets out @ ts"
      "\<forall>t \<in> set ts. \<exists>k \<in> set (matecho_loc zP). k + 1 < length zP \<and>
           matecho_accepts p env rows ping zP zTS zTSU rcol k t"
      "sorted_wrt (\<lambda>t t'. int (t_idx t) + py_round (MinEchoSpace p * of_int (m_NechP env))
                           \<le> int (t_idx t')) ts"
      unfolding eq by auto
    have "t_ping t = ping \<and> matecho_recorded cd p (m_NechP env) t" if "t \<in> set ts" for t
    proof -
      from ts(3) that obtain k where k: "k \<in> set (matecho_loc zP)" "k + 1 < length zP"
        "matecho_accepts p env rows ping zP zTS zTSU rcol k t" by blast
      have fin: "isfinite (zP ! k)" using matecho_loc_range(2)[OF k(1)] .
      have "t_ping t = ping" using k(3) by (simp add: matecho_accepts_def)
      moreover have "matecho_recorded cd p (m_NechP env) t"
        by (rule matecho_accepts_recorded[OF k(3) zP rc rows k(2) fin ping len])
      ultimately show ?thesis by simp
    qed
    then have "?G ts" using ts(4) by (simp add: ping_group_def)
    then show ?thesis using ts(1,2) by blast
  qed
qed

lemma fmaximum_not_NaN: "fmaximum a b \<noteq> NaN \<Longrightarrow> a \<noteq> NaN"
  by (cases a; cases b) simp_all

lemma range_matrix_not_NaN:
  assumes "ip < length (depth cd)" "i < length (depth cd ! ip)"
    "range_matrix cd TD heave ! ip ! i \<noteq> NaN"
  shows "depth cd ! ip ! i \<noteq> NaN"
proof -
  have "range_matrix cd TD heave ! ip ! i
        = fclip0 (fsub (depth cd ! ip ! i) (fadd (Fin TD) (heave ! ip)))"
    using assms(1,2) by (simp add: range_matrix_def)
  then have "fsub (depth cd ! ip ! i) (fadd (Fin TD) (heave ! ip)) \<noteq> NaN"
    using assms(3) fmaximum_not_NaN unfolding fclip0_def by metis
  then show ?thesis using fadd_not_NaN unfolding fsub_def by blast
qed

lemma matecho_block_effect:
  assumes R: "m_R env = range_matrix cd (m_TD env) (m_heave env)"
    and M: "wf_channel cd \<longrightarrow> M \<le> nb_samples cd"
  shows "appends (\<lambda>ts. \<exists>tss. ts = concat tss \<and>
                    list_all2 (ping_group (matecho_recorded cd p (m_NechP env))
                                 (py_round (MinEchoSpace p * of_int (m_NechP env))))
                      (block_pings bs (length (Sv cd)) ui) tss)
           (matecho_block cd (bottom_da p) p env [0..<M] bs ui)"
proof -
  define idx_pings where "idx_pings = block_pings bs (length (Sv cd)) ui"
  define rows where "rows = block_rows cd (bottom_da p) [0..<M] idx_pings"
  let ?G = "ping_group (matecho_recorded cd p (m_NechP env))
              (py_round (MinEchoSpace p * of_int (m_NechP env)))"
  obtain M' where M': "M' \<le> M" "rows = [0..<M']"
    using block_rows_prefix[of M cd "bottom_da p" idx_pings] unfolding rows_def by blast
  let ?f = "\<lambda>j. matecho_ping p env (nb_samples cd) (ping_time cd) rows (idx_pings ! j)
                  (col_Plike cd (bottom_da p) env idx_pings rows (idx_pings ! j))
                  (col_ts cd (bottom_da p) p env idx_pings rows (idx_pings ! j))
                  (col_tsu cd (bottom_da p) env idx_pings rows (idx_pings ! j))
                  (col_R env rows (idx_pings ! j))"
  have f_eq: "matecho_block_ping cd (bottom_da p) p env idx_pings rows = ?f"
    by (intro ext) (simp add: matecho_block_ping_def)
  have eq: "matecho_block cd (bottom_da p) p env [0..<M] bs ui = fold ?f [0..<length idx_pings]"
    unfolding matecho_block_def Let_def idx_pings_def[symmetric] rows_def[symmetric] f_eq
    by (intro ext) simp
  have step: "appends (?G (idx_pings ! j)) (?f j)" if "j \<in> set [0..<length idx_pings]" for j
  proof -
    have j: "j < length idx_pings" using that by simp
    let ?ip = "idx_pings ! j"
    let ?zP = "col_Plike cd (bottom_da p) env idx_pings rows ?ip"
    let ?rcol = "col_R env rows ?ip"
    have ip: "?ip \<in> set idx_pings" using j by simp
    then have ipn: "?ip < length (Sv cd)"
      unfolding idx_pings_def by (rule block_pings_bound)
    have lz: "length ?zP = M'" using M'(2) by (simp add: col_Plike_def)
    have zP: "\<forall>i < length ?zP. isfinite (?zP ! i) \<longrightarrow>
               \<not> under_bottom_mask cd (bottom_da p) idx_pings i ?ip"
      unfolding lz using M'(2) by (auto simp: col_Plike_def matecho_mask_def)
    have rc: "wf_channel cd \<longrightarrow> (\<forall>i < length ?zP. ?rcol ! i \<noteq> NaN \<longrightarrow> depth cd ! ?ip ! i \<noteq> NaN)"
    proof (intro impI allI)
      fix i assume wf: "wf_channel cd" and i: "i < length ?zP" and nn: "?rcol ! i \<noteq> NaN"
      have "?ip < length (depth cd)" using wf ipn by (simp add: wf_channel_def)
      moreover have "length (depth cd ! ?ip) = nb_samples cd"
        using wf ipn by (simp add: wf_channel_def list_all_length)
      then have "i < length (depth cd ! ?ip)" using i lz M'(1) M wf by simp
      moreover have "range_matrix cd (m_TD env) (m_heave env) ! ?ip ! i \<noteq> NaN"
        using nn i lz M'(2) R by (simp add: col_R_def)
      ultimately show "depth cd ! ?ip ! i \<noteq> NaN" by (rule range_matrix_not_NaN)
    qed
    have rows: "\<forall>i < length ?zP. rows ! i = i" unfolding lz using M'(2) by simp
    have len: "wf_channel cd \<longrightarrow> length ?zP \<le> nb_samples cd" using lz M'(1) M by auto
    show ?thesis by (rule matecho_ping_effect[OF zP rc rows ip ipn len])
  qed
  have "appends (\<lambda>ts. \<exists>tss. ts = concat tss \<and>
           list_all2 (\<lambda>j. ?G (idx_pings ! j)) [0..<length idx_pings] tss)
          (fold ?f [0..<length idx_pings])"
    by (rule appends_fold[of "[0..<length idx_pings]" "\<lambda>j. ?G (idx_pings ! j)" ?f, OF step])
  then show ?thesis
    unfolding eq idx_pings_def[symmetric]
    by (rule appends_mono) (use list_all2_index in blast)
qed

lemma bind_err_Inr:
  assumes "bind_err m f = Inr y"
  obtains x where "m = Inr x" "f x = Inr y"
  using assms by (cases m) simp_all

lemma detect_matecho_Inr:
  assumes "detect_matecho ds params = Inr out"
  obtains p ch cd where "params = Some p" "channel p = Some ch" "ds ch = Some cd"
    "matecho_run cd p = Inr out"
proof -
  from assms obtain p where p: "params = Some p"
    by (cases params) (simp_all add: detect_matecho_def)
  from assms p obtain ch where ch: "channel p = Some ch"
    by (cases "channel p") (simp_all add: detect_matecho_def)
  from assms p ch obtain cd where "ds ch = Some cd" "matecho_run cd p = Inr out"
    by (cases "ds ch") (simp_all add: detect_matecho_def)
  then show ?thesis using that p ch by blast
qed

lemma matecho_run_effect:
  assumes run: "matecho_run cd p = Inr out"
  obtains dt tss e where "matecho_dt (matecho_dstep cd) (SoundSpeed p) = Inr dt"
    "aligned out" "targets out = concat tss"
    "list_all2 (ping_group (matecho_recorded cd p (matecho_NechP (pulse_length p) dt))
                  (py_round (MinEchoSpace p * of_int (matecho_NechP (pulse_length p) dt))))
       [0..<e] tss"
    "e \<le> length (Sv cd)"
proof -
  from run obtain heading where r1: "bind_err (nav_array (variables cd) [''pitch'', ''Pitch''] (ping_time cd)) (\<lambda>pitch.
     bind_err (nav_array (variables cd) [''roll'', ''Roll''] (ping_time cd)) (\<lambda>roll.
     bind_err (nav_array (variables cd) [''heave'', ''Heave'', ''vertical_offset''] (ping_time cd)) (\<lambda>heave.
     bind_err (nav_array (variables cd) [''dist'', ''Dist'', ''distance''] (ping_time cd)) (\<lambda>dist.
       let alpha = (case sound_absorption cd of None \<Rightarrow> 0 | Some a \<Rightarrow> a);
           TD = (case transducer_depth cd of None \<Rightarrow> 0 | Some t \<Rightarrow> t);
           R = range_matrix cd TD heave
       in
         if depth cd = [] then Inl IndexError
         else
           let dstep = matecho_dstep cd
           in
             bind_err (matecho_dt dstep (SoundSpeed p)) (\<lambda>dt.
               let T = pulse_length p;
                   nb_pings_tot = length (Sv cd);
                   bb = bottom_da p
               in
                 if bb \<noteq> None \<and> nb_pings_tot = 0
                 then Inl (ValueError ''zero-size array to reduction operation fmax which has no identity'')
                 else
                   let idx_r_tot = crop_idx_r_tot cd bb;
                       bs = block_size (block_len p) (length idx_r_tot) nb_pings_tot;
                       num_ite = num_ite_matecho bs nb_pings_tot;
                       env = \<lparr> m_alpha = alpha, m_TD = TD, m_T = T,
                               m_NechP = matecho_NechP T dt,
                               m_sv2ts = matecho_sv2ts p T,
                               m_ts_range = matecho_ts_range dstep (tvg_start_sample p) (nb_samples cd),
                               m_R = R, m_heading = heading, m_pitch = pitch, m_roll = roll,
                               m_heave = heave, m_dist = dist \<rparr>;
                       out = fold (matecho_block cd bb p env idx_r_tot bs) [0..<num_ite]
                               init_st_struct
                   in Inr (out \<lparr> nb_valid_targets := length (TS_comp out) \<rparr>)))))) = Inr out"
    unfolding matecho_run_def by (rule bind_err_Inr)
  from r1 obtain pitch roll heave dist where
    r5: "(let alpha = (case sound_absorption cd of None \<Rightarrow> 0 | Some a \<Rightarrow> a);
           TD = (case transducer_depth cd of None \<Rightarrow> 0 | Some t \<Rightarrow> t);
           R = range_matrix cd TD heave
       in
         if depth cd = [] then Inl IndexError
         else
           let dstep = matecho_dstep cd
           in
             bind_err (matecho_dt dstep (SoundSpeed p)) (\<lambda>dt.
               let T = pulse_length p;
                   nb_pings_tot = length (Sv cd);
                   bb = bottom_da p
               in
                 if bb \<noteq> None \<and> nb_pings_tot = 0
                 then Inl (ValueError ''zero-size array to reduction operation fmax which has no identity'')
                 else
                   let idx_r_tot = crop_idx_r_tot cd bb;
                       bs = block_size (block_len p) (length idx_r_tot) nb_pings_tot;
                       num_ite = num_ite_matecho bs nb_pings_tot;
                       env = \<lparr> m_alpha = alpha, m_TD = TD, m_T = T,
                               m_NechP = matecho_NechP T dt,
                               m_sv2ts = matecho_sv2ts p T,
                               m_ts_range = matecho_ts_range dstep (tvg_start_sample p) (nb_samples cd),
                               m_R = R, m_heading = heading, m_pitch = pitch, m_roll = roll,
                               m_heave = heave, m_dist = dist \<rparr>;
                       out = fold (matecho_block cd bb p env idx_r_tot bs) [0..<num_ite]
                               init_st_struct
                   in Inr (out \<lparr> nb_valid_targets := length (TS_comp out) \<rparr>))) = Inr out"
    by (elim bind_err_Inr) blast
  define alpha where "alpha = (case sound_absorption cd of None \<Rightarrow> 0 | Some a \<Rightarrow> a)"
  define TD where "TD = (case transducer_depth cd of None \<Rightarrow> 0 | Some t \<Rightarrow> t)"
  have ne: "depth cd \<noteq> []" using r5 by (auto simp: Let_def split: if_splits)
  with r5 obtain dt where dt: "matecho_dt (matecho_dstep cd) (SoundSpeed p) = Inr dt"
    and r6: "(let T = pulse_length p;
                   nb_pings_tot = length (Sv cd);
                   bb = bottom_da p
               in
                 if bb \<noteq> None \<and> nb_pings_tot = 0
                 then Inl (ValueError ''zero-size array to reduction operation fmax which has no identity'')
                 else
                   let idx_r_tot = crop_idx_r_tot cd bb;
                       bs = block_size (block_len p) (length idx_r_tot) nb_pings_tot;
                       num_ite = num_ite_matecho bs nb_pings_tot;
                       env = \<lparr> m_alpha = alpha, m_TD = TD, m_T = T,
                               m_NechP = matecho_NechP T dt,
                               m_sv2ts = matecho_sv2ts p T,
                               m_ts_range = matecho_ts_range (matecho_dstep cd) (tvg_start_sample p) (nb_samples cd),
                               m_R = range_matrix cd TD heave, m_heading = heading, m_pitch = pitch, m_roll = roll,
                               m_heave = heave, m_dist = dist \<rparr>;
                       out = fold (matecho_block cd bb p env idx_r_tot bs) [0..<num_ite]
                               init_st_struct
                   in Inr (out \<lparr> nb_valid_targets := length (TS_comp out) \<rparr>)) = Inr out"
    unfolding Let_def alpha_def TD_def by (auto elim!: bind_err_Inr)
  define env where "env = \<lparr> m_alpha = alpha, m_TD = TD, m_T = pulse_length p,
       m_NechP = matecho_NechP (pulse_length p) dt,
       m_sv2ts = matecho_sv2ts p (pulse_length p),
       m_ts_range = matecho_ts_range (matecho_dstep cd) (tvg_start_sample p) (nb_samples cd),
       m_R = range_matrix cd TD heave, m_heading = heading, m_pitch = pitch, m_roll = roll,
       m_heave = heave, m_dist = dist \<rparr>"
  define bs where "bs = block_size (block_len p) (length (crop_idx_r_tot cd (bottom_da p))) (length (Sv cd))"
  define m where "m = num_ite_matecho bs (length (Sv cd))"
  define res where "res = fold (matecho_block cd (bottom_da p) p env
                                  (crop_idx_r_tot cd (bottom_da p)) bs) [0..<m] init_st_struct"
  have nz: "bottom_da p \<noteq> None \<longrightarrow> Sv cd \<noteq> []"
    using r6 by (auto simp: Let_def split: if_splits)
  have out: "out = res \<lparr> nb_valid_targets := length (TS_comp res) \<rparr>"
    using r6 nz unfolding Let_def res_def env_def bs_def m_def by (auto split: if_splits)
  obtain M where M: "crop_idx_r_tot cd (bottom_da p) = [0..<M]" "wf_channel cd \<longrightarrow> M \<le> nb_samples cd"
    using crop_idx_r_tot_prefix[OF nz] by blast
  have envR: "m_R env = range_matrix cd (m_TD env) (m_heave env)"
    and envN: "m_NechP env = matecho_NechP (pulse_length p) dt" by (simp_all add: env_def)
  let ?G = "ping_group (matecho_recorded cd p (m_NechP env))
              (py_round (MinEchoSpace p * of_int (m_NechP env)))"
  have "appends (\<lambda>ts. \<exists>tsss. ts = concat tsss \<and>
           list_all2 (\<lambda>ui ts. \<exists>tss. ts = concat tss \<and>
              list_all2 ?G (block_pings bs (length (Sv cd)) ui) tss) [0..<m] tsss)
          (fold (matecho_block cd (bottom_da p) p env [0..<M] bs) [0..<m])"
    by (rule appends_fold) (rule matecho_block_effect[OF envR M(2)])
  from appendsD[OF this targets_init(2)] obtain tsss where
    al: "aligned res" and ts: "targets res = concat tsss"
    and l: "list_all2 (\<lambda>ui ts. \<exists>tss. ts = concat tss \<and>
              list_all2 ?G (block_pings bs (length (Sv cd)) ui) tss) [0..<m] tsss"
    unfolding res_def M(1) by (auto simp: targets_init)
  from list_all2_concat_flatten[OF l] obtain tss where
    tss: "concat tsss = concat tss"
      "list_all2 ?G (concat (map (block_pings bs (length (Sv cd))) [0..<m])) tss" by blast
  obtain e where e: "e \<le> length (Sv cd)"
    "concat (map (block_pings bs (length (Sv cd))) [0..<m]) = [0..<e]"
    using concat_blocks_prefix by blast
  have "targets out = targets res" "aligned out = aligned res"
    unfolding out by (rule targets_unchanged; simp)+
  then show ?thesis
    using that[of dt tss e] dt al ts tss e unfolding envN by simp
qed


subsection \<open>The detections of a run, row by row\<close>

lemma row_simps:
  "t_ping (row out i) = Ping_number out ! i" "t_idx (row out i) = idx_r out ! i"
  "t_ts_comp (row out i) = TS_comp out ! i" "t_ts_uncomp (row out i) = TS_uncomp out ! i"
  "t_range (row out i) = Target_range out ! i" "t_plen (row out i) = Transmitted_pulse_length out ! i"
  by (simp_all add: row_def)

lemma grouped_rows:
  assumes al: "aligned out" and ts: "targets out = concat tss"
    and gr: "list_all2 (ping_group Q sep) [0..<e] tss"
  shows "\<forall>i < length (TS_comp out). Q (row out i)"
    and "\<forall>i j. i < j \<and> j < length (TS_comp out) \<and> Ping_number out ! i = Ping_number out ! j
           \<longrightarrow> int (idx_r out ! i) + sep \<le> int (idx_r out ! j)"
proof -
  show "\<forall>i < length (TS_comp out). Q (row out i)"
  proof (intro allI impI)
    fix i assume i: "i < length (TS_comp out)"
    then have "row out i \<in> set (targets out)"
      using targets_nth[OF al i] by (metis nth_mem)
    then have "row out i \<in> set (concat tss)" using ts by simp
    from groups_all[OF gr this] show "Q (row out i)" by (auto simp: ping_group_def)
  qed
  let ?S = "\<lambda>t t'. int (t_idx t) + sep \<le> int (t_idx t')"
  have "sorted_wrt (\<lambda>t t'. t_ping t = t_ping t' \<longrightarrow> ?S t t') (concat tss)"
    by (rule groups_sorted[OF gr]) (simp_all add: ping_group_def)
  then have s: "sorted_wrt (\<lambda>t t'. t_ping t = t_ping t' \<longrightarrow> ?S t t') (targets out)"
    using ts by simp
  show "\<forall>i j. i < j \<and> j < length (TS_comp out) \<and> Ping_number out ! i = Ping_number out ! j
           \<longrightarrow> int (idx_r out ! i) + sep \<le> int (idx_r out ! j)"
  proof (intro allI impI)
    fix i j
    assume a: "i < j \<and> j < length (TS_comp out) \<and> Ping_number out ! i = Ping_number out ! j"
    then have i: "i < length (TS_comp out)" and j: "j < length (TS_comp out)" by simp_all
    have "j < length (targets out)" using targets_nth(2)[OF al j] j by simp
    with s a have "t_ping (targets out ! i) = t_ping (targets out ! j) \<longrightarrow>
                   ?S (targets out ! i) (targets out ! j)"
      by (simp add: sorted_wrt_iff_nth_less)
    then show "int (idx_r out ! i) + sep \<le> int (idx_r out ! j)"
      using a targets_nth(1)[OF al i] targets_nth(1)[OF al j] by (simp add: row_simps)
  qed
qed

lemma esp3_rows:
  assumes "detect_esp3 ds params = Inr out"
  obtains p ch cd n where "params = Some p" "channel p = Some ch" "ds ch = Some cd"
    "\<not> out_of_range p" "esp3_Np cd p = Inr n"
    "\<forall>i < length (TS_comp out).
       esp3_recorded cd p (case sound_absorption cd of None \<Rightarrow> 0 | Some a \<Rightarrow> a)
         (pulse_length p) n (row out i)"
    "\<forall>i j. i < j \<and> j < length (TS_comp out) \<and> Ping_number out ! i = Ping_number out ! j
           \<longrightarrow> int (idx_r out ! i) + n \<le> int (idx_r out ! j)"
proof -
  from detect_esp3_Inr[OF assms] obtain p ch cd where
    d: "params = Some p" "channel p = Some ch" "ds ch = Some cd" "\<not> out_of_range p"
       "esp3_run cd p = Inr out" by blast
  from esp3_run_effect[OF d(5,4)] obtain n tss e where
    r: "esp3_Np cd p = Inr n" "aligned out" "targets out = concat tss"
       "list_all2 (ping_group (esp3_recorded cd p (case sound_absorption cd of None \<Rightarrow> 0 | Some a \<Rightarrow> a)
                   (pulse_length p) n) n) [0..<e] tss" by blast
  show ?thesis
    using that[OF d(1-4) r(1) grouped_rows[OF r(2,3,4)]] .
qed

lemma matecho_rows:
  assumes "detect_matecho ds params = Inr out"
  obtains p ch cd dt where "params = Some p" "channel p = Some ch" "ds ch = Some cd"
    "matecho_dt (matecho_dstep cd) (SoundSpeed p) = Inr dt"
    "\<forall>i < length (TS_comp out).
       matecho_recorded cd p (matecho_NechP (pulse_length p) dt) (row out i)"
    "\<forall>i j. i < j \<and> j < length (TS_comp out) \<and> Ping_number out ! i = Ping_number out ! j
           \<longrightarrow> int (idx_r out ! i) + py_round (MinEchoSpace p * of_int (matecho_NechP (pulse_length p) dt))
                 \<le> int (idx_r out ! j)"
proof -
  from detect_matecho_Inr[OF assms] obtain p ch cd where
    d: "params = Some p" "channel p = Some ch" "ds ch = Some cd" "matecho_run cd p = Inr out"
    by blast
  from matecho_run_effect[OF d(4)] obtain dt tss e where
    r: "matecho_dt (matecho_dstep cd) (SoundSpeed p) = Inr dt" "aligned out"
       "targets out = concat tss"
       "list_all2 (ping_group (matecho_recorded cd p (matecho_NechP (pulse_length p) dt))
                  (py_round (MinEchoSpace p * of_int (matecho_NechP (pulse_length p) dt))))
          [0..<e] tss" by blast
  show ?thesis
    using that[OF d(1-3) r(1) grouped_rows[OF r(2,3,4)]] .
qed




subsection \<open>The detectors on the example data\<close>

lemma ex_esp3_run:
  "detect_esp3 [''ch1'' \<mapsto> ex_ping13] (Some ex_params_esp3) = Inr ex_out_esp3"
  by code_simp

lemma ex_matecho_run:
  "detect_matecho [''ch1'' \<mapsto> ex_ping15] (Some ex_params_matecho) = Inr ex_out_matecho"
  by code_simp

lemma depth_increasing_sorted_wrt [code]:
  "depth_increasing D \<longleftrightarrow> sorted_wrt (\<lambda>a b. a = NaN \<or> b = NaN \<or> fge b a) D"
  unfolding depth_increasing_def sorted_wrt_iff_nth_less by blast



subsection \<open>Whole detections only\<close>

lemma fold_invariant:
  assumes "P s" "\<And>x s. x \<in> set xs \<Longrightarrow> P s \<Longrightarrow> P (f x s)"
  shows "P (fold f xs s)"
  using assms by (induction xs arbitrary: s) auto

lemma esp3_save_whole:
  "esp3_whole out \<Longrightarrow>
   esp3_whole (esp3_save out tc tu r rd rmin rmax idx ping tm lin left right pn plen)"
  by (simp add: esp3_whole_def saved_lengths_def angle_nav_lengths_def esp3_save_def)

lemma esp3_candidate_whole:
  assumes "esp3_whole out"
  shows "esp3_whole (esp3_candidate p alpha T n nst tms rows ping z d k out)"
  by (rule esp3_candidate_cases[of p alpha T n nst tms rows ping z d k out])
     (simp_all add: assms esp3_save_whole)

lemma esp3_ping_whole:
  assumes "esp3_whole out"
  shows "esp3_whole (esp3_ping p alpha T n nst tms rows ping z d out)"
  unfolding esp3_ping_def
  by (simp add: assms fold_invariant[where P = esp3_whole] esp3_candidate_whole)

lemma esp3_block_whole:
  assumes "esp3_whole out"
  shows "esp3_whole (esp3_block cd bb p alpha T n idx_r_tot bs ui out)"
  unfolding esp3_block_def Let_def
  by (simp add: assms fold_invariant[where P = esp3_whole] esp3_ping_whole)

lemma init_whole: "esp3_whole init_st_struct" "matecho_whole init_st_struct"
  by (simp_all add: esp3_whole_def matecho_whole_def saved_lengths_def angle_nav_lengths_def
      init_st_struct_def)

lemma count_whole:
  "esp3_whole out \<Longrightarrow> esp3_whole (out \<lparr> nb_valid_targets := n \<rparr>)"
  "matecho_whole out \<Longrightarrow> matecho_whole (out \<lparr> nb_valid_targets := n \<rparr>)"
  by (simp_all add: esp3_whole_def matecho_whole_def saved_lengths_def angle_nav_lengths_def)

lemma esp3_run_whole:
  assumes "esp3_run cd p = Inr out"
  shows "esp3_whole out \<and> nb_valid_targets out = length (TS_comp out)"
proof -
  define bb where "bb = bottom_da p"
  define alpha where "alpha = (case sound_absorption cd of None \<Rightarrow> 0 | Some a \<Rightarrow> a)"
  define bs where "bs = block_size (block_len p) (length (crop_idx_r_tot cd bb)) (length (Sv cd))"
  obtain n where n: "esp3_Np cd p = Inr n"
    using assms by (cases "esp3_Np cd p") (auto simp: esp3_run_def Let_def split: if_splits)
  define o' where "o' = fold (esp3_block cd bb p alpha (pulse_length p) n (crop_idx_r_tot cd bb) bs)
                          [0..<num_ite_esp3 bs (length (Sv cd))] init_st_struct"
  have out: "out = o' \<lparr> nb_valid_targets := length (TS_comp o') \<rparr>"
    using assms n
    by (auto simp: esp3_run_def Let_def o'_def bs_def alpha_def bb_def split: if_splits)
  have "esp3_whole o'"
    unfolding o'_def by (rule fold_invariant[where P = esp3_whole])
      (simp_all add: init_whole esp3_block_whole)
  then show ?thesis using out by (simp add: count_whole)
qed

lemma matecho_save_whole:
  "matecho_whole out \<Longrightarrow>
   matecho_whole (matecho_save out tc tu r rd rmin rmax idx ping tm lin before after pn plen
                    hv rl pt hg dd)"
  by (simp add: matecho_whole_def saved_lengths_def angle_nav_lengths_def matecho_save_def)

lemma matecho_candidate_whole:
  assumes "matecho_whole (snd st)"
  shows "matecho_whole (snd (matecho_candidate p env nst tms rows ping zP zTS zTSU rcol k st))"
  by (rule matecho_candidate_cases[where p = p and env = env and nst = nst and tms = tms
        and rows = rows and ping = ping and zP = zP and zTS = zTS and zTSU = zTSU
        and rcol = rcol and k = k and st = st])
     (simp_all add: assms matecho_save_whole)

lemma matecho_ping_whole:
  assumes "matecho_whole out"
  shows "matecho_whole (matecho_ping p env nst tms rows ping zP zTS zTSU rcol out)"
proof -
  have "matecho_whole (snd (matecho_scan p env nst tms rows ping zP zTS zTSU rcol out))"
    unfolding matecho_scan_def
    by (rule fold_invariant[where P = "\<lambda>st. matecho_whole (snd st)"])
       (simp_all add: assms matecho_candidate_whole)
  then show ?thesis using assms by (simp add: matecho_ping_def)
qed

lemma matecho_block_whole:
  assumes "matecho_whole out"
  shows "matecho_whole (matecho_block cd bb p env idx_r_tot bs ui out)"
  unfolding matecho_block_def Let_def
  by (rule fold_invariant[where P = matecho_whole])
     (simp_all add: assms matecho_block_ping_def matecho_ping_whole)

lemma matecho_run_whole:
  assumes "matecho_run cd p = Inr out"
  shows "matecho_whole out \<and> nb_valid_targets out = length (TS_comp out)"
proof -
  have "\<exists>env idx_r_tot bs m.
          out = (fold (matecho_block cd (bottom_da p) p env idx_r_tot bs) [0..<m] init_st_struct)
                  \<lparr> nb_valid_targets :=
                      length (TS_comp (fold (matecho_block cd (bottom_da p) p env idx_r_tot bs)
                                         [0..<m] init_st_struct)) \<rparr>"
    using assms unfolding matecho_run_def Let_def
    by (auto split: sum.splits if_splits)
  then obtain env idx_r_tot bs m where
    out: "out = (fold (matecho_block cd (bottom_da p) p env idx_r_tot bs) [0..<m] init_st_struct)
                  \<lparr> nb_valid_targets :=
                      length (TS_comp (fold (matecho_block cd (bottom_da p) p env idx_r_tot bs)
                                         [0..<m] init_st_struct)) \<rparr>"
    by blast
  have "matecho_whole (fold (matecho_block cd (bottom_da p) p env idx_r_tot bs) [0..<m] init_st_struct)"
    by (rule fold_invariant[where P = matecho_whole])
       (simp_all add: init_whole matecho_block_whole)
  then show ?thesis using out by (simp add: count_whole)
qed


subsection \<open>Configuration errors\<close>

lemma validate_params_ok: "validate_params p = Inr () \<longleftrightarrow> \<not> out_of_range p"
  by (auto simp: validate_params_def out_of_range_def)

lemma validate_params_error:
  "validate_params p = Inl e \<Longrightarrow> out_of_range p \<and> configuration_error e"
  by (auto simp: validate_params_def out_of_range_def configuration_error_def split: if_splits)

lemma esp3_run_not_config:
  "esp3_run cd p = Inl e \<Longrightarrow> \<not> configuration_error e \<and> \<not> missing_parameter_error e"
  by (auto simp: esp3_run_def Let_def esp3_Np_def derive_Np_def configuration_error_def
      missing_parameter_error_def split: if_splits sum.splits option.splits)

lemma fallback_1d_aligned_error:
  "fallback_1d_aligned vars names pt = Inl e \<Longrightarrow>
   e = ValueError ''index must be monotonic increasing or decreasing''"
  by (induction names)
     (auto simp: reindex_nearest_def split: option.splits navvar.splits sum.splits if_splits)

lemma nav_array_error:
  "nav_array vars names pt = Inl e \<Longrightarrow>
   e = ValueError ''index must be monotonic increasing or decreasing''"
  by (auto simp: nav_array_def dest: fallback_1d_aligned_error split: sum.splits option.splits)

lemma bind_err_Inl:
  "bind_err m f = Inl e \<Longrightarrow> m = Inl e \<or> (\<exists>x. m = Inr x \<and> f x = Inl e)"
  by (auto split: sum.splits)

lemma matecho_run_not_config:
  assumes "matecho_run cd p = Inl e"
  shows "\<not> configuration_error e \<and> \<not> missing_parameter_error e"
proof -
  have "e = ValueError ''index must be monotonic increasing or decreasing'' \<or> e = IndexError \<or>
        e = ZeroDivisionError \<or>
        e = ValueError ''zero-size array to reduction operation fmax which has no identity''"
    using assms unfolding matecho_run_def Let_def
    by (auto dest!: bind_err_Inl nav_array_error simp: matecho_dt_def split: if_splits flt.splits)
  then show ?thesis
    by (auto simp: configuration_error_def missing_parameter_error_def)
qed

text \<open>
  Claim C7, as amended. Variant A: without a channel (or without \<^verbatim>\<open>params\<close>) the
  run ends with the missing-parameter error; with a channel and a configuration that is
  out of range (pulse type not CW, \<open>TS_threshold\<close> outside [-120, -20], \<open>PLDL\<close> outside
  [1, 30], a normalised pulse length bound outside [0, 10], \<open>block_len \<le> 0\<close>) it ends
  with a configuration error, and no output structure is returned; with a channel and a
  configuration in range it ends with no configuration or missing-parameter error.
  Variant B checks only that \<^verbatim>\<open>params\<close> is given and names a channel: it never raises
  a configuration error.
\<close>

theorem config_errors_before_blocks:
  "detect_esp3 ds None = Inl (ValueError ''params['channel'] is required.'') \<and>
   (channel p = None \<longrightarrow>
      detect_esp3 ds (Some p) = Inl (ValueError ''params['channel'] is required.'') \<and>
      detect_matecho ds (Some p) = Inl (ValueError ''params['channel'] is required.'')) \<and>
   (channel p \<noteq> None \<and> out_of_range p \<longrightarrow>
      (\<exists>e. detect_esp3 ds (Some p) = Inl e \<and> configuration_error e)) \<and>
   (channel p \<noteq> None \<and> \<not> out_of_range p \<longrightarrow>
      \<not> (\<exists>e. detect_esp3 ds (Some p) = Inl e \<and>
                (configuration_error e \<or> missing_parameter_error e))) \<and>
   \<not> (\<exists>e. detect_matecho ds (Some p) = Inl e \<and> configuration_error e)"
proof (intro conjI impI)
  show "detect_esp3 ds None = Inl (ValueError ''params['channel'] is required.'')"
    by (simp add: detect_esp3_def)
next
  assume "channel p = None"
  then show "detect_esp3 ds (Some p) = Inl (ValueError ''params['channel'] is required.'')"
    and "detect_matecho ds (Some p) = Inl (ValueError ''params['channel'] is required.'')"
    by (simp_all add: detect_esp3_def detect_matecho_def)
next
  assume a: "channel p \<noteq> None \<and> out_of_range p"
  then obtain e where e: "validate_params p = Inl e"
    using validate_params_ok[of p] by (cases "validate_params p") auto
  then have "configuration_error e" using validate_params_error by blast
  moreover have "detect_esp3 ds (Some p) = Inl e"
    using a e by (auto simp: detect_esp3_def)
  ultimately show "\<exists>e. detect_esp3 ds (Some p) = Inl e \<and> configuration_error e" by blast
next
  assume a: "channel p \<noteq> None \<and> \<not> out_of_range p"
  then have v: "validate_params p = Inr ()" using validate_params_ok by blast
  show "\<not> (\<exists>e. detect_esp3 ds (Some p) = Inl e \<and>
                (configuration_error e \<or> missing_parameter_error e))"
  proof
    assume "\<exists>e. detect_esp3 ds (Some p) = Inl e \<and> (configuration_error e \<or> missing_parameter_error e)"
    then obtain e where d: "detect_esp3 ds (Some p) = Inl e"
      and c: "configuration_error e \<or> missing_parameter_error e" by blast
    from a obtain ch where ch: "channel p = Some ch" by auto
    from d ch v have "(ds ch = None \<and> e = KeyError) \<or> (\<exists>cd. esp3_run cd p = Inl e)"
      by (auto simp: detect_esp3_def split: option.splits)
    then show False
    proof
      assume "ds ch = None \<and> e = KeyError"
      then show False using c by (simp add: configuration_error_def missing_parameter_error_def)
    next
      assume "\<exists>cd. esp3_run cd p = Inl e"
      then show False using c esp3_run_not_config by blast
    qed
  qed
next
  show "\<not> (\<exists>e. detect_matecho ds (Some p) = Inl e \<and> configuration_error e)"
  proof
    assume "\<exists>e. detect_matecho ds (Some p) = Inl e \<and> configuration_error e"
    then obtain e where d: "detect_matecho ds (Some p) = Inl e" and c: "configuration_error e"
      by blast
    from d have "e = ValueError ''params['channel'] is required.'' \<or> e = KeyError \<or>
                 (\<exists>cd. matecho_run cd p = Inl e)"
      by (auto simp: detect_matecho_def split: option.splits)
    then consider "e = ValueError ''params['channel'] is required.''" | "e = KeyError"
      | "\<exists>cd. matecho_run cd p = Inl e" by blast
    then show False
    proof cases
      case 1
      then show False using c by (simp add: configuration_error_def)
    next
      case 2
      then show False using c by (simp add: configuration_error_def)
    next
      case 3
      then show False using c matecho_run_not_config by blast
    qed
  qed
qed

text \<open>
  Claim C7 as stated fails for variant B: with \<open>TS_threshold = -130\<close>, outside
  [-120, -20], the run raises nothing and returns its two detections.
\<close>

theorem matecho_accepts_unvalidated_threshold:
  "out_of_range (ex_params_matecho \<lparr> TS_threshold := - 130 \<rparr>) \<and>
   detect_matecho [''ch1'' \<mapsto> ex_ping15] (Some (ex_params_matecho \<lparr> TS_threshold := - 130 \<rparr>))
     = Inr ex_out_matecho"
  by code_simp

theorem config_errors_before_blocks_witness:
  "channel (ex_params_esp3 \<lparr> channel := None \<rparr>) = None \<and>
   detect_esp3 [''ch1'' \<mapsto> ex_ping13] (Some (ex_params_esp3 \<lparr> channel := None \<rparr>))
     = Inl (ValueError ''params['channel'] is required.'') \<and>
   channel (ex_params_esp3 \<lparr> PLDL := 40 \<rparr>) \<noteq> None \<and> out_of_range (ex_params_esp3 \<lparr> PLDL := 40 \<rparr>) \<and>
   (\<exists>e. detect_esp3 [''ch1'' \<mapsto> ex_ping13] (Some (ex_params_esp3 \<lparr> PLDL := 40 \<rparr>)) = Inl e \<and>
        configuration_error e) \<and>
   channel ex_params_esp3 \<noteq> None \<and> \<not> out_of_range ex_params_esp3 \<and>
   \<not> (\<exists>e. detect_esp3 [''ch1'' \<mapsto> ex_ping13] (Some ex_params_esp3) = Inl e \<and>
             (configuration_error e \<or> missing_parameter_error e))"
proof -
  have h1: "channel (ex_params_esp3 \<lparr> channel := None \<rparr>) = None" by simp
  have h2: "channel (ex_params_esp3 \<lparr> PLDL := 40 \<rparr>) \<noteq> None \<and> out_of_range (ex_params_esp3 \<lparr> PLDL := 40 \<rparr>)"
    by (simp add: ex_params_esp3_def DEFAULTS_def out_of_range_def)
  have h3: "channel ex_params_esp3 \<noteq> None \<and> \<not> out_of_range ex_params_esp3"
    by (simp add: ex_params_esp3_def DEFAULTS_def out_of_range_def)
  show ?thesis
    using h1 h2 h3
      config_errors_before_blocks[of "[''ch1'' \<mapsto> ex_ping13]" "ex_params_esp3 \<lparr> channel := None \<rparr>"]
      config_errors_before_blocks[of "[''ch1'' \<mapsto> ex_ping13]" "ex_params_esp3 \<lparr> PLDL := 40 \<rparr>"]
      config_errors_before_blocks[of "[''ch1'' \<mapsto> ex_ping13]" "ex_params_esp3"]
    by blast
qed


subsection \<open>Threshold on the compensated target strength\<close>




subsection \<open>Detections are recorded whole\<close>

text \<open>
  Claim C2, as amended. In the structure returned by variant B every per-detection list
  has length \<open>nb_valid_targets\<close>: a saved candidate appends to all of them, any other
  candidate to none. In the structure returned by variant A this holds of the sixteen
  lists that its save block appends to (target strengths, ranges, indices, timestamp,
  envelope widths, pulse lengths, the two angle deviations), while the lists
  \<open>Angle_minor_axis\<close>, \<open>Angle_major_axis\<close>, \<open>Heave\<close>, \<open>Roll\<close>, \<open>Pitch\<close>, \<open>Heading\<close> and
  \<open>Dist\<close> are never appended to and stay empty.
\<close>

theorem detections_recorded_whole:
  "(detect_matecho ds params = Inr out \<longrightarrow>
      (\<forall>l \<in> set (saved_lengths out @ angle_nav_lengths out). l = nb_valid_targets out)) \<and>
   (detect_esp3 ds params = Inr out \<longrightarrow>
      (\<forall>l \<in> set (saved_lengths out). l = nb_valid_targets out) \<and>
      (\<forall>l \<in> set (angle_nav_lengths out). l = 0))"
proof (intro conjI impI)
  assume d: "detect_matecho ds params = Inr out"
  from detect_matecho_Inr[OF d] obtain p ch cd where "matecho_run cd p = Inr out" by blast
  from matecho_run_whole[OF this]
  show "\<forall>l \<in> set (saved_lengths out @ angle_nav_lengths out). l = nb_valid_targets out"
    unfolding matecho_whole_def by simp
next
  assume d: "detect_esp3 ds params = Inr out"
  from detect_esp3_Inr[OF d] obtain p ch cd where "esp3_run cd p = Inr out" by blast
  from esp3_run_whole[OF this]
  have w: "esp3_whole out" and n: "nb_valid_targets out = length (TS_comp out)" by simp_all
  show "\<forall>l \<in> set (saved_lengths out). l = nb_valid_targets out"
    using w n unfolding esp3_whole_def by simp
  show "\<forall>l \<in> set (angle_nav_lengths out). l = 0"
    using w unfolding esp3_whole_def by simp
qed

text \<open>
  Claim C2 as stated fails for variant A: on the example it returns two detections, and
  its navigation and angle lists are empty, so the per-detection lists do not all have
  the same length.
\<close>

theorem esp3_leaves_navigation_lists_empty:
  "detect_esp3 [''ch1'' \<mapsto> ex_ping13] (Some ex_params_esp3) = Inr ex_out_esp3 \<and>
   length (TS_comp ex_out_esp3) = 2 \<and> length (Heave ex_out_esp3) = 0 \<and>
   length (Angle_minor_axis ex_out_esp3) = 0"
  by (simp add: ex_esp3_run) (simp add: ex_out_esp3_def)

theorem detections_recorded_whole_witness:
  "detect_matecho [''ch1'' \<mapsto> ex_ping15] (Some ex_params_matecho) = Inr ex_out_matecho \<and>
   set (saved_lengths ex_out_matecho @ angle_nav_lengths ex_out_matecho)
     = {nb_valid_targets ex_out_matecho} \<and>
   detect_esp3 [''ch1'' \<mapsto> ex_ping13] (Some ex_params_esp3) = Inr ex_out_esp3 \<and>
   set (saved_lengths ex_out_esp3) = {nb_valid_targets ex_out_esp3} \<and>
   set (angle_nav_lengths ex_out_esp3) = {0}"
proof -
  have ne: "saved_lengths out \<noteq> []" "angle_nav_lengths out \<noteq> []" for out
    by (simp_all add: saved_lengths_def angle_nav_lengths_def)
  have single: "set xs = {n}" if "xs \<noteq> []" "\<forall>l \<in> set xs. l = n" for xs :: "nat list" and n
    using that by (cases xs) auto
  note b = detections_recorded_whole[of "[''ch1'' \<mapsto> ex_ping15]" "Some ex_params_matecho"
             ex_out_matecho, THEN conjunct1, rule_format, OF ex_matecho_run]
  note a = detections_recorded_whole[of "[''ch1'' \<mapsto> ex_ping13]" "Some ex_params_esp3"
             ex_out_esp3, THEN conjunct2, rule_format, OF ex_esp3_run]
  have b': "\<forall>l \<in> set (saved_lengths ex_out_matecho @ angle_nav_lengths ex_out_matecho).
              l = nb_valid_targets ex_out_matecho"
    using b by blast
  have a1: "\<forall>l \<in> set (saved_lengths ex_out_esp3). l = nb_valid_targets ex_out_esp3"
    and a2: "\<forall>l \<in> set (angle_nav_lengths ex_out_esp3). l = 0"
    using a by blast+
  show ?thesis
    using ex_matecho_run ex_esp3_run single[OF _ b'] single[OF ne(1) a1] single[OF ne(2) a2] ne
    by simp
qed


subsection \<open>Pulse length bounds of variant A\<close>

lemma esp3_Np_ge:
  assumes "esp3_Np cd p = Inr n"
  shows "3 \<le> n"
proof -
  have d: "3 \<le> m" if "derive_Np x c T = Inr m" for x c T m
    using that by (auto simp: derive_Np_def split: if_splits)
  show ?thesis
    using assms d unfolding esp3_Np_def Let_def
    by (cases "Np p") (auto split: if_splits)
qed

lemma esp3_recorded_plen:
  assumes "esp3_recorded cd p alpha T n t"
  shows "min_len n p \<le> int (t_plen t) \<and> int (t_plen t) \<le> max_len n p"
  using assms unfolding esp3_recorded_def by blast

text \<open>
  Claim C4, as amended. In variant A every recorded \<open>Transmitted_pulse_length\<close> lies
  between \<open>min_len\<close> and \<open>max_len\<close>, where, \<open>Np\<close> being the pulse length in samples of
  the run, \<open>min_len = max(1, floor(Np * MinNormPL))\<close> (the product is truncated, not
  rounded) and \<open>max_len = max(1, ceil(Np * MaxNormPL))\<close>.
\<close>

theorem pulse_length_within_bounds:
  assumes "detect_esp3 ds (Some p) = Inr out" and "channel p = Some ch" and "ds ch = Some cd"
    and i: "i < length (TS_comp out)"
  shows "\<exists>n. esp3_Np cd p = Inr n \<and>
             min_len n p = max 1 \<lfloor>of_int n * MinNormPL p\<rfloor> \<and>
             max_len n p = max 1 \<lceil>of_int n * MaxNormPL p\<rceil> \<and>
             min_len n p \<le> int (Transmitted_pulse_length out ! i) \<and>
             int (Transmitted_pulse_length out ! i) \<le> max_len n p"
proof (rule esp3_rows[OF assms(1)])
  fix p' ch' cd' n
  assume p: "Some p = Some p'" and ch: "channel p' = Some ch'" and cd: "ds ch' = Some cd'"
    and ok: "\<not> out_of_range p'" and n: "esp3_Np cd' p' = Inr n"
    and r: "\<forall>i < length (TS_comp out).
          esp3_recorded cd' p' (case sound_absorption cd' of None \<Rightarrow> 0 | Some a \<Rightarrow> a)
            (pulse_length p') n (row out i)"
  from p have pp: "p' = p" by simp
  with ch assms(2) have "ch' = ch" by simp
  with cd assms(3) have cc: "cd' = cd" by simp
  from r i have rec: "esp3_recorded cd' p' (case sound_absorption cd' of None \<Rightarrow> 0 | Some a \<Rightarrow> a)
            (pulse_length p') n (row out i)" by blast
  have n3: "3 \<le> n" using n by (rule esp3_Np_ge)
  have "0 \<le> MinNormPL p" using ok pp by (simp add: out_of_range_def)
  then have "0 \<le> of_int n * MinNormPL p" using n3 by simp
  then have mn: "min_len n p = max 1 \<lfloor>of_int n * MinNormPL p\<rfloor>"
    by (simp add: min_len_def py_int_def)
  have mx: "max_len n p = max 1 \<lceil>of_int n * MaxNormPL p\<rceil>" by (simp add: max_len_def)
  note b = esp3_recorded_plen[OF rec, unfolded row_simps pp]
  from n mn mx b show ?thesis unfolding pp cc by blast
qed

text \<open>
  Claim C4 as stated fails: with \<open>Np = 3\<close> and \<open>MinNormPL = 0.6\<close> the rounded bound
  \<open>round(Np * MinNormPL)\<close> is 2, yet detections of pulse length 1 are recorded.
\<close>

theorem esp3_min_len_truncates:
  "esp3_Np ex_ping13 ex_params_short = Inr 3 \<and>
   py_round (3 * MinNormPL ex_params_short) = 2 \<and>
   map_sum id Transmitted_pulse_length
     (detect_esp3 [''ch1'' \<mapsto> ex_ping13] (Some ex_params_short)) = Inr [1, 1]"
  by code_simp

theorem pulse_length_within_bounds_witness:
  "detect_esp3 [''ch1'' \<mapsto> ex_ping13] (Some ex_params_esp3) = Inr ex_out_esp3 \<and>
   channel ex_params_esp3 = Some ''ch1'' \<and>
   [''ch1'' \<mapsto> ex_ping13] ''ch1'' = Some ex_ping13 \<and>
   (0 :: nat) < length (TS_comp ex_out_esp3) \<and>
   (\<exists>n. esp3_Np ex_ping13 ex_params_esp3 = Inr n \<and>
        min_len n ex_params_esp3 = max 1 \<lfloor>of_int n * MinNormPL ex_params_esp3\<rfloor> \<and>
        max_len n ex_params_esp3 = max 1 \<lceil>of_int n * MaxNormPL ex_params_esp3\<rceil> \<and>
        min_len n ex_params_esp3 \<le> int (Transmitted_pulse_length ex_out_esp3 ! 0) \<and>
        int (Transmitted_pulse_length ex_out_esp3 ! 0) \<le> max_len n ex_params_esp3)"
proof -
  have a: "channel ex_params_esp3 = Some ''ch1''" by (simp add: ex_params_esp3_def)
  have b: "[''ch1'' \<mapsto> ex_ping13] ''ch1'' = Some ex_ping13" by simp
  have c: "(0 :: nat) < length (TS_comp ex_out_esp3)" by (simp add: ex_out_esp3_def)
  note d = pulse_length_within_bounds[OF ex_esp3_run a b c]
  show ?thesis by (intro conjI) (rule ex_esp3_run a b c d)+
qed


subsection \<open>No detection at or below the bottom\<close>






subsection \<open>Minimum separation within a ping\<close>

text \<open>
  Claim C6. In the output of variant A any two detections of the same ping have sample
  indices at least \<open>Np\<close> apart, \<open>Np\<close> being the pulse length in samples of the run; in
  the output of variant B they are at least \<open>round(MinEchoSpace * NechP)\<close> apart. In
  both the detections of a ping are recorded in increasing sample order.
\<close>

theorem detections_of_a_ping_are_separated:
  "(detect_esp3 ds (Some p) = Inr out \<and> channel p = Some ch \<and> ds ch = Some cd \<and>
    esp3_Np cd p = Inr n \<longrightarrow>
      (\<forall>i j. i < j \<and> j < length (TS_comp out) \<and> Ping_number out ! i = Ping_number out ! j
         \<longrightarrow> int (idx_r out ! i) + n \<le> int (idx_r out ! j))) \<and>
   (detect_matecho ds (Some p) = Inr out \<and> channel p = Some ch \<and> ds ch = Some cd \<and>
    matecho_dt (matecho_dstep cd) (SoundSpeed p) = Inr dt \<longrightarrow>
      (\<forall>i j. i < j \<and> j < length (TS_comp out) \<and> Ping_number out ! i = Ping_number out ! j
         \<longrightarrow> int (idx_r out ! i) +
               py_round (MinEchoSpace p * of_int (matecho_NechP (pulse_length p) dt))
             \<le> int (idx_r out ! j)))"
proof (intro conjI impI)
  assume a: "detect_esp3 ds (Some p) = Inr out \<and> channel p = Some ch \<and> ds ch = Some cd \<and>
             esp3_Np cd p = Inr n"
  then have d: "detect_esp3 ds (Some p) = Inr out" by simp
  show "\<forall>i j. i < j \<and> j < length (TS_comp out) \<and> Ping_number out ! i = Ping_number out ! j
         \<longrightarrow> int (idx_r out ! i) + n \<le> int (idx_r out ! j)"
  proof (rule esp3_rows[OF d])
    fix p' ch' cd' n'
    assume p: "Some p = Some p'" and ch: "channel p' = Some ch'" and cd: "ds ch' = Some cd'"
      and n: "esp3_Np cd' p' = Inr n'"
      and s: "\<forall>i j. i < j \<and> j < length (TS_comp out) \<and> Ping_number out ! i = Ping_number out ! j
           \<longrightarrow> int (idx_r out ! i) + n' \<le> int (idx_r out ! j)"
    from p have pp: "p' = p" by simp
    with ch a have "ch' = ch" by simp
    with cd a have cc: "cd' = cd" by simp
    from n a have "n' = n" unfolding pp cc by simp
    with s show ?thesis by simp
  qed
next
  assume a: "detect_matecho ds (Some p) = Inr out \<and> channel p = Some ch \<and> ds ch = Some cd \<and>
             matecho_dt (matecho_dstep cd) (SoundSpeed p) = Inr dt"
  then have d: "detect_matecho ds (Some p) = Inr out" by simp
  show "\<forall>i j. i < j \<and> j < length (TS_comp out) \<and> Ping_number out ! i = Ping_number out ! j
         \<longrightarrow> int (idx_r out ! i) +
               py_round (MinEchoSpace p * of_int (matecho_NechP (pulse_length p) dt))
             \<le> int (idx_r out ! j)"
  proof (rule matecho_rows[OF d])
    fix p' ch' cd' dt'
    assume p: "Some p = Some p'" and ch: "channel p' = Some ch'" and cd: "ds ch' = Some cd'"
      and n: "matecho_dt (matecho_dstep cd') (SoundSpeed p') = Inr dt'"
      and s: "\<forall>i j. i < j \<and> j < length (TS_comp out) \<and> Ping_number out ! i = Ping_number out ! j
           \<longrightarrow> int (idx_r out ! i) +
                 py_round (MinEchoSpace p' * of_int (matecho_NechP (pulse_length p') dt'))
               \<le> int (idx_r out ! j)"
    from p have pp: "p' = p" by simp
    with ch a have "ch' = ch" by simp
    with cd a have cc: "cd' = cd" by simp
    from n a have "dt' = dt" unfolding pp cc by simp
    with s show ?thesis unfolding pp by simp
  qed
qed

theorem detections_of_a_ping_are_separated_witness:
  "(detect_esp3 [''ch1'' \<mapsto> ex_ping13] (Some ex_params_esp3) = Inr ex_out_esp3 \<and>
    esp3_Np ex_ping13 ex_params_esp3 = Inr 3 \<and>
    Ping_number ex_out_esp3 ! 0 = Ping_number ex_out_esp3 ! 1 \<and>
    int (idx_r ex_out_esp3 ! 0) + 3 \<le> int (idx_r ex_out_esp3 ! 1)) \<and>
   (detect_matecho [''ch1'' \<mapsto> ex_ping15] (Some ex_params_matecho) = Inr ex_out_matecho \<and>
    matecho_dt (matecho_dstep ex_ping15) (SoundSpeed ex_params_matecho) = Inr (1 / 1000) \<and>
    py_round (MinEchoSpace ex_params_matecho *
              of_int (matecho_NechP (pulse_length ex_params_matecho) (1 / 1000))) = 3 \<and>
    Ping_number ex_out_matecho ! 0 = Ping_number ex_out_matecho ! 1 \<and>
    int (idx_r ex_out_matecho ! 0) +
      py_round (MinEchoSpace ex_params_matecho *
                of_int (matecho_NechP (pulse_length ex_params_matecho) (1 / 1000)))
      \<le> int (idx_r ex_out_matecho ! 1))"
proof -
  have a: "channel ex_params_esp3 = Some ''ch1''" "channel ex_params_matecho = Some ''ch1''"
    by (simp_all add: ex_params_esp3_def ex_params_matecho_def)
  have b: "[''ch1'' \<mapsto> ex_ping13] ''ch1'' = Some ex_ping13"
    "[''ch1'' \<mapsto> ex_ping15] ''ch1'' = Some ex_ping15" by simp_all
  have n: "esp3_Np ex_ping13 ex_params_esp3 = Inr 3"
    "matecho_dt (matecho_dstep ex_ping15) (SoundSpeed ex_params_matecho) = Inr (1 / 1000)"
    "py_round (MinEchoSpace ex_params_matecho *
              of_int (matecho_NechP (pulse_length ex_params_matecho) (1 / 1000))) = 3"
    by code_simp+
  have c: "(0 :: nat) < 1 \<and> 1 < length (TS_comp ex_out_esp3) \<and>
           Ping_number ex_out_esp3 ! 0 = Ping_number ex_out_esp3 ! 1"
    "(0 :: nat) < 1 \<and> 1 < length (TS_comp ex_out_matecho) \<and>
           Ping_number ex_out_matecho ! 0 = Ping_number ex_out_matecho ! 1"
    by (simp_all add: ex_out_esp3_def ex_out_matecho_def)
  note t1 = detections_of_a_ping_are_separated[of "[''ch1'' \<mapsto> ex_ping13]" ex_params_esp3
              ex_out_esp3 "''ch1''" ex_ping13 3, THEN conjunct1, rule_format,
              OF conjI[OF ex_esp3_run conjI[OF a(1) conjI[OF b(1) n(1)]]] c(1)]
  note t2 = detections_of_a_ping_are_separated[of "[''ch1'' \<mapsto> ex_ping15]" ex_params_matecho
              ex_out_matecho "''ch1''" ex_ping15 _ "1 / 1000", THEN conjunct2, rule_format,
              OF conjI[OF ex_matecho_run conjI[OF a(2) conjI[OF b(2) n(2)]]] c(2)]
  from c have e: "Ping_number ex_out_esp3 ! 0 = Ping_number ex_out_esp3 ! 1"
    "Ping_number ex_out_matecho ! 0 = Ping_number ex_out_matecho ! 1" by simp_all
  show ?thesis
    by (intro conjI) (rule ex_esp3_run ex_matecho_run n e t1 t2)+
qed


subsection \<open>Navigation values of unmatched pings\<close>

text \<open>
  Claim C8. The navigation lookup gives zeros only when no variable of the given names
  exists. When the variable exists and a ping has no sample within 500 ms, the value
  for that ping is NaN, not zero: here the only heave sample lies ten seconds after the
  ping. Variant B then finds no detection in the ping, where with a heave of zero (no
  heave variable at all) it finds two.
\<close>

theorem unmatched_ping_gets_nan:
  "nav_array (variables ex_ping15_far_heave) [''heave'', ''Heave'', ''vertical_offset'']
     (ping_time ex_ping15_far_heave) = Inr [NaN] \<and>
   nav_array (variables ex_ping15) [''heave'', ''Heave'', ''vertical_offset'']
     (ping_time ex_ping15) = Inr [Fin 0] \<and>
   detect_matecho [''ch1'' \<mapsto> ex_ping15_far_heave] (Some ex_params_matecho)
     = Inr init_st_struct \<and>
   detect_matecho [''ch1'' \<mapsto> ex_ping15] (Some ex_params_matecho) = Inr ex_out_matecho"
  by code_simp


subsection \<open>Time-varied gain at the peak, variant A\<close>

lemma esp3_recorded_tvg:
  assumes "esp3_recorded cd p alpha T n t"
  shows "\<exists>pk r.
           Sv cd ! t_ping t ! t_idx t = Fin pk \<and> t_range t = Fin r \<and>
           (\<forall>x. depth cd ! t_ping t ! t_idx t = Fin x \<longrightarrow> r = x) \<and>
           0 < r - SoundSpeed p * T / 4 \<and>
           t_ts_uncomp t =
             Fin (pk + (40 * log10 (r - SoundSpeed p * T / 4) + 2 * alpha * (r - SoundSpeed p * T / 4))) \<and>
           t_ts_comp t = t_ts_uncomp t"
  using assms unfolding esp3_recorded_def by blast

text \<open>
  Claim C9. For every detection recorded by variant A, with \<open>pk\<close> the cell of the
  dataset's signal at the detection's ping and sample (the signal is searched as it is
  given, without any compensation), \<open>r\<close> the recorded range (the depth of that cell when
  it is finite) and \<open>r_eff = r - c T / 4\<close>: \<open>r_eff\<close> is positive, the uncompensated
  target strength is \<open>pk + 40 log10(r_eff) + 2 \<alpha> r_eff\<close>, and the compensated target
  strength equals the uncompensated one.
\<close>

theorem esp3_ts_is_peak_plus_tvg:
  assumes "detect_esp3 ds (Some p) = Inr out" and "channel p = Some ch" and "ds ch = Some cd"
    and i: "i < length (TS_comp out)"
  shows "\<exists>pk r.
           Sv cd ! (Ping_number out ! i) ! (idx_r out ! i) = Fin pk \<and>
           Target_range out ! i = Fin r \<and>
           (\<forall>x. depth cd ! (Ping_number out ! i) ! (idx_r out ! i) = Fin x \<longrightarrow> r = x) \<and>
           0 < r - SoundSpeed p * pulse_length p / 4 \<and>
           TS_uncomp out ! i =
             Fin (pk + (40 * log10 (r - SoundSpeed p * pulse_length p / 4) +
                        2 * (case sound_absorption cd of None \<Rightarrow> 0 | Some a \<Rightarrow> a) *
                          (r - SoundSpeed p * pulse_length p / 4))) \<and>
           TS_comp out ! i = TS_uncomp out ! i"
proof (rule esp3_rows[OF assms(1)])
  fix p' ch' cd' n
  assume p: "Some p = Some p'" and ch: "channel p' = Some ch'" and cd: "ds ch' = Some cd'"
    and r: "\<forall>i < length (TS_comp out).
          esp3_recorded cd' p' (case sound_absorption cd' of None \<Rightarrow> 0 | Some a \<Rightarrow> a)
            (pulse_length p') n (row out i)"
  from p have pp: "p' = p" by simp
  with ch assms(2) have "ch' = ch" by simp
  with cd assms(3) have cc: "cd' = cd" by simp
  from r i have "esp3_recorded cd' p' (case sound_absorption cd' of None \<Rightarrow> 0 | Some a \<Rightarrow> a)
            (pulse_length p') n (row out i)" by blast
  then have rec: "esp3_recorded cd p (case sound_absorption cd of None \<Rightarrow> 0 | Some a \<Rightarrow> a)
            (pulse_length p) n (row out i)" unfolding pp cc .
  from esp3_recorded_tvg[OF rec] show ?thesis unfolding row_simps .
qed

theorem esp3_ts_is_peak_plus_tvg_witness:
  "detect_esp3 [''ch1'' \<mapsto> ex_ping13] (Some ex_params_esp3) = Inr ex_out_esp3 \<and>
   channel ex_params_esp3 = Some ''ch1'' \<and>
   [''ch1'' \<mapsto> ex_ping13] ''ch1'' = Some ex_ping13 \<and>
   (1 :: nat) < length (TS_comp ex_out_esp3) \<and>
   (\<exists>pk r.
      Sv ex_ping13 ! (Ping_number ex_out_esp3 ! 1) ! (idx_r ex_out_esp3 ! 1) = Fin pk \<and>
      Target_range ex_out_esp3 ! 1 = Fin r \<and>
      (\<forall>x. depth ex_ping13 ! (Ping_number ex_out_esp3 ! 1) ! (idx_r ex_out_esp3 ! 1) = Fin x
           \<longrightarrow> r = x) \<and>
      0 < r - SoundSpeed ex_params_esp3 * pulse_length ex_params_esp3 / 4 \<and>
      TS_uncomp ex_out_esp3 ! 1 =
        Fin (pk + (40 * log10 (r - SoundSpeed ex_params_esp3 * pulse_length ex_params_esp3 / 4) +
                   2 * (case sound_absorption ex_ping13 of None \<Rightarrow> 0 | Some a \<Rightarrow> a) *
                     (r - SoundSpeed ex_params_esp3 * pulse_length ex_params_esp3 / 4))) \<and>
      TS_comp ex_out_esp3 ! 1 = TS_uncomp ex_out_esp3 ! 1)"
proof -
  have a: "channel ex_params_esp3 = Some ''ch1''" by (simp add: ex_params_esp3_def)
  have b: "[''ch1'' \<mapsto> ex_ping13] ''ch1'' = Some ex_ping13" by simp
  have c: "(1 :: nat) < length (TS_comp ex_out_esp3)" by (simp add: ex_out_esp3_def)
  note d = esp3_ts_is_peak_plus_tvg[OF ex_esp3_run a b c]
  show ?thesis by (intro conjI) (rule ex_esp3_run a b c d)+
qed


subsection \<open>A kept peak that is not saved, variant B\<close>

text \<open>
  Claim C10. On the example with infinite depths, candidate 8 passes every gate and its
  envelope (samples 7 and 8) has no finite range: it is added to the list of kept peaks
  and nothing is appended to the output. Candidate 10, two samples further and closer
  than the spacing of \<open>round(MinEchoSpace * NechP) = 3\<close> samples, is then rejected,
  although from an empty list of kept peaks it is saved. The run returns no detection
  and \<open>nb_valid_targets = 0\<close>.
\<close>

theorem unsaved_peak_suppresses_neighbour:
  "width_left ex_zP_inf (fsub (ex_zP_inf ! 8) (Fin 6)) 8 = 7 \<and>
   width_right ex_zP_inf (fsub (ex_zP_inf ! 8) (Fin 6)) 8 = 8 \<and>
   finite_values (py_slice ex_rcol_inf 7 9) = [] \<and>
   ex_candidate_inf 8 ([], init_st_struct) = ([8], init_st_struct) \<and>
   py_round (MinEchoSpace ex_params_inf * of_int (m_NechP ex_env_inf)) = 3 \<and>
   ex_candidate_inf 10 ([8], init_st_struct) = ([8], init_st_struct) \<and>
   fst (ex_candidate_inf 10 ([], init_st_struct)) = [10] \<and>
   idx_r (snd (ex_candidate_inf 10 ([], init_st_struct))) = [10] \<and>
   detect_matecho [''ch1'' \<mapsto> ex_ping15_inf] (Some ex_params_inf) = Inr init_st_struct \<and>
   nb_valid_targets init_st_struct = 0"
  by code_simp

end
